(* ===== verification/Prelude.thy ===== *)
theory Prelude
  imports Complex_Main "HOL-Library.Sublist" "HOL-Library.Multiset"
begin

text \<open>
  Shared vocabulary of the big-O calculator development.  The calculator
  (\<open>src/calculator.js\<close>, staged as \<open>src/unnamed/part_000\<close>) is written in
  JavaScript on IEEE doubles; the development reads every time, RMSE and
  confidence as an exact \<open>real\<close> and every input size as a \<open>nat\<close>.
  This theory holds
  \<^item> the data point record that the benchmarker produces and the classifier
    consumes (the \<open>{n, time}\<close> objects of \<open>runAnalysis\<close>);
  \<^item> the few JavaScript built-ins the calculator relies on, written out:
    the numeric \<open>x || d\<close> default (\<open>js_or\<close>), \<open>Math.round\<close> (\<open>js_round\<close>),
    \<open>String.prototype.includes\<close> (\<open>str_includes\<close>), and the arithmetic mean of
    the \<open>simple-statistics\<close> package, which throws on an empty array
    (\<open>ss_mean\<close>, \<open>None\<close> for the throw);
  \<^item> the generic lemmas on these, on sums of lists and on stable sorting
    that the component theories share, collected in \<open>model_defs\<close>
    (definitions to unfold when a closed instance is evaluated).
\<close>

named_theorems model_defs "definitions unfolded to evaluate a closed instance"

section \<open>Data points\<close>

text \<open>
  One sample \<open>{ n, time }\<close>: the input size and the mean time per call.  The
  field names carry a prefix because \<open>n\<close> would shadow every variable of
  that name.
\<close>

record data_point =
  dp_n :: nat
  dp_time :: real

type_synonym label = string

section \<open>JavaScript built-ins\<close>

text \<open>
  \<open>x || d\<close> on a number yields \<open>d\<close> when \<open>x\<close> is falsy.  Of the numbers only
  \<open>0\<close> and \<open>NaN\<close> are falsy, and no real is \<open>NaN\<close>.
\<close>

definition js_or :: "real \<Rightarrow> real \<Rightarrow> real" where
  "js_or x d = (if x = 0 then d else x)"

text \<open>\<open>Math.round\<close> rounds half-way cases towards \<open>+\<infinity>\<close>: \<open>floor (x + 0.5)\<close>.\<close>

definition js_round :: "real \<Rightarrow> int" where
  "js_round x = \<lfloor>x + 1 / 2\<rfloor>"

text \<open>\<open>haystack.includes(needle)\<close>: a contiguous occurrence.\<close>

definition str_includes :: "string \<Rightarrow> string \<Rightarrow> bool" where
  "str_includes haystack needle = sublist needle haystack"

text \<open>
  \<open>ss.mean\<close> of \<open>simple-statistics\<close>: it throws "mean requires at least one
  data point" on an empty array.
\<close>

definition ss_mean :: "real list \<Rightarrow> real option" where
  "ss_mean xs = (if xs = [] then None else Some (sum_list xs / real (length xs)))"

declare js_or_def [model_defs] js_round_def [model_defs] str_includes_def [model_defs]
  ss_mean_def [model_defs]

section \<open>Lemmas on the built-ins\<close>

lemma js_or_nonzero [simp]: "d \<noteq> 0 \<Longrightarrow> js_or x d \<noteq> 0"
  by (simp add: js_or_def)

lemma js_or_pos: "0 \<le> x \<Longrightarrow> 0 < d \<Longrightarrow> 0 < js_or x d"
  by (simp add: js_or_def)

lemma js_or_self [simp]: "x \<noteq> 0 \<Longrightarrow> js_or x d = x"
  by (simp add: js_or_def)

lemma js_or_zero [simp]: "js_or 0 d = d"
  by (simp add: js_or_def)

lemma js_round_le: "x \<le> of_int k \<Longrightarrow> js_round x \<le> k"
  unfolding js_round_def by linarith

lemma js_round_ge: "of_int k - 1 / 2 \<le> x \<Longrightarrow> k \<le> js_round x"
  unfolding js_round_def by linarith

lemma ss_mean_Some_iff: "ss_mean xs = Some m \<longleftrightarrow> xs \<noteq> [] \<and> m = sum_list xs / real (length xs)"
  by (auto simp: ss_mean_def)

lemma ss_mean_nonneg: "\<lbrakk>ss_mean xs = Some m; \<forall>x\<in>set xs. 0 \<le> x\<rbrakk> \<Longrightarrow> 0 \<le> m"
  by (auto simp: ss_mean_Some_iff intro!: divide_nonneg_nonneg sum_list_nonneg)

lemma ss_mean_const:
  "xs \<noteq> [] \<Longrightarrow> ss_mean (map (\<lambda>_. c) xs) = Some c"
  by (simp add: ss_mean_def sum_list_triv)

section \<open>Sums of squares\<close>

lemma sum_list_nonneg_map:
  "(\<And>x. x \<in> set xs \<Longrightarrow> (0::real) \<le> f x) \<Longrightarrow> 0 \<le> sum_list (map f xs)"
  by (induction xs) auto

lemma sum_list_squares_nonneg [simp]: "(0::real) \<le> sum_list (map (\<lambda>x. (f x)\<^sup>2) xs)"
  by (rule sum_list_nonneg_map) simp

lemma sum_list_squares_eq_0_iff:
  "sum_list (map (\<lambda>x. (f x)\<^sup>2) xs) = (0::real) \<longleftrightarrow> (\<forall>x \<in> set xs. f x = 0)"
proof (induction xs)
  case Nil
  then show ?case by simp
next
  case (Cons a xs)
  have "0 \<le> sum_list (map (\<lambda>x. (f x)\<^sup>2) xs)" by simp
  moreover have "0 \<le> (f a)\<^sup>2" by simp
  ultimately show ?case using Cons.IH by (auto simp: add_nonneg_eq_0_iff)
qed

section \<open>Stable sorting\<close>

text \<open>
  \<open>Array.prototype.sort\<close> is stable (ES2019) and \<open>(a, b) \<Rightarrow> a.rmse - b.rmse\<close>
  orders by a key: the library's \<open>sort_key\<close>, an insertion sort that keeps
  equal keys in their input order.
\<close>

lemma sort_key_idem [simp]: "sort_key f (sort_key f xs) = sort_key f xs"
  by (simp add: sort_key_id_if_sorted)

lemma mset_map_sort_key [simp]: "mset (map g (sort_key f xs)) = mset (map g xs)"
  by simp

section \<open>Searching a list\<close>

text \<open>\<open>Array.prototype.find\<close> is the library's \<open>find\<close>: the first match, if any.\<close>

lemma find_unique:
  assumes "x \<in> set xs" "P x" "\<And>y. y \<in> set xs \<Longrightarrow> P y \<Longrightarrow> y = x"
  shows "find P xs = Some x"
  using assms
proof (induction xs)
  case Nil
  then show ?case by simp
next
  case (Cons a xs)
  show ?case
  proof (cases "P a")
    case True
    have "a = x" by (rule Cons.prems(3)) (simp_all add: True)
    then show ?thesis using True by simp
  next
    case False
    then have "x \<in> set xs" using Cons.prems(1,2) by auto
    then have "find P xs = Some x"
      using Cons.prems(2,3) by (intro Cons.IH) auto
    then show ?thesis using False by simp
  qed
qed

lemma find_filter_single:
  assumes "set xs = set ys" and "filter P ys = [x]"
  shows "find P xs = Some x"
proof -
  have "x \<in> set (filter P ys)" using assms(2) by simp
  then have x: "x \<in> set xs" "P x" using assms(1) by auto
  have uniq: "\<And>y. y \<in> set xs \<Longrightarrow> P y \<Longrightarrow> y = x"
  proof -
    fix y assume "y \<in> set xs" "P y"
    then have "y \<in> set (filter P ys)" using assms(1) by simp
    then show "y = x" using assms(2) by simp
  qed
  from x uniq show ?thesis by (rule find_unique)
qed


lemma length_concat_const: "\<forall>xs\<in>set xss. length xs = k \<Longrightarrow> length (concat xss) = length xss * k"
  by (induction xss) auto


lemma those_Some_length: "those xs = Some ys \<Longrightarrow> length ys = length xs"
  by (induction xs arbitrary: ys) (auto split: option.splits)

end
