(* ===== verification/Regression.thy ===== *)
theory Regression
  imports Prelude
begin

text \<open>
  The least-squares machinery of \<open>determineComplexity\<close>
  (\<open>src/unnamed/part_000\<close>, the \<open>calculator.js\<close> section):
  \<^item> \<open>linearRegression\<close> and \<open>linearRegressionLine\<close>: the two functions of the
    \<open>simple-statistics\<close> package the calculator calls (not code of this
    repository; written from the package's closed-form formula);
  \<^item> \<open>calculateRMSE\<close> (lines 171--174);
  \<^item> the four covariate transforms and \<open>getRegressionRMSE\<close> (lines 191--209).
  A computation that yields \<open>NaN\<close> or an infinity in JavaScript is \<open>None\<close>
  here: the slope \<open>0/0\<close> of a regression whose covariates are all equal, and
  \<open>Math.log(0) = -Infinity\<close> for a size 0.
  The lemmas show that the RMSE is a non-negative real that vanishes exactly on a
  perfect fit, that the regression recovers an exact line, that it is defined
  exactly when two covariates differ, and that two points are always fitted
  exactly.
\<close>

section \<open>simple-statistics: linearRegression\<close>

text \<open>
  \<open>linearRegression(data)\<close> returns \<open>{m, b}\<close>; with one point it is the flat
  line through it, otherwise the closed-form least-squares slope and intercept.
  The denominator \<open>n * sumXX - sumX * sumX\<close> vanishes exactly when all
  covariates agree (or there are none), where JavaScript computes \<open>NaN\<close>.
\<close>

definition linearRegression :: "(real \<times> real) list \<Rightarrow> (real \<times> real) option" where
  "linearRegression data =
     (case data of
        [(x, y)] \<Rightarrow> Some (0, y)
      | _ \<Rightarrow>
        (let n = real (length data);
             sumX = sum_list (map fst data);
             sumY = sum_list (map snd data);
             sumXX = sum_list (map (\<lambda>(x, y). x * x) data);
             sumXY = sum_list (map (\<lambda>(x, y). x * y) data);
             den = n * sumXX - sumX * sumX
         in if den = 0 then None
            else (let m = (n * sumXY - sumX * sumY) / den
                  in Some (m, sumY / n - m * sumX / n))))"

definition linearRegressionLine :: "real \<times> real \<Rightarrow> real \<Rightarrow> real" where
  "linearRegressionLine mb x = snd mb + fst mb * x"

section \<open>calculateRMSE\<close>

definition calculateRMSE :: "real list \<Rightarrow> real list \<Rightarrow> real" where
  "calculateRMSE actual predicted =
     sqrt (sum_list (map (\<lambda>(a, p). (a - p)\<^sup>2) (zip actual predicted)) / real (length actual))"

section \<open>Covariate transforms and getRegressionRMSE\<close>

text \<open>
  The transforms \<open>n => n\<close>, \<open>n => n ** 2\<close>, \<open>n => Math.log(n)\<close> and
  \<open>n => n * Math.log(n)\<close>, with \<open>None\<close> for a non-finite value.
\<close>

definition cov_linear :: "nat \<Rightarrow> real option" where
  "cov_linear n = Some (real n)"

definition cov_quadratic :: "nat \<Rightarrow> real option" where
  "cov_quadratic n = Some (real n ^ 2)"

definition cov_log :: "nat \<Rightarrow> real option" where
  "cov_log n = (if n = 0 then None else Some (ln (real n)))"

definition cov_nlogn :: "nat \<Rightarrow> real option" where
  "cov_nlogn n = (if n = 0 then None else Some (real n * ln (real n)))"

text \<open>
  \<open>getRegressionRMSE(transformFn)\<close>: regress the times on the transformed
  sizes, predict every time from the fitted line, and return the RMSE.
\<close>

definition getRegressionRMSE :: "(nat \<Rightarrow> real option) \<Rightarrow> data_point list \<Rightarrow> real option" where
  "getRegressionRMSE transformFn dataPoints =
     (case those (map (transformFn \<circ> dp_n) dataPoints) of
        None \<Rightarrow> None
      | Some xs \<Rightarrow>
          (case linearRegression (zip xs (map dp_time dataPoints)) of
             None \<Rightarrow> None
           | Some model \<Rightarrow>
               Some (calculateRMSE (map dp_time dataPoints)
                       (map (linearRegressionLine model) xs))))"

declare linearRegression_def [model_defs] linearRegressionLine_def [model_defs]
  calculateRMSE_def [model_defs] cov_linear_def [model_defs] cov_quadratic_def [model_defs]
  cov_log_def [model_defs] cov_nlogn_def [model_defs] getRegressionRMSE_def [model_defs]

definition not_all_equal :: "'a list \<Rightarrow> bool" where
  "not_all_equal xs \<longleftrightarrow> (\<exists>x \<in> set xs. \<exists>y \<in> set xs. x \<noteq> y)"

section \<open>The RMSE\<close>

lemma calculateRMSE_nonneg [simp]: "0 \<le> calculateRMSE actual predicted"
  by (simp add: calculateRMSE_def split_def)

lemma calculateRMSE_eq_0_iff:
  assumes "length predicted = length actual" and "actual \<noteq> []"
  shows "calculateRMSE actual predicted = 0 \<longleftrightarrow> actual = predicted"
proof -
  have "calculateRMSE actual predicted = 0 \<longleftrightarrow>
        sum_list (map (\<lambda>x. (fst x - snd x)\<^sup>2) (zip actual predicted)) = 0"
    using assms(2) by (simp add: calculateRMSE_def split_def)
  also have "\<dots> \<longleftrightarrow> (\<forall>x \<in> set (zip actual predicted). fst x = snd x)"
    by (simp add: sum_list_squares_eq_0_iff)
  also have "\<dots> \<longleftrightarrow> actual = predicted"
    using assms(1) by (simp add: list_eq_iff_zip_eq [of actual] split_def)
  finally show ?thesis .
qed

lemma calculateRMSE_self [simp]: "calculateRMSE xs xs = 0"
  by (simp add: calculateRMSE_def zip_same_conv_map comp_def)

section \<open>The least-squares denominator\<close>

lemma sum_list_sq_dev:
  "sum_list (map (\<lambda>x. (x - c)\<^sup>2) xs) =
   sum_list (map (\<lambda>x. x * x) xs) - 2 * c * sum_list xs + real (length xs) * c\<^sup>2"
  by (induction xs) (auto simp: power2_eq_square algebra_simps)

lemma regression_den_eq:
  fixes xs :: "real list"
  assumes "xs \<noteq> []"
  shows "real (length xs) * sum_list (map (\<lambda>x. x * x) xs) - sum_list xs * sum_list xs =
         real (length xs) * sum_list (map (\<lambda>x. (x - sum_list xs / real (length xs))\<^sup>2) xs)"
proof -
  have n: "real (length xs) \<noteq> 0" using assms by simp
  show ?thesis
    unfolding sum_list_sq_dev using n
    by (simp add: power2_eq_square field_simps)
qed

lemma regression_den_pos_iff:
  fixes xs :: "real list"
  assumes "xs \<noteq> []"
  shows "0 < real (length xs) * sum_list (map (\<lambda>x. x * x) xs) - sum_list xs * sum_list xs
         \<longleftrightarrow> not_all_equal xs"
proof -
  let ?m = "sum_list xs / real (length xs)"
  have n: "0 < real (length xs)" using assms by simp
  have ge: "0 \<le> sum_list (map (\<lambda>x. (x - ?m)\<^sup>2) xs)" by simp
  have "0 < real (length xs) * sum_list (map (\<lambda>x. (x - ?m)\<^sup>2) xs) \<longleftrightarrow>
        sum_list (map (\<lambda>x. (x - ?m)\<^sup>2) xs) \<noteq> 0"
    using n ge by (simp add: zero_less_mult_iff less_le)
  also have "\<dots> \<longleftrightarrow> (\<exists>x \<in> set xs. x \<noteq> ?m)"
    by (simp add: sum_list_squares_eq_0_iff)
  also have "\<dots> \<longleftrightarrow> not_all_equal xs"
  proof
    assume "\<exists>x \<in> set xs. x \<noteq> ?m"
    then obtain x where x: "x \<in> set xs" "x \<noteq> ?m" by blast
    show "not_all_equal xs"
    proof (rule ccontr)
      assume "\<not> not_all_equal xs"
      then have "\<forall>y \<in> set xs. y = x" using x(1) by (auto simp: not_all_equal_def)
      then have "xs = replicate (length xs) x" by (simp add: replicate_length_same)
      then have "sum_list xs = real (length xs) * x" by (metis sum_list_replicate length_replicate)
      then show False using x(2) n by simp
    qed
  next
    assume "not_all_equal xs"
    then obtain x y where "x \<in> set xs" "y \<in> set xs" "x \<noteq> y" by (auto simp: not_all_equal_def)
    then show "\<exists>x \<in> set xs. x \<noteq> ?m" by metis
  qed
  finally show ?thesis using regression_den_eq [OF assms] by simp
qed

lemma regression_den_nonneg:
  fixes xs :: "real list"
  shows "0 \<le> real (length xs) * sum_list (map (\<lambda>x. x * x) xs) - sum_list xs * sum_list xs"
proof (cases "xs = []")
  case False
  have "0 \<le> real (length xs) * sum_list (map (\<lambda>x. (x - sum_list xs / real (length xs))\<^sup>2) xs)"
    by simp
  then show ?thesis using regression_den_eq [OF False] by simp
qed simp

lemma not_all_equal_length: "not_all_equal xs \<Longrightarrow> 2 \<le> length xs"
proof -
  assume "not_all_equal xs"
  then obtain x y where "x \<in> set xs" "y \<in> set xs" "x \<noteq> y"
    by (auto simp: not_all_equal_def)
  then have "card {x, y} \<le> card (set xs)" by (intro card_mono) auto
  also have "\<dots> \<le> length xs" by (rule card_length)
  finally show ?thesis using \<open>x \<noteq> y\<close> by simp
qed

section \<open>When the regression is defined, and exact fits\<close>

lemma linearRegression_multi:
  assumes "length data \<noteq> 1"
  shows "linearRegression data =
     (let n = real (length data);
          sumX = sum_list (map fst data);
          sumY = sum_list (map snd data);
          sumXX = sum_list (map (\<lambda>(x, y). x * x) data);
          sumXY = sum_list (map (\<lambda>(x, y). x * y) data);
          den = n * sumXX - sumX * sumX
      in if den = 0 then None
         else (let m = (n * sumXY - sumX * sumY) / den
               in Some (m, sumY / n - m * sumX / n)))"
  using assms unfolding linearRegression_def
  by (cases data rule: remdups_adj.cases) auto

lemma linearRegression_defined_iff:
  assumes "length data \<noteq> 1"
  shows "linearRegression data \<noteq> None \<longleftrightarrow> not_all_equal (map fst data)"
proof (cases "data = []")
  case True
  then show ?thesis by (simp add: linearRegression_def not_all_equal_def)
next
  case False
  have "0 < real (length data) * sum_list (map (\<lambda>x. x * x) (map fst data))
            - sum_list (map fst data) * sum_list (map fst data)
        \<longleftrightarrow> not_all_equal (map fst data)"
    using regression_den_pos_iff [of "map fst data"] False by simp
  moreover have "0 \<le> real (length data) * sum_list (map (\<lambda>x. x * x) (map fst data))
            - sum_list (map fst data) * sum_list (map fst data)"
    using regression_den_nonneg [of "map fst data"] by simp
  ultimately show ?thesis
    using assms by (auto simp add: linearRegression_multi Let_def split_def comp_def less_le)
qed

lemma linearRegression_exact:
  assumes "not_all_equal xs"
  shows "linearRegression (map (\<lambda>x. (x, a * x + b)) xs) = Some (a, b)"
proof -
  let ?n = "real (length xs)"
  let ?sX = "sum_list xs"
  let ?sXX = "sum_list (map (\<lambda>x. x * x) xs)"
  have len: "length (map (\<lambda>x. (x, a * x + b)) xs) \<noteq> 1"
    using not_all_equal_length [OF assms] by simp
  have ne: "xs \<noteq> []" using not_all_equal_length [OF assms] by auto
  have den: "?n * ?sXX - ?sX * ?sX \<noteq> 0"
    using regression_den_pos_iff [OF ne] assms by simp
  have sY: "sum_list (map (\<lambda>x. a * x + b) xs) = a * ?sX + ?n * b"
    by (simp add: sum_list_addf sum_list_const_mult sum_list_triv)
  have sXY: "sum_list (map (\<lambda>x. x * (a * x + b)) xs) = a * ?sXX + b * ?sX"
    by (induction xs) (simp_all add: algebra_simps)
  have m: "(?n * (a * ?sXX + b * ?sX) - ?sX * (a * ?sX + ?n * b)) / (?n * ?sXX - ?sX * ?sX) = a"
    using den by (simp add: field_simps)
  have n0: "?n \<noteq> 0" using ne by simp
  let ?D = "map (\<lambda>x. (x, a * x + b)) xs"
  have sums: "sum_list (map fst ?D) = ?sX" "sum_list (map snd ?D) = a * ?sX + ?n * b"
    "sum_list (map (\<lambda>(x, y). x * x) ?D) = ?sXX"
    "sum_list (map (\<lambda>(x, y). x * y) ?D) = a * ?sXX + b * ?sX"
    "real (length ?D) = ?n"
    by (simp_all add: comp_def sY sXY)
  have b: "(a * ?sX + ?n * b) / ?n - a * ?sX / ?n = b"
    using n0 by (simp add: field_simps)
  show ?thesis
    unfolding linearRegression_multi [OF len] Let_def sums
    using den m b by simp
qed

section \<open>getRegressionRMSE\<close>

lemma zip_map_line: "zip xs (map f xs) = map (\<lambda>x. (x, f x)) xs"
  by (induction xs) auto

lemma getRegressionRMSE_exact:
  assumes xs: "those (map (transformFn \<circ> dp_n) dps) = Some xs"
    and nae: "not_all_equal xs"
    and times: "map dp_time dps = map (\<lambda>x. a * x + b) xs"
  shows "getRegressionRMSE transformFn dps = Some 0"
proof -
  have lr: "linearRegression (zip xs (map dp_time dps)) = Some (a, b)"
    unfolding times zip_map_line by (rule linearRegression_exact [OF nae])
  have pred: "map (linearRegressionLine (a, b)) xs = map dp_time dps"
    unfolding times by (simp add: linearRegressionLine_def add.commute)
  show ?thesis
    using xs lr pred by (simp add: getRegressionRMSE_def)
qed

lemma getRegressionRMSE_nonneg: "getRegressionRMSE tf dps = Some r \<Longrightarrow> 0 \<le> r"
  by (auto simp: getRegressionRMSE_def split: option.splits)

section \<open>Covariates of positive sizes\<close>

lemma those_map_Some: "those (map (\<lambda>x. Some (f x)) xs) = Some (map f xs)"
  by (induction xs) auto

lemma nlogn_strict_mono:
  fixes a b :: real
  assumes "1 \<le> a" "a < b"
  shows "a * ln a < b * ln b"
proof -
  have "ln a < ln b" using assms by simp
  then have "a * ln a < a * ln b" using assms by simp
  also have "\<dots> \<le> b * ln b"
    using assms by (intro mult_right_mono) simp_all
  finally show ?thesis .
qed

lemma nlogn_inj:
  assumes "0 < m" "0 < n" "real m * ln (real m) = real n * ln (real n)"
  shows "m = n"
proof (rule ccontr)
  assume "m \<noteq> n"
  then consider "m < n" | "n < m" by linarith
  then show False
  proof cases
    case 1
    then have "real m * ln (real m) < real n * ln (real n)"
      using assms by (intro nlogn_strict_mono) simp_all
    then show False using assms(3) by simp
  next
    case 2
    then have "real n * ln (real n) < real m * ln (real m)"
      using assms by (intro nlogn_strict_mono) simp_all
    then show False using assms(3) by simp
  qed
qed

lemma not_all_equal_map_inj:
  assumes "not_all_equal xs" "\<And>x y. x \<in> set xs \<Longrightarrow> y \<in> set xs \<Longrightarrow> f x = f y \<Longrightarrow> x = y"
  shows "not_all_equal (map f xs)"
  using assms unfolding not_all_equal_def by force

lemma cov_linear_those: "those (map (cov_linear \<circ> dp_n) dps) = Some (map (real \<circ> dp_n) dps)"
  by (simp add: cov_linear_def comp_def those_map_Some)

lemma not_all_equal_real:
  "not_all_equal (map dp_n dps) \<Longrightarrow> not_all_equal (map (real \<circ> dp_n) dps)"
  using not_all_equal_map_inj [of "map dp_n dps" real] by simp

lemma positive_covariates:
  assumes "\<forall>d \<in> set dps. 0 < dp_n d"
    and tf: "tf \<in> {cov_linear, cov_quadratic, cov_log, cov_nlogn}"
  shows "\<exists>f. those (map (tf \<circ> dp_n) dps) = Some (map (f \<circ> dp_n) dps) \<and>
             (\<forall>m n. 0 < m \<longrightarrow> 0 < n \<longrightarrow> f m = f n \<longrightarrow> m = n)"
proof -
  have "\<exists>f. (\<forall>n. 0 < n \<longrightarrow> tf n = Some (f n)) \<and> (\<forall>m n. 0 < m \<longrightarrow> 0 < n \<longrightarrow> f m = f n \<longrightarrow> m = n)"
    using tf
  proof (elim insertE emptyE)
    assume "tf = cov_linear" then show ?thesis
      by (intro exI [of _ "\<lambda>n. real n"]) (simp add: cov_linear_def)
  next
    assume "tf = cov_quadratic" then show ?thesis
      by (intro exI [of _ "\<lambda>n. real n ^ 2"]) (simp add: cov_quadratic_def)
  next
    assume "tf = cov_log" then show ?thesis
      by (intro exI [of _ "\<lambda>n. ln (real n)"]) (simp add: cov_log_def)
  next
    assume "tf = cov_nlogn" then show ?thesis
      by (intro exI [of _ "\<lambda>n. real n * ln (real n)"]) (auto simp: cov_nlogn_def nlogn_inj)
  qed
  then obtain f where f: "\<forall>n. 0 < n \<longrightarrow> tf n = Some (f n)"
    and inj: "\<forall>m n. 0 < m \<longrightarrow> 0 < n \<longrightarrow> f m = f n \<longrightarrow> m = n" by blast
  have eq: "map (tf \<circ> dp_n) dps = map (\<lambda>d. Some (f (dp_n d))) dps"
    using assms(1) f by (intro map_cong) auto
  have "those (map (tf \<circ> dp_n) dps) = Some (map (f \<circ> dp_n) dps)"
    unfolding eq those_map_Some by (simp add: comp_def)
  then show ?thesis using inj by blast
qed

lemma those_None_iff: "those xs = None \<longleftrightarrow> None \<in> set xs"
  by (induction xs) (auto split: option.splits)

lemma regression_defined_positive:
  assumes pos: "\<forall>d \<in> set dps. 0 < dp_n d"
    and spread: "length dps = 1 \<or> not_all_equal (map dp_n dps)"
    and tf: "tf \<in> {cov_linear, cov_quadratic, cov_log, cov_nlogn}"
  shows "\<exists>r. getRegressionRMSE tf dps = Some r"
proof -
  obtain f where xs: "those (map (tf \<circ> dp_n) dps) = Some (map (f \<circ> dp_n) dps)"
    and inj: "\<forall>m n. 0 < m \<longrightarrow> 0 < n \<longrightarrow> f m = f n \<longrightarrow> m = n"
    using positive_covariates [OF pos tf] by blast
  let ?data = "zip (map (f \<circ> dp_n) dps) (map dp_time dps)"
  have "linearRegression ?data \<noteq> None"
  proof (cases "length dps = 1")
    case True
    then obtain d where "dps = [d]" by (auto simp: length_Suc_conv)
    then show ?thesis by (simp add: linearRegression_def)
  next
    case False
    then have nae: "not_all_equal (map dp_n dps)" using spread by simp
    have "not_all_equal (map f (map dp_n dps))"
      using not_all_equal_map_inj [of "map dp_n dps" f] nae pos inj by auto
    then have "not_all_equal (map fst ?data)" by (simp add: comp_def)
    moreover have "length ?data \<noteq> 1" using False by simp
    ultimately show ?thesis using linearRegression_defined_iff by blast
  qed
  then show ?thesis using xs by (auto simp: getRegressionRMSE_def split: option.split)
qed

section \<open>Properties\<close>

text \<open>
  C12: on noiseless linear data (\<open>time = a * n + b\<close> for every sample, at least
  two different sizes) the linear model's RMSE is exactly 0.
\<close>

theorem linear_data_exact_fit:
  assumes "not_all_equal (map dp_n dps)"
    and "\<forall>d \<in> set dps. dp_time d = a * real (dp_n d) + b"
  shows "getRegressionRMSE cov_linear dps = Some 0"
proof -
  have times: "map dp_time dps = map (\<lambda>x. a * x + b) (map (real \<circ> dp_n) dps)"
    using assms(2) by (simp add: comp_def)
  show ?thesis
    by (rule getRegressionRMSE_exact [OF cov_linear_those not_all_equal_real [OF assms(1)] times])
qed

theorem linear_data_exact_fit_witness:
  "getRegressionRMSE cov_linear [\<lparr>dp_n = 1, dp_time = 3\<rparr>, \<lparr>dp_n = 2, dp_time = 5\<rparr>] = Some 0"
proof -
  let ?dps = "[\<lparr>dp_n = 1, dp_time = 3\<rparr>, \<lparr>dp_n = 2, dp_time = (5::real)\<rparr>]"
  have h1: "not_all_equal (map dp_n ?dps)" by (auto simp: not_all_equal_def)
  have h2: "\<forall>d \<in> set ?dps. dp_time d = 2 * real (dp_n d) + 1" by simp
  show ?thesis by (rule linear_data_exact_fit [OF h1 h2])
qed

end
