(* ===== verification/Classifier.thy ===== *)
theory Classifier
  imports Regression
begin

text \<open>
  \<open>determineComplexity\<close> of \<open>src/calculator.js\<close> (staged as
  \<open>src/unnamed/part_000\<close>, lines 181--285): fit the five catalog models, sort
  them by RMSE, choose a best fit (the ultra-fast rule or the Occam scan), score
  a confidence, and return \<open>{bestFit, confidence, results}\<close>.
  The function is split at the seams of the source: \<open>mk_models\<close> is the
  \<open>models\<close> array literal, \<open>occam_scan\<close> the tolerance loop,
  \<open>ultra_fast_best\<close> the heuristic for sub-timer measurements,
  \<open>second_best\<close> and \<open>standard_confidence\<close> the confidence score, and
  \<open>classify_models\<close> everything after the RMSEs are known.
  Errors are values of \<open>cerror\<close>: \<open>ss.mean\<close> throwing on no data, a fit that
  is \<open>NaN\<close> (see \<open>Regression\<close>), and reading \<open>.type\<close> of an undefined best
  model (unreachable, as the lemmas show).
\<close>

section \<open>Data\<close>

text \<open>One entry of the \<open>models\<close> array: \<open>{type, rmse, complexity}\<close>.\<close>

record cmodel =
  mtype :: label
  rmse :: real
  complexity :: nat

text \<open>The returned object \<open>{bestFit, confidence, results}\<close>.\<close>

record complexity_result =
  bestFit :: label
  confidence :: int
  results :: "(label \<times> real) list"

datatype cerror = MeanOfEmpty | NonFiniteFit | UndefinedBestModel

definition catalog_labels :: "label list" where
  "catalog_labels = [''O(1) - Constant'', ''O(log n) - Logarithmic'', ''O(n) - Linear'',
     ''O(n log n) - Linear-ithmic'', ''O(n^2) - Quadratic'']"

text \<open>The \<open>models\<close> literal, in the source's order, with its simplicity ranks.\<close>

definition mk_models :: "real \<Rightarrow> real \<Rightarrow> real \<Rightarrow> real \<Rightarrow> real \<Rightarrow> cmodel list" where
  "mk_models constantRMSE logRMSE linearRMSE nLogNRMSE quadraticRMSE =
     [\<lparr>mtype = ''O(1) - Constant'', rmse = constantRMSE, complexity = 1\<rparr>,
      \<lparr>mtype = ''O(log n) - Logarithmic'', rmse = logRMSE, complexity = 2\<rparr>,
      \<lparr>mtype = ''O(n) - Linear'', rmse = linearRMSE, complexity = 3\<rparr>,
      \<lparr>mtype = ''O(n log n) - Linear-ithmic'', rmse = nLogNRMSE, complexity = 4\<rparr>,
      \<lparr>mtype = ''O(n^2) - Quadratic'', rmse = quadraticRMSE, complexity = 5\<rparr>]"

abbreviation constant_model :: "real \<Rightarrow> cmodel" where
  "constant_model c \<equiv> \<lparr>mtype = ''O(1) - Constant'', rmse = c, complexity = 1\<rparr>"

abbreviation log_model :: "real \<Rightarrow> cmodel" where
  "log_model l \<equiv> \<lparr>mtype = ''O(log n) - Logarithmic'', rmse = l, complexity = 2\<rparr>"

section \<open>Choosing the best model\<close>

text \<open>
  The Occam loop \<open>for (let i = 1; i < models.length; i++)\<close>: a simpler
  candidate whose RMSE exceeds the current best's by less than 15\<percent> (relative
  to \<open>bestModel.rmse || 1e-9\<close>) becomes the best.  The loop runs over the
  models after the first, with the first as the initial best.
\<close>

fun occam_scan :: "cmodel \<Rightarrow> cmodel list \<Rightarrow> cmodel" where
  "occam_scan bestModel [] = bestModel"
| "occam_scan bestModel (candidate # rest) =
     occam_scan
       (if complexity candidate < complexity bestModel \<and>
           (rmse candidate - rmse bestModel) / js_or (rmse bestModel) (1 / 10 ^ 9) < 15 / 100
        then candidate else bestModel)
       rest"

text \<open>
  The ultra-fast branch: find the models whose type includes \<open>O(1)\<close> and
  \<open>O(log n)\<close>; take the logarithmic one if it is found and has the lower
  RMSE, and the constant one (possibly \<open>undefined\<close>) otherwise.
\<close>

definition ultra_fast_best :: "cmodel list \<Rightarrow> cmodel option" where
  "ultra_fast_best models =
     (let o1Model = find (\<lambda>m. str_includes (mtype m) ''O(1)'') models;
          logModel = find (\<lambda>m. str_includes (mtype m) ''O(log n)'') models
      in case (logModel, o1Model) of
           (Some lm, Some om) \<Rightarrow> if rmse lm < rmse om then Some lm else Some om
         | _ \<Rightarrow> o1Model)"

section \<open>Confidence\<close>

text \<open>
  \<open>secondBest\<close>: the first of the sorted models, or the second when the first
  is the best model itself (\<open>===\<close> on objects; the five models carry distinct
  labels, so equality of the records is identity of the objects).
\<close>

definition second_best :: "cmodel list \<Rightarrow> cmodel \<Rightarrow> cmodel option" where
  "second_best sortedByFit bestModel =
     (case sortedByFit of
        [] \<Rightarrow> None
      | s0 # rest \<Rightarrow>
          if s0 = bestModel then (case rest of [] \<Rightarrow> None | s1 # _ \<Rightarrow> Some s1)
          else Some s0)"

definition standard_confidence :: "real \<Rightarrow> cmodel list \<Rightarrow> cmodel \<Rightarrow> real" where
  "standard_confidence meanTime models bestModel =
     (let signalMagnitude = (if 0 < meanTime then meanTime else 1);
          normalizedError = rmse bestModel / signalMagnitude;
          fitQuality = max 0 (1 - normalizedError * 2);
          sortedByFit = sort_key rmse models;
          separation =
            (case second_best sortedByFit bestModel of
               None \<Rightarrow> 0
             | Some secondBest \<Rightarrow>
                 min 1 ((rmse secondBest - rmse bestModel) / js_or (rmse secondBest) 1))
      in (fitQuality * (7 / 10) + separation * (3 / 10)) * 100)"

section \<open>determineComplexity\<close>

text \<open>
  Everything after the five RMSEs are known: sort (stably) by RMSE, choose the
  best model and the confidence in the ultra-fast regime (mean time below
  \<open>1e-4\<close>) or the standard one, and build the result, whose \<open>results\<close> are
  the (type, RMSE) pairs sorted once more by RMSE.
\<close>

definition classify_models :: "real \<Rightarrow> cmodel list \<Rightarrow> cerror + complexity_result" where
  "classify_models meanTime unsorted =
     (let models = sort_key rmse unsorted
      in case models of
           [] \<Rightarrow> Inl UndefinedBestModel
         | first # rest \<Rightarrow>
             (let chosen =
                    (if meanTime < 1 / 10000
                     then map_option (\<lambda>b. (b, 95)) (ultra_fast_best models)
                     else (let b = occam_scan first rest
                           in Some (b, standard_confidence meanTime models b)))
              in case chosen of
                   None \<Rightarrow> Inl UndefinedBestModel
                 | Some (bestModel, conf) \<Rightarrow>
                     Inr \<lparr>bestFit = mtype bestModel, confidence = js_round conf,
                          results = sort_key snd (map (\<lambda>m. (mtype m, rmse m)) models)\<rparr>))"

definition determineComplexity :: "data_point list \<Rightarrow> cerror + complexity_result" where
  "determineComplexity dataPoints =
     (let nValues = map dp_n dataPoints;
          timeValues = map dp_time dataPoints
      in case ss_mean timeValues of
           None \<Rightarrow> Inl MeanOfEmpty
         | Some meanTime \<Rightarrow>
             (let constantRMSE = calculateRMSE timeValues (map (\<lambda>_. meanTime) nValues)
              in case (getRegressionRMSE cov_linear dataPoints,
                       getRegressionRMSE cov_quadratic dataPoints,
                       getRegressionRMSE cov_log dataPoints,
                       getRegressionRMSE cov_nlogn dataPoints) of
                   (Some linearRMSE, Some quadraticRMSE, Some logRMSE, Some nLogNRMSE) \<Rightarrow>
                     classify_models meanTime
                       (mk_models constantRMSE logRMSE linearRMSE nLogNRMSE quadraticRMSE)
                 | _ \<Rightarrow> Inl NonFiniteFit))"

declare catalog_labels_def [model_defs] mk_models_def [model_defs]
  ultra_fast_best_def [model_defs] second_best_def [model_defs]
  standard_confidence_def [model_defs] classify_models_def [model_defs]
  determineComplexity_def [model_defs]

section \<open>The catalog\<close>

lemma mk_models_length: "length (mk_models c l li nl q) = 5"
  by (simp add: mk_models_def)

lemma mk_models_labels: "map mtype (mk_models c l li nl q) = catalog_labels"
  by (simp add: mk_models_def catalog_labels_def)

lemma mk_models_pairs:
  "map (\<lambda>m. (mtype m, rmse m)) (mk_models c l li nl q) = zip catalog_labels [c, l, li, nl, q]"
  by (simp add: mk_models_def catalog_labels_def)

lemma mk_models_ranks:
  "m \<in> set (mk_models c l li nl q) \<Longrightarrow> 1 \<le> complexity m \<and> complexity m \<le> 5"
  by (auto simp: mk_models_def)

lemma mk_models_filter_O1:
  "filter (\<lambda>m. str_includes (mtype m) ''O(1)'') (mk_models c l li nl q) = [constant_model c]"
  unfolding mk_models_def by (simp add: str_includes_def sublist_code)

lemma mk_models_filter_log:
  "filter (\<lambda>m. str_includes (mtype m) ''O(log n)'') (mk_models c l li nl q) = [log_model l]"
  unfolding mk_models_def by (simp add: str_includes_def sublist_code)

lemma ultra_fast_best_mk_models:
  assumes "set models = set (mk_models c l li nl q)"
  shows "ultra_fast_best models = Some (if l < c then log_model l else constant_model c)"
  using find_filter_single [OF assms mk_models_filter_O1]
    find_filter_single [OF assms mk_models_filter_log]
  by (simp add: ultra_fast_best_def)

lemma sort_mk_models_Cons:
  obtains first rest where "sort_key rmse (mk_models c l li nl q) = first # rest"
proof -
  have "length (sort_key rmse (mk_models c l li nl q)) = 5"
    by (simp only: length_sort mk_models_length)
  then show ?thesis using that by (cases "sort_key rmse (mk_models c l li nl q)") auto
qed

lemma classify_models_mk_models:
  assumes sorted: "sort_key rmse (mk_models c l li nl q) = first # rest"
  shows "classify_models mt (mk_models c l li nl q) =
    Inr (if mt < 1 / 10000
         then \<lparr>bestFit = mtype (if l < c then log_model l else constant_model c),
               confidence = 95,
               results = map (\<lambda>m. (mtype m, rmse m)) (first # rest)\<rparr>
         else \<lparr>bestFit = mtype (occam_scan first rest),
               confidence = js_round (standard_confidence mt (first # rest) (occam_scan first rest)),
               results = map (\<lambda>m. (mtype m, rmse m)) (first # rest)\<rparr>)"
proof -
  have set_eq: "set (first # rest) = set (mk_models c l li nl q)"
    by (simp only: sorted [symmetric] set_sort)
  have "sorted (map rmse (first # rest))"
    by (simp only: sorted [symmetric] sorted_sort_key)
  then have res: "sort_key snd (map (\<lambda>m. (mtype m, rmse m)) (first # rest)) =
                  map (\<lambda>m. (mtype m, rmse m)) (first # rest)"
    by (intro sort_key_id_if_sorted) (simp add: comp_def)
  have r95: "js_round 95 = 95" by (simp add: js_round_def)
  show ?thesis
    unfolding classify_models_def Let_def sorted
    using ultra_fast_best_mk_models [OF set_eq] res r95 by simp
qed

section \<open>Decomposing determineComplexity\<close>

lemma determineComplexity_Inr:
  assumes "determineComplexity dps = Inr r"
  obtains mt l li nl q where
    "ss_mean (map dp_time dps) = Some mt"
    "getRegressionRMSE cov_log dps = Some l" "getRegressionRMSE cov_linear dps = Some li"
    "getRegressionRMSE cov_nlogn dps = Some nl" "getRegressionRMSE cov_quadratic dps = Some q"
    "classify_models mt (mk_models (calculateRMSE (map dp_time dps) (map (\<lambda>_. mt) dps)) l li nl q) = Inr r"
proof -
  obtain mt where mt: "ss_mean (map dp_time dps) = Some mt"
    using assms by (cases "ss_mean (map dp_time dps)") (simp_all add: determineComplexity_def)
  obtain l where l: "getRegressionRMSE cov_log dps = Some l"
    using assms mt by (cases "getRegressionRMSE cov_log dps")
      (simp_all add: determineComplexity_def split: option.split_asm)
  obtain li where li: "getRegressionRMSE cov_linear dps = Some li"
    using assms mt by (cases "getRegressionRMSE cov_linear dps")
      (simp_all add: determineComplexity_def)
  obtain nl where nl: "getRegressionRMSE cov_nlogn dps = Some nl"
    using assms mt by (cases "getRegressionRMSE cov_nlogn dps")
      (simp_all add: determineComplexity_def split: option.split_asm)
  obtain q where q: "getRegressionRMSE cov_quadratic dps = Some q"
    using assms mt by (cases "getRegressionRMSE cov_quadratic dps")
      (simp_all add: determineComplexity_def split: option.split_asm)
  have "classify_models mt (mk_models (calculateRMSE (map dp_time dps) (map (\<lambda>_. mt) dps)) l li nl q) = Inr r"
    using assms by (simp add: determineComplexity_def mt l li nl q comp_def)
  with that mt l li nl q show ?thesis by blast
qed

section \<open>The Occam scan\<close>

lemma occam_scan_in: "occam_scan b cs \<in> insert b (set cs)"
  by (induction cs arbitrary: b) auto

lemma occam_scan_complexity: "complexity (occam_scan b cs) \<le> complexity b"
proof (induction cs arbitrary: b)
  case Nil
  then show ?case by simp
next
  case (Cons c cs)
  let ?b' = "if complexity c < complexity b \<and>
               (rmse c - rmse b) / js_or (rmse b) (1 / 10 ^ 9) < 15 / 100 then c else b"
  have "complexity ?b' \<le> complexity b" by simp
  then show ?case using Cons.IH [of ?b'] by simp
qed

lemma occam_promote_bound:
  fixes rmin M :: real
  assumes rmin: "0 \<le> rmin" "rmin \<le> rmse b" and M: "M = (if 0 < rmin then rmin else 1 / 10 ^ 9)"
    and b: "rmse b \<le> (23 / 20) ^ k * M"
    and diff: "(rmse c - rmse b) / js_or (rmse b) (1 / 10 ^ 9) < 15 / 100"
  shows "rmse c \<le> (23 / 20) ^ Suc k * M"
proof (cases "rmse b = 0")
  case True
  then have "rmin = 0" using rmin by simp
  then have M1: "M = 1 / 10 ^ 9" using M by simp
  have "rmse c < 15 / 100 * (1 / 10 ^ 9)" using diff True by simp
  then have "rmse c < M" using M1 by simp
  moreover have "1 * M \<le> (23 / 20) ^ Suc k * M"
    using M1 by (intro mult_right_mono one_le_power) simp_all
  ultimately show ?thesis by simp
next
  case False
  then have pos: "0 < rmse b" using rmin by simp
  then have "rmse c - rmse b < 15 / 100 * rmse b" using diff by (simp add: divide_less_eq)
  then have "rmse c \<le> 23 / 20 * rmse b" by simp
  also have "\<dots> \<le> 23 / 20 * ((23 / 20) ^ k * M)" using b by simp
  finally show ?thesis by simp
qed

lemma occam_scan_bound:
  fixes r0 M :: real
  assumes "\<forall>m \<in> set cs. r0 \<le> rmse m" "0 \<le> r0" "r0 \<le> rmse b"
    and M: "M = (if 0 < r0 then r0 else 1 / 10 ^ 9)"
    and "complexity b \<le> cf" "rmse b \<le> (23 / 20) ^ (cf - complexity b) * M"
  shows "r0 \<le> rmse (occam_scan b cs) \<and> complexity (occam_scan b cs) \<le> cf \<and>
         rmse (occam_scan b cs) \<le> (23 / 20) ^ (cf - complexity (occam_scan b cs)) * M"
  using assms(1,3,5,6)
proof (induction cs arbitrary: b)
  case Nil
  then show ?case by simp
next
  case (Cons c cs)
  let ?promote = "complexity c < complexity b \<and>
                  (rmse c - rmse b) / js_or (rmse b) (1 / 10 ^ 9) < 15 / 100"
  let ?b' = "if ?promote then c else b"
  have inv: "r0 \<le> rmse ?b' \<and> complexity ?b' \<le> cf \<and>
             rmse ?b' \<le> (23 / 20) ^ (cf - complexity ?b') * M"
  proof (cases ?promote)
    case True
    have "rmse c \<le> (23 / 20) ^ Suc (cf - complexity b) * M"
      using True Cons.prems assms(2) M by (intro occam_promote_bound [where rmin = r0]) auto
    also have "\<dots> \<le> (23 / 20) ^ (cf - complexity c) * M"
      using True Cons.prems(3) M assms(2)
      by (intro mult_right_mono power_increasing) auto
    finally have "rmse c \<le> (23 / 20) ^ (cf - complexity c) * M" .
    moreover from True have "?b' = c" by (rule if_P)
    ultimately show ?thesis using True Cons.prems by auto
  next
    case False
    then have "?b' = b" by (rule if_not_P)
    then show ?thesis using Cons.prems by simp
  qed
  have "\<forall>m \<in> set cs. r0 \<le> rmse m" using Cons.prems(1) by simp
  then show ?case using Cons.IH [of ?b'] inv by simp
qed

lemma occam_scan_sorted:
  assumes "sorted (map rmse (first # rest))" "0 \<le> rmse first"
  shows "complexity (occam_scan first rest) \<le> complexity first \<and>
         rmse first \<le> rmse (occam_scan first rest) \<and>
         rmse (occam_scan first rest) \<le>
           (23 / 20) ^ (complexity first - complexity (occam_scan first rest)) *
           (if 0 < rmse first then rmse first else 1 / 10 ^ 9)"
proof -
  have "rmse first \<le> (23 / 20) ^ (complexity first - complexity first) *
          (if 0 < rmse first then rmse first else 1 / 10 ^ 9)"
    using assms(2) by simp
  then show ?thesis
    using occam_scan_bound [of rest "rmse first" first _ "complexity first"] assms by auto
qed

lemma separation_bound:
  fixes r0 rb :: real
  assumes "0 \<le> r0" "r0 \<le> rb" "rb \<le> (23 / 20) ^ j * (if 0 < r0 then r0 else 1 / 10 ^ 9)"
    and "j \<le> 4"
  shows "1 - (23 / 20) ^ 4 \<le> (r0 - rb) / js_or r0 1"
proof -
  have pj: "(23 / 20 :: real) ^ j \<le> (23 / 20) ^ 4"
    using assms(4) by (intro power_increasing) simp_all
  show ?thesis
  proof (cases "0 < r0")
    case True
    have "rb \<le> (23 / 20) ^ j * r0" using assms(3) True by simp
    also have "\<dots> \<le> (23 / 20) ^ 4 * r0" using pj True by (intro mult_right_mono) simp_all
    finally have "rb \<le> (23 / 20) ^ 4 * r0" .
    then have "rb / r0 \<le> (23 / 20) ^ 4" using True by (simp add: divide_le_eq)
    moreover have "(r0 - rb) / r0 = 1 - rb / r0" using True by (simp add: diff_divide_distrib)
    ultimately show ?thesis using True by simp
  next
    case False
    then have "r0 = 0" using assms(1) by simp
    then have "rb \<le> (23 / 20) ^ 4 * (1 / 10 ^ 9)"
      using assms(3) pj by (simp add: order_trans)
    moreover have "(23 / 20 :: real) ^ 4 = 279841 / 160000" by (simp add: power_divide)
    ultimately show ?thesis using \<open>r0 = 0\<close> by simp
  qed
qed

section \<open>Confidence bounds\<close>

lemma standard_confidence_le:
  assumes "0 \<le> rmse bestModel"
  shows "standard_confidence mt models bestModel \<le> 100"
proof -
  define E where "E = rmse bestModel / (if 0 < mt then mt else 1)"
  define Y where "Y = (case second_best (sort_key rmse models) bestModel of None \<Rightarrow> 0
              | Some s \<Rightarrow> min 1 ((rmse s - rmse bestModel) / js_or (rmse s) 1))"
  define X where "X = max 0 (1 - E * 2)"
  have eq: "standard_confidence mt models bestModel = 70 * X + 30 * Y"
    unfolding standard_confidence_def Let_def X_def E_def Y_def by (simp add: algebra_simps)
  have "0 \<le> E" unfolding E_def using assms by (intro divide_nonneg_pos) simp_all
  then have fq: "X \<le> 1" by (simp add: X_def)
  have sep: "Y \<le> 1" by (simp add: Y_def split: option.split)
  show ?thesis using eq fq sep by linarith
qed

lemma standard_confidence_ge:
  assumes "\<And>s. second_best (sort_key rmse models) bestModel = Some s \<Longrightarrow>
             1 - (23 / 20) ^ 4 \<le> (rmse s - rmse bestModel) / js_or (rmse s) 1"
  shows "- (45 / 2) \<le> standard_confidence mt models bestModel"
proof -
  define X where "X = max 0 (1 - rmse bestModel / (if 0 < mt then mt else 1) * 2)"
  define Y where "Y = (case second_best (sort_key rmse models) bestModel of None \<Rightarrow> 0
              | Some s \<Rightarrow> min 1 ((rmse s - rmse bestModel) / js_or (rmse s) 1))"
  have eq: "standard_confidence mt models bestModel = 70 * X + 30 * Y"
    unfolding standard_confidence_def Let_def X_def Y_def by (simp add: algebra_simps)
  have fq: "0 \<le> X" by (simp add: X_def)
  have p4: "(23 / 20 :: real) ^ 4 = 279841 / 160000" by (simp add: power_divide)
  have sep: "- (119841 / 160000) \<le> Y"
    using assms by (simp add: Y_def p4 split: option.split)
  show ?thesis using eq fq sep by linarith
qed

lemma second_best_separation:
  assumes sorted: "sorted (map rmse (first # rest))" and nonneg: "0 \<le> rmse first"
    and b: "b = occam_scan first rest" and rank: "complexity first - complexity b \<le> 4"
    and sb: "second_best (first # rest) b = Some s"
  shows "1 - (23 / 20) ^ 4 \<le> (rmse s - rmse b) / js_or (rmse s) 1"
proof -
  have occ: "rmse first \<le> rmse b \<and>
      rmse b \<le> (23 / 20) ^ (complexity first - complexity b) *
                 (if 0 < rmse first then rmse first else 1 / 10 ^ 9)"
    using occam_scan_sorted [OF sorted nonneg] b by simp
  have low: "(1::real) - (23 / 20) ^ 4 \<le> 0" by (simp add: power_divide)
  show ?thesis
  proof (cases "first = b")
    case True
    then obtain s1 rest' where "rest = s1 # rest'" "s = s1"
      using sb by (auto simp: second_best_def split: list.splits)
    then have "rmse b \<le> rmse s" using sorted True by simp
    moreover have "0 < js_or (rmse s) 1" using nonneg \<open>rmse b \<le> rmse s\<close> True
      by (intro js_or_pos) simp_all
    ultimately have "0 \<le> (rmse s - rmse b) / js_or (rmse s) 1" by simp
    then show ?thesis using low by linarith
  next
    case False
    then have "s = first" using sb by (simp add: second_best_def)
    then show ?thesis using separation_bound [OF nonneg _ _ rank] occ by simp
  qed
qed

lemma classify_models_confidence:
  assumes res: "classify_models mt (mk_models c l li nl q) = Inr r"
    and nonneg: "0 \<le> c" "0 \<le> l" "0 \<le> li" "0 \<le> nl" "0 \<le> q"
  shows "-22 \<le> confidence r \<and> confidence r \<le> 100"
proof -
  obtain first rest where srt: "sort_key rmse (mk_models c l li nl q) = first # rest"
    by (rule sort_mk_models_Cons)
  have set_eq: "set (first # rest) = set (mk_models c l li nl q)"
    by (simp only: srt [symmetric] set_sort)
  have sorted: "sorted (map rmse (first # rest))"
    by (simp only: srt [symmetric] sorted_sort_key)
  have mem: "\<And>m. m \<in> set (first # rest) \<Longrightarrow> 0 \<le> rmse m \<and> 1 \<le> complexity m \<and> complexity m \<le> 5"
    using nonneg mk_models_ranks unfolding set_eq by (auto simp: mk_models_def)
  have r_eq: "r = (if mt < 1 / 10000
         then \<lparr>bestFit = mtype (if l < c then log_model l else constant_model c),
               confidence = 95,
               results = map (\<lambda>m. (mtype m, rmse m)) (first # rest)\<rparr>
         else \<lparr>bestFit = mtype (occam_scan first rest),
               confidence = js_round (standard_confidence mt (first # rest) (occam_scan first rest)),
               results = map (\<lambda>m. (mtype m, rmse m)) (first # rest)\<rparr>)"
    using res unfolding classify_models_mk_models [OF srt] by simp
  show ?thesis
  proof (cases "mt < 1 / 10000")
    case True
    then show ?thesis using r_eq by simp
  next
    case False
    define b where "b = occam_scan first rest"
    have conf: "confidence r = js_round (standard_confidence mt (first # rest) b)"
      using r_eq False by (simp add: b_def)
    have b_in: "b \<in> set (first # rest)" unfolding b_def using occam_scan_in by simp
    have rank: "complexity first - complexity b \<le> 4"
      using mem [OF b_in] mem [of first] by auto
    have sk: "sort_key rmse (first # rest) = first # rest"
      using sorted by (rule sort_key_id_if_sorted)
    have "\<And>s. second_best (sort_key rmse (first # rest)) b = Some s \<Longrightarrow>
             1 - (23 / 20) ^ 4 \<le> (rmse s - rmse b) / js_or (rmse s) 1"
      unfolding sk using sorted mem [of first] b_def rank
      by (intro second_best_separation) simp_all
    then have lo: "- (45 / 2) \<le> standard_confidence mt (first # rest) b"
      by (rule standard_confidence_ge)
    have hi: "standard_confidence mt (first # rest) b \<le> 100"
      using mem [OF b_in] by (intro standard_confidence_le) simp
    have "-22 \<le> js_round (standard_confidence mt (first # rest) b)"
      using lo by (intro js_round_ge) simp
    moreover have "js_round (standard_confidence mt (first # rest) b) \<le> 100"
      using hi by (intro js_round_le) simp
    ultimately show ?thesis using conf by simp
  qed
qed

lemma classify_models_mk_models_Inr: "\<exists>r. classify_models mt (mk_models c l li nl q) = Inr r"
proof -
  obtain first rest where srt: "sort_key rmse (mk_models c l li nl q) = first # rest"
    by (rule sort_mk_models_Cons)
  show ?thesis by (simp add: classify_models_mk_models [OF srt])
qed

lemma determineComplexity_bestFit_catalog:
  assumes "determineComplexity dps = Inr r"
  shows "bestFit r \<in> set catalog_labels"
proof -
  obtain mt l li nl q where
    cl: "classify_models mt (mk_models (calculateRMSE (map dp_time dps) (map (\<lambda>_. mt) dps)) l li nl q) = Inr r"
    using assms by (rule determineComplexity_Inr)
  let ?c = "calculateRMSE (map dp_time dps) (map (\<lambda>_. mt) dps)"
  obtain first rest where srt: "sort_key rmse (mk_models ?c l li nl q) = first # rest"
    by (rule sort_mk_models_Cons)
  have set_eq: "set (first # rest) = set (mk_models ?c l li nl q)"
    by (simp only: srt [symmetric] set_sort)
  have "occam_scan first rest \<in> set (mk_models ?c l li nl q)"
    using occam_scan_in [of first rest] set_eq by auto
  then have "mtype (occam_scan first rest) \<in> set catalog_labels"
    using mk_models_labels [of ?c l li nl q] by (metis image_eqI set_map)
  then show ?thesis
    using cl unfolding classify_models_mk_models [OF srt]
    by (auto simp: catalog_labels_def split: if_splits)
qed

lemma determineComplexity_defined_iff:
  "(\<exists>r. determineComplexity dps = Inr r) \<longleftrightarrow>
   dps \<noteq> [] \<and> (\<forall>tf \<in> {cov_linear, cov_quadratic, cov_log, cov_nlogn}. getRegressionRMSE tf dps \<noteq> None)"
proof
  assume "\<exists>r. determineComplexity dps = Inr r"
  then obtain r where "determineComplexity dps = Inr r" ..
  then obtain mt l li nl q where "ss_mean (map dp_time dps) = Some mt"
    "getRegressionRMSE cov_log dps = Some l" "getRegressionRMSE cov_linear dps = Some li"
    "getRegressionRMSE cov_nlogn dps = Some nl" "getRegressionRMSE cov_quadratic dps = Some q"
    by (rule determineComplexity_Inr)
  then show "dps \<noteq> [] \<and> (\<forall>tf \<in> {cov_linear, cov_quadratic, cov_log, cov_nlogn}. getRegressionRMSE tf dps \<noteq> None)"
    by (auto simp: ss_mean_Some_iff)
next
  assume h: "dps \<noteq> [] \<and> (\<forall>tf \<in> {cov_linear, cov_quadratic, cov_log, cov_nlogn}. getRegressionRMSE tf dps \<noteq> None)"
  obtain mt where mt: "ss_mean (map dp_time dps) = Some mt"
    using h by (simp add: ss_mean_def)
  obtain li where li: "getRegressionRMSE cov_linear dps = Some li" using h by auto
  obtain q where q: "getRegressionRMSE cov_quadratic dps = Some q" using h by auto
  obtain l where l: "getRegressionRMSE cov_log dps = Some l" using h by auto
  obtain nl where nl: "getRegressionRMSE cov_nlogn dps = Some nl" using h by auto
  show "\<exists>r. determineComplexity dps = Inr r"
    unfolding determineComplexity_def Let_def mt li q l nl
    by (simp add: classify_models_mk_models_Inr)
qed

section \<open>Properties of determineComplexity\<close>

text \<open>
  C1: whenever \<open>determineComplexity\<close> returns a result, its \<open>results\<close> are
  sorted by non-decreasing RMSE and are exactly the five catalog labels, each
  paired with the RMSE computed for it (the constant model's from the mean, the
  other four from \<open>getRegressionRMSE\<close>).
\<close>

theorem determineComplexity_results_sorted:
  assumes "determineComplexity dps = Inr r"
  shows "sorted (map snd (results r)) \<and>
         (\<exists>l li nl q. getRegressionRMSE cov_log dps = Some l \<and>
            getRegressionRMSE cov_linear dps = Some li \<and>
            getRegressionRMSE cov_nlogn dps = Some nl \<and>
            getRegressionRMSE cov_quadratic dps = Some q \<and>
            mset (results r) = mset (zip catalog_labels
               [calculateRMSE (map dp_time dps) (map (\<lambda>_. the (ss_mean (map dp_time dps))) dps),
                l, li, nl, q]))"
proof -
  obtain mt l li nl q where mt: "ss_mean (map dp_time dps) = Some mt"
    and fits: "getRegressionRMSE cov_log dps = Some l" "getRegressionRMSE cov_linear dps = Some li"
      "getRegressionRMSE cov_nlogn dps = Some nl" "getRegressionRMSE cov_quadratic dps = Some q"
    and cl: "classify_models mt (mk_models (calculateRMSE (map dp_time dps) (map (\<lambda>_. mt) dps)) l li nl q) = Inr r"
    using assms by (rule determineComplexity_Inr)
  let ?c = "calculateRMSE (map dp_time dps) (map (\<lambda>_. mt) dps)"
  obtain first rest where srt: "sort_key rmse (mk_models ?c l li nl q) = first # rest"
    by (rule sort_mk_models_Cons)
  have res: "results r = map (\<lambda>m. (mtype m, rmse m)) (first # rest)"
    using cl unfolding classify_models_mk_models [OF srt] by (auto split: if_splits)
  have "sorted (map rmse (first # rest))"
    by (simp only: srt [symmetric] sorted_sort_key)
  then have "sorted (map snd (results r))" by (simp add: res comp_def)
  moreover have "mset (results r) = mset (map (\<lambda>m. (mtype m, rmse m)) (mk_models ?c l li nl q))"
    unfolding res srt [symmetric] by (rule mset_map_sort_key)
  ultimately show ?thesis using mt fits by (simp add: mk_models_pairs)
qed

theorem determineComplexity_results_sorted_witness:
  "determineComplexity [\<lparr>dp_n = 1, dp_time = 1\<rparr>] = Inr \<lparr>bestFit = ''O(1) - Constant'', confidence = 70, results = zip catalog_labels [0, 0, 0, 0, 0]\<rparr> \<and>
   sorted (map snd (results \<lparr>bestFit = ''O(1) - Constant'', confidence = 70, results = zip catalog_labels [0, 0, 0, 0, 0]\<rparr>)) \<and>
   (\<exists>l li nl q. getRegressionRMSE cov_log [\<lparr>dp_n = 1, dp_time = 1\<rparr>] = Some l \<and>
      getRegressionRMSE cov_linear [\<lparr>dp_n = 1, dp_time = 1\<rparr>] = Some li \<and>
      getRegressionRMSE cov_nlogn [\<lparr>dp_n = 1, dp_time = 1\<rparr>] = Some nl \<and>
      getRegressionRMSE cov_quadratic [\<lparr>dp_n = 1, dp_time = 1\<rparr>] = Some q \<and>
      mset (results \<lparr>bestFit = ''O(1) - Constant'', confidence = 70, results = zip catalog_labels [0, 0, 0, 0, 0]\<rparr>) = mset (zip catalog_labels
         [calculateRMSE (map dp_time [\<lparr>dp_n = 1, dp_time = 1\<rparr>]) (map (\<lambda>_. the (ss_mean (map dp_time [\<lparr>dp_n = 1, dp_time = 1\<rparr>]))) [\<lparr>dp_n = 1, dp_time = 1\<rparr>]),
          l, li, nl, q]))"
proof -
  have h: "determineComplexity [\<lparr>dp_n = 1, dp_time = 1\<rparr>] = Inr \<lparr>bestFit = ''O(1) - Constant'', confidence = 70, results = zip catalog_labels [0, 0, 0, 0, 0]\<rparr>"
    by (simp add: model_defs sublist_code)
  show ?thesis by (rule conjI [OF h determineComplexity_results_sorted [OF h]])
qed

text \<open>
  C3: the confidence of every result lies between \<open>-22\<close> and \<open>100\<close>.  The
  upper bound is the spec's; the lower one is what the code guarantees, since
  the separation term can be negative (C4).
\<close>

theorem determineComplexity_confidence_bounds:
  assumes "determineComplexity dps = Inr r"
  shows "-22 \<le> confidence r \<and> confidence r \<le> 100"
proof -
  obtain mt l li nl q where "getRegressionRMSE cov_log dps = Some l"
    "getRegressionRMSE cov_linear dps = Some li" "getRegressionRMSE cov_nlogn dps = Some nl"
    "getRegressionRMSE cov_quadratic dps = Some q"
    and cl: "classify_models mt (mk_models (calculateRMSE (map dp_time dps) (map (\<lambda>_. mt) dps)) l li nl q) = Inr r"
    using assms by (rule determineComplexity_Inr)
  then show ?thesis
    using classify_models_confidence [OF cl] getRegressionRMSE_nonneg by simp
qed

theorem determineComplexity_confidence_bounds_witness:
  "determineComplexity [\<lparr>dp_n = 1, dp_time = 1\<rparr>] = Inr \<lparr>bestFit = ''O(1) - Constant'', confidence = 70, results = zip catalog_labels [0, 0, 0, 0, 0]\<rparr> \<and>
   -22 \<le> confidence \<lparr>bestFit = ''O(1) - Constant'', confidence = 70, results = zip catalog_labels [0, 0, 0, 0, 0]\<rparr> \<and> confidence \<lparr>bestFit = ''O(1) - Constant'', confidence = 70, results = zip catalog_labels [0, 0, 0, 0, 0]\<rparr> \<le> 100"
proof -
  have h: "determineComplexity [\<lparr>dp_n = 1, dp_time = 1\<rparr>] = Inr \<lparr>bestFit = ''O(1) - Constant'', confidence = 70, results = zip catalog_labels [0, 0, 0, 0, 0]\<rparr>"
    by (simp add: model_defs sublist_code)
  show ?thesis by (rule conjI [OF h determineComplexity_confidence_bounds [OF h]])
qed

text \<open>
  The confidence can be negative, against the spec's range \<open>[0, 100]\<close>:
  with mean time 1 and RMSEs 170, 148, 129, 114, 100 (constant to quadratic)
  the Occam scan climbs from quadratic to constant in four steps of less than
  15\<percent>, the fit quality is 0, and the separation from the lowest-RMSE model is
  \<open>(100 - 170) / 100\<close>, so the confidence is \<open>-21\<close>.
\<close>

theorem confidence_can_be_negative:
  "classify_models 1 (mk_models 170 148 129 114 100) =
     Inr \<lparr>bestFit = ''O(1) - Constant'', confidence = -21,
          results = [(''O(n^2) - Quadratic'', 100), (''O(n log n) - Linear-ithmic'', 114),
                     (''O(n) - Linear'', 129), (''O(log n) - Logarithmic'', 148),
                     (''O(1) - Constant'', 170)]\<rparr>"
  by (simp add: model_defs sublist_code)

text \<open>
  C5: in the ultra-fast regime (mean time below \<open>1e-4\<close>) the confidence is 95
  and the best fit is the logarithmic model exactly when its RMSE is below the
  constant model's, and the constant model otherwise.
\<close>

theorem determineComplexity_ultra_fast:
  assumes "determineComplexity dps = Inr r" and "ss_mean (map dp_time dps) = Some mt"
    and "mt < 1 / 10000" and "getRegressionRMSE cov_log dps = Some l"
  shows "confidence r = 95 \<and>
         bestFit r = (if l < calculateRMSE (map dp_time dps) (map (\<lambda>_. mt) dps)
                      then ''O(log n) - Logarithmic'' else ''O(1) - Constant'')"
proof -
  obtain mt' l' li nl q where mt': "ss_mean (map dp_time dps) = Some mt'"
    and l': "getRegressionRMSE cov_log dps = Some l'"
    and cl: "classify_models mt' (mk_models (calculateRMSE (map dp_time dps) (map (\<lambda>_. mt') dps)) l' li nl q) = Inr r"
    using assms(1) by (rule determineComplexity_Inr)
  have eq: "mt' = mt" "l' = l" using mt' l' assms(2,4) by simp_all
  let ?c = "calculateRMSE (map dp_time dps) (map (\<lambda>_. mt) dps)"
  obtain first rest where srt: "sort_key rmse (mk_models ?c l li nl q) = first # rest"
    by (rule sort_mk_models_Cons)
  show ?thesis
    using cl assms(3) unfolding eq classify_models_mk_models [OF srt] by auto
qed

theorem determineComplexity_ultra_fast_witness:
  "determineComplexity [\<lparr>dp_n = 1, dp_time = 1 / 100000\<rparr>] =
     Inr \<lparr>bestFit = ''O(1) - Constant'', confidence = 95, results = zip catalog_labels [0, 0, 0, 0, 0]\<rparr> \<and>
   ss_mean (map dp_time [\<lparr>dp_n = 1, dp_time = 1 / 100000\<rparr>]) = Some (1 / 100000) \<and>
   (1 / 100000 :: real) < 1 / 10000 \<and>
   getRegressionRMSE cov_log [\<lparr>dp_n = 1, dp_time = 1 / 100000\<rparr>] = Some 0 \<and>
   confidence \<lparr>bestFit = ''O(1) - Constant'', confidence = 95, results = zip catalog_labels [0, 0, 0, 0, 0]\<rparr> = 95 \<and>
   bestFit \<lparr>bestFit = ''O(1) - Constant'', confidence = 95, results = zip catalog_labels [0, 0, 0, 0, 0]\<rparr> =
     (if 0 < calculateRMSE (map dp_time [\<lparr>dp_n = 1, dp_time = 1 / 100000\<rparr>])
              (map (\<lambda>_. 1 / 100000) [\<lparr>dp_n = 1, dp_time = 1 / 100000\<rparr>])
      then ''O(log n) - Logarithmic'' else ''O(1) - Constant'')"
proof -
  let ?dps = "[\<lparr>dp_n = 1, dp_time = 1 / 100000 :: real\<rparr>]"
  have h1: "determineComplexity ?dps =
     Inr \<lparr>bestFit = ''O(1) - Constant'', confidence = 95, results = zip catalog_labels [0, 0, 0, 0, 0]\<rparr>"
    by (simp add: model_defs sublist_code)
  have h2: "ss_mean (map dp_time ?dps) = Some (1 / 100000)" by (simp add: ss_mean_def)
  have h3: "(1 / 100000 :: real) < 1 / 10000" by simp
  have h4: "getRegressionRMSE cov_log ?dps = Some 0" by (simp add: model_defs)
  show ?thesis using h1 h2 h3 h4 determineComplexity_ultra_fast [OF h1 h2 h3 h4] by blast
qed

text \<open>
  C6: the Occam tie-break never picks a model more complex than the lowest-RMSE
  one, and what it gives up in fit is bounded: the chosen model's RMSE is at
  most \<open>1.15 ^ k\<close> times the minimum (or \<open>1.15 ^ k * 1e-9\<close> when the minimum
  is 0), \<open>k\<close> the number of ranks it moves down (so at most \<open>1.15 ^ 4 < 1.75\<close>).
\<close>

theorem occam_choice_bounded:
  assumes srt: "sort_key rmse (mk_models c l li nl q) = first # rest"
    and nonneg: "0 \<le> c" "0 \<le> l" "0 \<le> li" "0 \<le> nl" "0 \<le> q"
    and std: "\<not> mt < 1 / 10000"
    and res: "classify_models mt (mk_models c l li nl q) = Inr r"
  shows "\<exists>b \<in> set (mk_models c l li nl q). bestFit r = mtype b \<and>
           complexity b \<le> complexity first \<and> rmse first \<le> rmse b \<and>
           rmse b \<le> (23 / 20) ^ (complexity first - complexity b) *
                      (if 0 < rmse first then rmse first else 1 / 10 ^ 9)"
proof -
  have set_eq: "set (first # rest) = set (mk_models c l li nl q)"
    by (simp only: srt [symmetric] set_sort)
  have sorted: "sorted (map rmse (first # rest))"
    by (simp only: srt [symmetric] sorted_sort_key)
  have "first \<in> set (mk_models c l li nl q)" using set_eq by auto
  then have f0: "0 \<le> rmse first" using nonneg by (auto simp: mk_models_def)
  have best: "bestFit r = mtype (occam_scan first rest)"
    using res std unfolding classify_models_mk_models [OF srt] by auto
  have "occam_scan first rest \<in> set (mk_models c l li nl q)"
    using occam_scan_in [of first rest] set_eq by auto
  then show ?thesis using best occam_scan_sorted [OF sorted f0] by blast
qed

theorem occam_choice_bounded_witness:
  "sort_key rmse (mk_models 170 148 129 114 100) =
      [\<lparr>mtype = ''O(n^2) - Quadratic'', rmse = 100, complexity = 5\<rparr>,
       \<lparr>mtype = ''O(n log n) - Linear-ithmic'', rmse = 114, complexity = 4\<rparr>,
       \<lparr>mtype = ''O(n) - Linear'', rmse = 129, complexity = 3\<rparr>,
       \<lparr>mtype = ''O(log n) - Logarithmic'', rmse = 148, complexity = 2\<rparr>,
       \<lparr>mtype = ''O(1) - Constant'', rmse = 170, complexity = 1\<rparr>] \<and>
   (0::real) \<le> 170 \<and> (0::real) \<le> 148 \<and> (0::real) \<le> 129 \<and> (0::real) \<le> 114 \<and> (0::real) \<le> 100 \<and>
   \<not> (1::real) < 1 / 10000 \<and>
   classify_models 1 (mk_models 170 148 129 114 100) = Inr \<lparr>bestFit = ''O(1) - Constant'', confidence = -21,
          results = [(''O(n^2) - Quadratic'', 100), (''O(n log n) - Linear-ithmic'', 114),
                     (''O(n) - Linear'', 129), (''O(log n) - Logarithmic'', 148),
                     (''O(1) - Constant'', 170)]\<rparr> \<and>
   (\<exists>b \<in> set (mk_models 170 148 129 114 100). bestFit \<lparr>bestFit = ''O(1) - Constant'', confidence = -21,
          results = [(''O(n^2) - Quadratic'', 100), (''O(n log n) - Linear-ithmic'', 114),
                     (''O(n) - Linear'', 129), (''O(log n) - Logarithmic'', 148),
                     (''O(1) - Constant'', 170)]\<rparr> = mtype b \<and>
      complexity b \<le> 5 \<and> 100 \<le> rmse b \<and>
      rmse b \<le> (23 / 20) ^ (5 - complexity b) * (if (0::real) < 100 then 100 else 1 / 10 ^ 9))"
proof -
  have h1: "sort_key rmse (mk_models 170 148 129 114 100) =
      [\<lparr>mtype = ''O(n^2) - Quadratic'', rmse = 100, complexity = 5\<rparr>,
       \<lparr>mtype = ''O(n log n) - Linear-ithmic'', rmse = 114, complexity = 4\<rparr>,
       \<lparr>mtype = ''O(n) - Linear'', rmse = 129, complexity = 3\<rparr>,
       \<lparr>mtype = ''O(log n) - Logarithmic'', rmse = 148, complexity = 2\<rparr>,
       \<lparr>mtype = ''O(1) - Constant'', rmse = 170, complexity = 1\<rparr>]"
    by (simp add: mk_models_def)
  have h2: "classify_models 1 (mk_models 170 148 129 114 100) = Inr \<lparr>bestFit = ''O(1) - Constant'', confidence = -21,
          results = [(''O(n^2) - Quadratic'', 100), (''O(n log n) - Linear-ithmic'', 114),
                     (''O(n) - Linear'', 129), (''O(log n) - Logarithmic'', 148),
                     (''O(1) - Constant'', 170)]\<rparr>"
    by (simp add: model_defs sublist_code)
  have h3: "\<not> (1::real) < 1 / 10000" by simp
  show ?thesis using h1 h2 h3 occam_choice_bounded [OF h1 _ _ _ _ _ h3 h2] by simp
qed

text \<open>
  C8: \<open>determineComplexity\<close> on a single sample does not return the spec's
  degenerate result: every fit is exact, and it reports \<open>O(1)\<close> with confidence
  70 (95 in the ultra-fast regime).  Only \<open>runSingleAnalysis\<close> short-circuits
  fewer than two sizes.
\<close>

theorem determineComplexity_single_sample:
  assumes "0 < n"
  shows "determineComplexity [\<lparr>dp_n = n, dp_time = t\<rparr>] =
     Inr \<lparr>bestFit = ''O(1) - Constant'', confidence = (if t < 1 / 10000 then 95 else 70),
          results = zip catalog_labels [0, 0, 0, 0, 0]\<rparr>"
  using assms by (simp add: model_defs sublist_code)

theorem determineComplexity_single_sample_witness:
  "0 < (1::nat) \<and> determineComplexity [\<lparr>dp_n = 1, dp_time = 1\<rparr>] =
     Inr \<lparr>bestFit = ''O(1) - Constant'', confidence = 70, results = zip catalog_labels [0, 0, 0, 0, 0]\<rparr>"
  using determineComplexity_single_sample [of 1 1] by simp

text \<open>
  C9: on well-formed data (at least one sample, every size positive, and two
  different sizes unless there is a single sample) no fit is \<open>NaN\<close> and
  \<open>determineComplexity\<close> returns a result.
\<close>

theorem determineComplexity_defined:
  assumes "dps \<noteq> []" "\<forall>d \<in> set dps. 0 < dp_n d"
    and "length dps = 1 \<or> not_all_equal (map dp_n dps)"
  shows "\<exists>r. determineComplexity dps = Inr r"
  using regression_defined_positive [OF assms(2,3)] assms(1)
  by (simp only: determineComplexity_defined_iff) blast

theorem determineComplexity_defined_witness:
  "\<exists>r. determineComplexity [\<lparr>dp_n = 1, dp_time = 1\<rparr>, \<lparr>dp_n = 2, dp_time = 3\<rparr>] = Inr r"
proof -
  let ?dps = "[\<lparr>dp_n = 1, dp_time = 1\<rparr>, \<lparr>dp_n = 2, dp_time = (3::real)\<rparr>]"
  have h1: "?dps \<noteq> []" by simp
  have h2: "\<forall>d \<in> set ?dps. 0 < dp_n d" by simp
  have h3: "length ?dps = 1 \<or> not_all_equal (map dp_n ?dps)"
    by (auto simp: not_all_equal_def)
  show ?thesis by (rule determineComplexity_defined [OF h1 h2 h3])
qed

text \<open>
  C10: a size 0 makes \<open>Math.log(0) = -Infinity\<close> a covariate, so the
  logarithmic fit is \<open>NaN\<close>: the code rejects nothing and the result is
  unspecified.
\<close>

theorem determineComplexity_size_zero:
  assumes "dps \<noteq> []" "\<exists>d \<in> set dps. dp_n d = 0"
  shows "determineComplexity dps = Inl NonFiniteFit"
proof -
  have "None \<in> set (map (cov_log \<circ> dp_n) dps)"
    using assms(2) by (force simp: cov_log_def)
  then have "getRegressionRMSE cov_log dps = None"
    by (simp add: getRegressionRMSE_def those_None_iff [THEN iffD2])
  then show ?thesis using assms(1)
    by (simp add: determineComplexity_def ss_mean_def Let_def split: option.split)
qed

theorem determineComplexity_size_zero_witness:
  "[\<lparr>dp_n = 0, dp_time = (1::real)\<rparr>] \<noteq> [] \<and>
   (\<exists>d \<in> set [\<lparr>dp_n = 0, dp_time = (1::real)\<rparr>]. dp_n d = 0) \<and>
   determineComplexity [\<lparr>dp_n = 0, dp_time = 1\<rparr>] = Inl NonFiniteFit"
  using determineComplexity_size_zero [of "[\<lparr>dp_n = 0, dp_time = 1\<rparr>]"] by simp

text \<open>With no samples \<open>ss.mean\<close> throws before any fit is attempted.\<close>

theorem determineComplexity_no_data: "determineComplexity [] = Inl MeanOfEmpty"
  by (simp add: determineComplexity_def ss_mean_def)

end
