(* ===== verification/Inputs.thy ===== *)
theory Inputs
  imports Prelude
begin

text \<open>
  The input materializer of \<open>src/calculator.js\<close> (staged as
  \<open>src/unnamed/part_000\<close>): \<open>generateInputArray\<close> (lines 87--89) and the
  expression \<open>inputMode === 'number' ? n : generateInputArray(n)\<close> that
  \<open>runAnalysis\<close> evaluates at lines 104, 116 and 143.  The mode is a string in
  the source; every value other than \<open>'number'\<close> selects the array, so two
  constructors suffice.  An argument is either the array or the number.
\<close>

datatype input_mode = ArrayMode | NumberMode

datatype arg = Arr "nat list" | Num nat

definition generateInputArray :: "nat \<Rightarrow> nat list" where
  "generateInputArray n = [0..<n]"

definition materialize :: "input_mode \<Rightarrow> nat \<Rightarrow> arg" where
  "materialize inputMode n =
     (if inputMode = NumberMode then Num n else Arr (generateInputArray n))"

declare generateInputArray_def [model_defs] materialize_def [model_defs]

lemma length_generateInputArray [simp]: "length (generateInputArray n) = n"
  by (simp add: generateInputArray_def)

lemma nth_generateInputArray [simp]: "i < n \<Longrightarrow> generateInputArray n ! i = i"
  by (simp add: generateInputArray_def)

lemma sorted_generateInputArray [simp]: "sorted (generateInputArray n)"
  by (simp add: generateInputArray_def)

lemma materialize_Num [simp]: "materialize NumberMode n = Num n"
  by (simp add: materialize_def)

lemma materialize_Arr [simp]: "materialize ArrayMode n = Arr [0..<n]"
  by (simp add: materialize_def generateInputArray_def)

end
