(* ===== verification/Benchmarker.thy ===== *)
theory Benchmarker
  imports Inputs
begin

text \<open>
  The benchmarker \<open>runAnalysis\<close> of \<open>src/calculator.js\<close> (staged as
  \<open>src/unnamed/part_000\<close>, lines 98--163), as explicit state passing.
  \<^item> The world is a record \<open>env\<close>: the readings \<open>performance.now()\<close> returns
    (a mocked clock \<open>clock\<close>, read at position \<open>ticks\<close>, which each reading
    advances) and the log \<open>calls\<close> of the arguments the candidate received, in
    order.
  \<^item> The candidate is a function from the argument it sees to its outcome
    (\<open>None\<close> if it returns, \<open>Some e\<close> if it throws \<open>e\<close>) and the argument
    as it leaves it: an algorithm that sorts in place hands the sorted array to
    the next call on the same object.  A number cannot be mutated.
  \<^item> A throw propagates unchanged as \<open>Thrown e\<close>; \<open>ss.mean\<close> of no times
    (\<open>iterations = 0\<close>) throws \<open>MeanOfNoTimes\<close>; a batch size of 0 makes the
    per-call time \<open>(end - start) / 0\<close>, not finite: \<open>NonFiniteTime\<close>.
  The calibration loop stops at \<open>10^6\<close> calls whatever the clock does, so it
  is a \<open>function\<close> with the measure \<open>10^6 - calCount\<close>; the other loops
  count down a natural number.
\<close>

record env =
  clock :: "nat \<Rightarrow> real"
  ticks :: nat
  calls :: "arg list"

type_synonym 'e algorithm = "arg \<Rightarrow> 'e option \<times> arg"

datatype 'e bench_error = Thrown 'e | MeanOfNoTimes | NonFiniteTime

section \<open>Primitive effects\<close>

text \<open>\<open>performance.now()\<close>: the next reading of the clock.\<close>

definition now :: "env \<Rightarrow> real \<times> env" where
  "now s = (clock s (ticks s), s\<lparr>ticks := Suc (ticks s)\<rparr>)"

text \<open>\<open>algorithm(x)\<close>: log the argument, run the candidate, keep what it did to it.\<close>

definition call_algorithm :: "'e algorithm \<Rightarrow> arg \<Rightarrow> env \<Rightarrow> 'e bench_error + arg \<times> env" where
  "call_algorithm algorithm x s =
     (let s' = s\<lparr>calls := calls s @ [x]\<rparr>
      in case algorithm x of
           (Some e, _) \<Rightarrow> Inl (Thrown e)
         | (None, x') \<Rightarrow> Inr (case x of Num _ \<Rightarrow> x | Arr _ \<Rightarrow> x', s'))"

text \<open>
  A counted loop of calls on one argument object: the warmup
  \<open>for (let i = 0; i < 100; i++) algorithm(warmupInput)\<close> and the batch
  \<open>for (let b = 0; b < batchSize; b++) algorithm(inputForAlgorithm)\<close>.
\<close>

fun run_calls :: "'e algorithm \<Rightarrow> nat \<Rightarrow> arg \<Rightarrow> env \<Rightarrow> 'e bench_error + arg \<times> env" where
  "run_calls algorithm 0 x s = Inr (x, s)"
| "run_calls algorithm (Suc k) x s =
     (case call_algorithm algorithm x s of
        Inl err \<Rightarrow> Inl err
      | Inr (x', s') \<Rightarrow> run_calls algorithm k x' s')"

section \<open>Calibration\<close>

text \<open>
  \<open>while ((calEnd - calStart) < 5 && calCount < 1000000) { algorithm(calibrationInput);
  calCount++; calEnd = performance.now(); }\<close>, returning \<open>calEnd\<close>,
  \<open>calCount\<close>, the input as the calls left it, and the world.
\<close>

function calibrate ::
  "'e algorithm \<Rightarrow> arg \<Rightarrow> real \<Rightarrow> real \<Rightarrow> nat \<Rightarrow> env \<Rightarrow>
   'e bench_error + real \<times> nat \<times> arg \<times> env" where
  "calibrate algorithm x calStart calEnd calCount s =
     (if calEnd - calStart < 5 \<and> calCount < 1000000 then
        (case call_algorithm algorithm x s of
           Inl err \<Rightarrow> Inl err
         | Inr (x', s') \<Rightarrow>
             (let (t, s'') = now s'
              in calibrate algorithm x' calStart t (Suc calCount) s''))
      else Inr (calEnd, calCount, x, s))"
  by pat_completeness auto
termination
  by (relation "measure (\<lambda>(_, _, _, _, calCount, _). 1000000 - calCount)") auto

declare calibrate.simps [simp del]

text \<open>
  \<open>batchSize = Math.ceil((15 * calCount) / (calDuration || 0.001))\<close> when the
  calibration needed more than one call, 1 otherwise.  It is a JavaScript number,
  so an integer here: a clock running backwards could make it 0 or negative.
\<close>

definition batch_size :: "nat \<Rightarrow> real \<Rightarrow> int" where
  "batch_size calCount calDuration =
     (if 1 < calCount then \<lceil>15 * real calCount / js_or calDuration (1 / 1000)\<rceil> else 1)"

section \<open>Measurement\<close>

text \<open>
  One iteration of the measurement loop: a fresh input, a timed batch, and the
  per-call time \<open>(end - start) / batchSize\<close>.
\<close>

definition measure_once ::
  "'e algorithm \<Rightarrow> input_mode \<Rightarrow> nat \<Rightarrow> int \<Rightarrow> env \<Rightarrow> 'e bench_error + real \<times> env" where
  "measure_once algorithm inputMode n batchSize s =
     (let inputForAlgorithm = materialize inputMode n;
          (start, s1) = now s
      in case run_calls algorithm (nat batchSize) inputForAlgorithm s1 of
           Inl err \<Rightarrow> Inl err
         | Inr (_, s2) \<Rightarrow>
             (let (end_time, s3) = now s2
              in if batchSize = 0 then Inl NonFiniteTime
                 else Inr ((end_time - start) / real_of_int batchSize, s3)))"

text \<open>\<open>for (let i = 0; i < iterations; i++) times.push(...)\<close>.\<close>

fun measure_loop ::
  "'e algorithm \<Rightarrow> input_mode \<Rightarrow> nat \<Rightarrow> int \<Rightarrow> nat \<Rightarrow> env \<Rightarrow>
   'e bench_error + real list \<times> env" where
  "measure_loop algorithm inputMode n batchSize 0 s = Inr ([], s)"
| "measure_loop algorithm inputMode n batchSize (Suc k) s =
     (case measure_once algorithm inputMode n batchSize s of
        Inl err \<Rightarrow> Inl err
      | Inr (t, s') \<Rightarrow>
          (case measure_loop algorithm inputMode n batchSize k s' of
             Inl err \<Rightarrow> Inl err
           | Inr (ts, s'') \<Rightarrow> Inr (t # ts, s'')))"

text \<open>The body of \<open>for (const n of inputSizes)\<close>: calibrate, measure, average.\<close>

definition measure_size ::
  "'e algorithm \<Rightarrow> input_mode \<Rightarrow> nat \<Rightarrow> nat \<Rightarrow> env \<Rightarrow> 'e bench_error + data_point \<times> env" where
  "measure_size algorithm inputMode iterations n s =
     (let calibrationInput = materialize inputMode n;
          (calStart, s1) = now s
      in case calibrate algorithm calibrationInput calStart calStart 0 s1 of
           Inl err \<Rightarrow> Inl err
         | Inr (calEnd, calCount, _, s2) \<Rightarrow>
             (let batchSize = batch_size calCount (calEnd - calStart)
              in case measure_loop algorithm inputMode n batchSize iterations s2 of
                   Inl err \<Rightarrow> Inl err
                 | Inr (time_list, s3) \<Rightarrow>
                     (case ss_mean time_list of
                        None \<Rightarrow> Inl MeanOfNoTimes
                      | Some avgTime \<Rightarrow> Inr (\<lparr>dp_n = n, dp_time = avgTime\<rparr>, s3))))"

fun measure_sizes ::
  "'e algorithm \<Rightarrow> input_mode \<Rightarrow> nat \<Rightarrow> nat list \<Rightarrow> env \<Rightarrow>
   'e bench_error + data_point list \<times> env" where
  "measure_sizes algorithm inputMode iterations [] s = Inr ([], s)"
| "measure_sizes algorithm inputMode iterations (n # ns) s =
     (case measure_size algorithm inputMode iterations n s of
        Inl err \<Rightarrow> Inl err
      | Inr (dp, s') \<Rightarrow>
          (case measure_sizes algorithm inputMode iterations ns s' of
             Inl err \<Rightarrow> Inl err
           | Inr (dps, s'') \<Rightarrow> Inr (dp # dps, s'')))"

section \<open>runAnalysis\<close>

text \<open>The warmup on the first size (when there is one), then every size in order.\<close>

definition runAnalysis ::
  "'e algorithm \<Rightarrow> nat list \<Rightarrow> nat \<Rightarrow> input_mode \<Rightarrow> env \<Rightarrow>
   'e bench_error + data_point list \<times> env" where
  "runAnalysis algorithm inputSizes iterations inputMode s =
     (case inputSizes of
        [] \<Rightarrow> Inr ([], s)
      | warmupSize # _ \<Rightarrow>
          (let warmupInput = materialize inputMode warmupSize
           in case run_calls algorithm 100 warmupInput s of
                Inl err \<Rightarrow> Inl err
              | Inr (_, s') \<Rightarrow> measure_sizes algorithm inputMode iterations inputSizes s'))"

declare now_def [model_defs] call_algorithm_def [model_defs] batch_size_def [model_defs]
  measure_once_def [model_defs] measure_size_def [model_defs] runAnalysis_def [model_defs]



section \<open>Lemmas: one call and counted loops\<close>

text \<open>
  A call changes only the log; a counted loop of \<open>k\<close> calls appends \<open>k\<close>
  entries, the first the argument it started with, reads no clock, and fails
  only with the candidate's own throw.
\<close>

lemma call_algorithm_Inr:
  "call_algorithm algorithm x s = Inr (x', s') \<Longrightarrow> s' = s\<lparr>calls := calls s @ [x]\<rparr>"
  by (auto simp: call_algorithm_def split: prod.splits option.splits arg.splits)

lemma call_algorithm_Inl:
  "call_algorithm algorithm x s = Inl err \<longleftrightarrow> (\<exists>e. fst (algorithm x) = Some e \<and> err = Thrown e)"
  by (auto simp: call_algorithm_def split: prod.splits option.splits)

lemma call_algorithm_no_throw:
  "fst (algorithm x) = None \<Longrightarrow> \<exists>x'. call_algorithm algorithm x s = Inr (x', s\<lparr>calls := calls s @ [x]\<rparr>)"
  by (auto simp: call_algorithm_def split: prod.splits option.splits)

lemma call_algorithm_Num:
  "fst (algorithm (Num n)) = None \<Longrightarrow>
   call_algorithm algorithm (Num n) s = Inr (Num n, s\<lparr>calls := calls s @ [Num n]\<rparr>)"
  by (cases "algorithm (Num n)") (simp add: call_algorithm_def)

lemma run_calls_Inr:
  "run_calls algorithm k x s = Inr (x', s') \<Longrightarrow>
   \<exists>xs. s' = s\<lparr>calls := calls s @ xs\<rparr> \<and> length xs = k \<and> (k = 0 \<or> hd xs = x)"
proof (induction k arbitrary: x s)
  case 0
  then show ?case by simp
next
  case (Suc k)
  then obtain x1 s1 where c: "call_algorithm algorithm x s = Inr (x1, s1)"
    and r: "run_calls algorithm k x1 s1 = Inr (x', s')"
    by (auto split: sum.splits)
  from Suc.IH [OF r] obtain xs where "s' = s1\<lparr>calls := calls s1 @ xs\<rparr>" "length xs = k" by blast
  with call_algorithm_Inr [OF c] show ?case
    by (intro exI [of _ "x # xs"]) simp
qed

lemma run_calls_no_throw:
  "(\<And>y. fst (algorithm y) = None) \<Longrightarrow> \<exists>r. run_calls algorithm k x s = Inr r"
proof (induction k arbitrary: x s)
  case (Suc k)
  then obtain x' where "call_algorithm algorithm x s = Inr (x', s\<lparr>calls := calls s @ [x]\<rparr>)"
    using call_algorithm_no_throw by blast
  with Suc show ?case by simp
qed simp

lemma run_calls_throw:
  "fst (algorithm x) = Some e \<Longrightarrow> run_calls algorithm (Suc k) x s = Inl (Thrown e)"
proof -
  assume "fst (algorithm x) = Some e"
  then have "call_algorithm algorithm x s = Inl (Thrown e)" by (simp add: call_algorithm_Inl)
  then show ?thesis by simp
qed

lemma run_calls_Inl: "run_calls algorithm k x s = Inl err \<Longrightarrow> \<exists>e. err = Thrown e"
proof (induction k arbitrary: x s)
  case (Suc k)
  then show ?case by (auto simp: call_algorithm_Inl split: sum.splits)
qed simp

lemma run_calls_Num:
  "fst (algorithm (Num n)) = None \<Longrightarrow>
   run_calls algorithm k (Num n) s = Inr (Num n, s\<lparr>calls := calls s @ replicate k (Num n)\<rparr>)"
  by (induction k arbitrary: s) (simp_all add: call_algorithm_Num replicate_append_same)

lemma run_calls_numeral:
  "run_calls algorithm (numeral k) x s =
     (case call_algorithm algorithm x s of
        Inl err \<Rightarrow> Inl err
      | Inr (x', s') \<Rightarrow> run_calls algorithm (pred_numeral k) x' s')"
  by (simp add: numeral_eq_Suc)

lemma measure_loop_numeral:
  "measure_loop alg mode n b (numeral k) s =
     (case measure_once alg mode n b s of
        Inl err \<Rightarrow> Inl err
      | Inr (t, s') \<Rightarrow>
          (case measure_loop alg mode n b (pred_numeral k) s' of
             Inl err \<Rightarrow> Inl err
           | Inr (ts, s'') \<Rightarrow> Inr (t # ts, s'')))"
  by (simp only: numeral_eq_Suc measure_loop.simps)

section \<open>Lemmas: batch size\<close>

lemma batch_size_pos: "0 \<le> calDuration \<Longrightarrow> 1 \<le> batch_size calCount calDuration"
proof (cases "1 < calCount")
  case True
  assume "0 \<le> calDuration"
  then have "0 < 15 * real calCount / js_or calDuration (1 / 1000)"
    using True js_or_pos [of calDuration "1 / 1000"] by simp
  then show ?thesis using True by (simp add: batch_size_def)
qed (simp add: batch_size_def)

lemma batch_size_le:
  assumes "5 \<le> calDuration"
  shows "batch_size calCount calDuration \<le> max 1 (3 * int calCount)"
proof (cases "1 < calCount")
  case True
  have d: "js_or calDuration (1 / 1000) = calDuration" using assms by simp
  have "15 * real calCount / calDuration \<le> 15 * real calCount / 5"
    using assms by (intro divide_left_mono) auto
  then have "15 * real calCount / calDuration \<le> of_int (3 * int calCount)" by simp
  then have "\<lceil>15 * real calCount / calDuration\<rceil> \<le> 3 * int calCount"
    by (simp only: ceiling_le_iff)
  then show ?thesis using True d by (simp add: batch_size_def)
qed (simp add: batch_size_def)

lemma batch_size_frozen: "batch_size 1000000 0 = 15000000000"
  by (simp add: batch_size_def)

section \<open>Lemmas: calibration\<close>

text \<open>
  \<open>calibrate_Inr\<close> is the loop invariant, by computation induction: the
  clock is untouched, one reading and one logged call per iteration, the exit
  condition holds on return, the count never passes the cap, and \<open>calEnd\<close>
  is the starting value or a reading taken during the loop.
\<close>

lemma calibrate_Inr:
  assumes "calibrate algorithm x calStart calEnd calCount s = Inr (calEnd', calCount', x', s')"
  shows "clock s' = clock s \<and> calCount \<le> calCount' \<and> ticks s' = ticks s + (calCount' - calCount) \<and>
    (\<exists>xs. calls s' = calls s @ xs \<and> length xs = calCount' - calCount \<and>
      (calCount' = calCount \<or> hd xs = x)) \<and>
    \<not> (calEnd' - calStart < 5 \<and> calCount' < 1000000) \<and>
    (calCount \<le> 1000000 \<longrightarrow> calCount' \<le> 1000000) \<and>
    (calEnd - calStart < 5 \<and> calCount < 1000000 \<longrightarrow> calCount < calCount') \<and>
    (calEnd' = calEnd \<or> (\<exists>i. ticks s \<le> i \<and> calEnd' = clock s i))"
  using assms
proof (induction algorithm x calStart calEnd calCount s rule: calibrate.induct)
  case (1 algorithm x calStart calEnd calCount s)
  show ?case
  proof (cases "calEnd - calStart < 5 \<and> calCount < 1000000")
    case False
    with "1.prems" show ?thesis by (simp add: calibrate.simps)
  next
    case True
    with "1.prems" obtain x1 s1 where c: "call_algorithm algorithm x s = Inr (x1, s1)"
      by (auto simp: calibrate.simps split: sum.splits)
    have s1: "s1 = s\<lparr>calls := calls s @ [x]\<rparr>" using call_algorithm_Inr [OF c] .
    define s2 where "s2 = s1\<lparr>ticks := Suc (ticks s)\<rparr>"
    have n: "now s1 = (clock s (ticks s), s2)" by (simp add: now_def s1 s2_def)
    have r: "calibrate algorithm x1 calStart (clock s (ticks s)) (Suc calCount) s2 =
        Inr (calEnd', calCount', x', s')"
      using "1.prems" True c n by (simp add: calibrate.simps)
    have IH: "clock s' = clock s2 \<and> Suc calCount \<le> calCount' \<and>
        ticks s' = ticks s2 + (calCount' - Suc calCount) \<and>
        (\<exists>xs. calls s' = calls s2 @ xs \<and> length xs = calCount' - Suc calCount) \<and>
        \<not> (calEnd' - calStart < 5 \<and> calCount' < 1000000) \<and>
        (Suc calCount \<le> 1000000 \<longrightarrow> calCount' \<le> 1000000) \<and>
        (calEnd' = clock s (ticks s) \<or> (\<exists>i. ticks s2 \<le> i \<and> calEnd' = clock s2 i))"
      using "1.IH" [OF True c refl n [symmetric] refl r] by (simp; blast)
    have s2: "clock s2 = clock s" "ticks s2 = Suc (ticks s)" "calls s2 = calls s @ [x]"
      by (simp_all add: s2_def s1)
    from IH obtain xs where "calls s' = calls s2 @ xs" "length xs = calCount' - Suc calCount" by blast
    with IH s2 True have "\<exists>xs. calls s' = calls s @ xs \<and> length xs = calCount' - calCount \<and>
        (calCount' = calCount \<or> hd xs = x)"
      by (intro exI [of _ "x # xs"]) auto
    with IH s2 True show ?thesis by (auto intro: Suc_leD)
  qed
qed

lemma calibrate_no_throw:
  "(\<And>y. fst (algorithm y) = None) \<Longrightarrow> \<exists>r. calibrate algorithm x calStart calEnd calCount s = Inr r"
proof (induction algorithm x calStart calEnd calCount s rule: calibrate.induct)
  case (1 algorithm x calStart calEnd calCount s)
  show ?case
  proof (cases "calEnd - calStart < 5 \<and> calCount < 1000000")
    case True
    from call_algorithm_no_throw [OF "1.prems"] obtain x1
      where c: "call_algorithm algorithm x s = Inr (x1, s\<lparr>calls := calls s @ [x]\<rparr>)" ..
    obtain t s2 where n: "now (s\<lparr>calls := calls s @ [x]\<rparr>) = (t, s2)" by fastforce
    from "1.IH" [OF True c refl n [symmetric] refl "1.prems"] True c n show ?thesis
      by (simp add: calibrate.simps)
  next
    case False
    show ?thesis by (subst calibrate.simps) (simp only: if_not_P [OF False], simp)
  qed
qed

lemma calibrate_throw:
  "\<lbrakk>calEnd - calStart < 5; calCount < 1000000; fst (algorithm x) = Some e\<rbrakk> \<Longrightarrow>
   calibrate algorithm x calStart calEnd calCount s = Inl (Thrown e)"
  by (simp add: calibrate.simps call_algorithm_Inl [THEN iffD2])

lemma calibrate_Inl:
  "calibrate algorithm x calStart calEnd calCount s = Inl err \<Longrightarrow> \<exists>e. err = Thrown e"
proof (induction algorithm x calStart calEnd calCount s rule: calibrate.induct)
  case (1 algorithm x calStart calEnd calCount s)
  show ?case
  proof (cases "call_algorithm algorithm x s")
    case (Inl err')
    from Inl "1.prems" have "err = err'" by (simp add: calibrate.simps split: if_splits)
    with Inl show ?thesis by (auto simp: call_algorithm_Inl)
  next
    case (Inr r)
    obtain x1 s1 where r: "r = (x1, s1)" by fastforce
    obtain t s2 where n: "now s1 = (t, s2)" by fastforce
    show ?thesis
    proof (cases "calEnd - calStart < 5 \<and> calCount < 1000000")
      case True
      with "1.prems" Inr r n have "calibrate algorithm x1 calStart t (Suc calCount) s2 = Inl err"
        by (simp add: calibrate.simps)
      with "1.IH" [OF True Inr [unfolded r] refl n [symmetric] refl] show ?thesis .
    next
      case False
      with "1.prems" show ?thesis by (simp add: calibrate.simps)
    qed
  qed
qed

lemma calibrate_start:
  assumes "calibrate algorithm x t t 0 s = Inr (calEnd, calCount, x', s')"
  shows "1 \<le> calCount \<and> calCount \<le> 1000000 \<and> (calCount = 1000000 \<or> 5 \<le> calEnd - t) \<and>
    clock s' = clock s \<and> ticks s' = ticks s + calCount \<and>
    (\<exists>xs. calls s' = calls s @ xs \<and> length xs = calCount \<and> hd xs = x) \<and>
    (calEnd = t \<or> (\<exists>i. ticks s \<le> i \<and> calEnd = clock s i))"
  using calibrate_Inr [OF assms] by auto

lemma calibrate_start_mono:
  assumes "calibrate algorithm x (clock s (ticks s)) (clock s (ticks s)) 0 (s\<lparr>ticks := Suc (ticks s)\<rparr>) =
      Inr (calEnd, calCount, x', s')" "mono (clock s)"
  shows "1 \<le> batch_size calCount (calEnd - clock s (ticks s))"
proof -
  have "calEnd = clock s (ticks s) \<or> (\<exists>i. Suc (ticks s) \<le> i \<and> calEnd = clock s i)"
    using calibrate_start [OF assms(1)] by simp
  then have "clock s (ticks s) \<le> calEnd"
    by (elim disjE exE conjE) (simp_all add: monoD [OF assms(2)])
  then show ?thesis by (simp add: batch_size_pos)
qed

section \<open>Lemmas: measurement\<close>

text \<open>
  Each measured iteration reads the clock twice and logs one batch that starts
  with a fresh input; the per-call time is the difference of two consecutive
  readings over the batch size.
\<close>

lemma mono_time_nonneg: "\<lbrakk>mono f; 0 < b\<rbrakk> \<Longrightarrow> 0 \<le> (f (Suc i) - f i) / real_of_int b"
  by (simp add: monoD)

lemma measure_once_Inr:
  assumes "measure_once algorithm inputMode n batchSize s = Inr (t, s')"
  shows "batchSize \<noteq> 0 \<and>
    t = (clock s (Suc (ticks s)) - clock s (ticks s)) / real_of_int batchSize \<and>
    (\<exists>xs. s' = s\<lparr>ticks := Suc (Suc (ticks s)), calls := calls s @ xs\<rparr> \<and>
      length xs = nat batchSize \<and> (batchSize \<le> 0 \<or> hd xs = materialize inputMode n))"
proof -
  obtain x2 s2 where r: "run_calls algorithm (nat batchSize) (materialize inputMode n)
      (s\<lparr>ticks := Suc (ticks s)\<rparr>) = Inr (x2, s2)"
    using assms by (auto simp: measure_once_def now_def Let_def split: sum.splits)
  from run_calls_Inr [OF r] obtain xs
    where xs: "s2 = s\<lparr>ticks := Suc (ticks s), calls := calls s @ xs\<rparr>" "length xs = nat batchSize"
      "nat batchSize = 0 \<or> hd xs = materialize inputMode n"
    by auto
  from assms r xs(1) have "batchSize \<noteq> 0"
    "t = (clock s (Suc (ticks s)) - clock s (ticks s)) / real_of_int batchSize"
    "s' = s\<lparr>ticks := Suc (Suc (ticks s)), calls := calls s @ xs\<rparr>"
    by (auto simp: measure_once_def now_def Let_def split: if_splits)
  with xs(2,3) show ?thesis by auto
qed

lemma measure_once_no_throw:
  "\<lbrakk>\<And>y. fst (algorithm y) = None; batchSize \<noteq> 0\<rbrakk> \<Longrightarrow>
   \<exists>r. measure_once algorithm inputMode n batchSize s = Inr r"
  using run_calls_no_throw [of algorithm "nat batchSize" "materialize inputMode n" "s\<lparr>ticks := Suc (ticks s)\<rparr>"]
  by (auto simp: measure_once_def now_def Let_def)

lemma measure_once_throw:
  "\<lbrakk>0 < batchSize; fst (algorithm (materialize inputMode n)) = Some e\<rbrakk> \<Longrightarrow>
   measure_once algorithm inputMode n batchSize s = Inl (Thrown e)"
  using run_calls_throw [of algorithm "materialize inputMode n" e "nat batchSize - 1"]
  by (simp add: measure_once_def now_def Let_def Suc_nat_eq_nat_zadd1 [symmetric])

lemma measure_once_Inl:
  "\<lbrakk>measure_once algorithm inputMode n batchSize s = Inl err; batchSize \<noteq> 0\<rbrakk> \<Longrightarrow> \<exists>e. err = Thrown e"
  by (auto simp: measure_once_def now_def Let_def dest: run_calls_Inl split: sum.splits)

lemma measure_loop_Inr:
  assumes "measure_loop algorithm inputMode n batchSize k s = Inr (ts, s')"
  shows "length ts = k \<and> clock s' = clock s \<and> ticks s' = ticks s + 2 * k \<and>
    (\<exists>bs. calls s' = calls s @ concat bs \<and> length bs = k \<and>
      (\<forall>xs\<in>set bs. length xs = nat batchSize \<and> (batchSize \<le> 0 \<or> hd xs = materialize inputMode n))) \<and>
    (\<forall>t\<in>set ts. \<exists>i. t = (clock s (Suc i) - clock s i) / real_of_int batchSize) \<and>
    (mono (clock s) \<and> 0 < batchSize \<longrightarrow> (\<forall>t\<in>set ts. 0 \<le> t))"
  using assms
proof (induction k arbitrary: ts s)
  case 0
  then show ?case by (auto intro: exI [of _ "[]"])
next
  case (Suc k)
  then obtain t s1 ts' where m: "measure_once algorithm inputMode n batchSize s = Inr (t, s1)"
    and l: "measure_loop algorithm inputMode n batchSize k s1 = Inr (ts', s')" and ts: "ts = t # ts'"
    by (auto split: sum.splits)
  from measure_once_Inr [OF m] obtain xs where
    t: "t = (clock s (Suc (ticks s)) - clock s (ticks s)) / real_of_int batchSize" and
    s1: "s1 = s\<lparr>ticks := Suc (Suc (ticks s)), calls := calls s @ xs\<rparr>" and
    xs: "length xs = nat batchSize \<and> (batchSize \<le> 0 \<or> hd xs = materialize inputMode n)"
    by blast
  from Suc.IH [OF l] obtain bs where IH: "length ts' = k" "clock s' = clock s1"
    "ticks s' = ticks s1 + 2 * k" "calls s' = calls s1 @ concat bs" "length bs = k"
    "\<forall>xs\<in>set bs. length xs = nat batchSize \<and> (batchSize \<le> 0 \<or> hd xs = materialize inputMode n)"
    "\<forall>t\<in>set ts'. \<exists>i. t = (clock s1 (Suc i) - clock s1 i) / real_of_int batchSize"
    "mono (clock s1) \<and> 0 < batchSize \<longrightarrow> (\<forall>t\<in>set ts'. 0 \<le> t)"
    by blast
  have "\<exists>bs. calls s' = calls s @ concat bs \<and> length bs = Suc k \<and>
      (\<forall>xs\<in>set bs. length xs = nat batchSize \<and> (batchSize \<le> 0 \<or> hd xs = materialize inputMode n))"
    using IH(4,5,6) xs s1 by (intro exI [of _ "xs # bs"]) simp
  with IH(1,2,3,7,8) ts t s1 show ?case by (auto simp: mono_time_nonneg)
qed

lemma measure_loop_no_throw:
  "\<lbrakk>\<And>y. fst (algorithm y) = None; batchSize \<noteq> 0\<rbrakk> \<Longrightarrow>
   \<exists>r. measure_loop algorithm inputMode n batchSize k s = Inr r"
proof (induction k arbitrary: s)
  case (Suc k)
  from measure_once_no_throw [OF Suc.prems] obtain t s1
    where m: "measure_once algorithm inputMode n batchSize s = Inr (t, s1)" by fastforce
  from Suc.IH [OF Suc.prems, of s1] obtain ts s2
    where "measure_loop algorithm inputMode n batchSize k s1 = Inr (ts, s2)" by fastforce
  with m show ?case by simp
qed simp

lemma measure_loop_Inl:
  "\<lbrakk>measure_loop algorithm inputMode n batchSize k s = Inl err; batchSize \<noteq> 0\<rbrakk> \<Longrightarrow> \<exists>e. err = Thrown e"
proof (induction k arbitrary: s)
  case (Suc k)
  then show ?case by (auto dest: measure_once_Inl split: sum.splits)
qed simp

lemma measure_size_cases:
  "measure_size algorithm inputMode iterations n s =
     (case calibrate algorithm (materialize inputMode n) (clock s (ticks s)) (clock s (ticks s)) 0
             (s\<lparr>ticks := Suc (ticks s)\<rparr>) of
        Inl err \<Rightarrow> Inl err
      | Inr (calEnd, calCount, _, s2) \<Rightarrow>
          (case measure_loop algorithm inputMode n
                  (batch_size calCount (calEnd - clock s (ticks s))) iterations s2 of
             Inl err \<Rightarrow> Inl err
           | Inr (time_list, s3) \<Rightarrow>
               (case ss_mean time_list of
                  None \<Rightarrow> Inl MeanOfNoTimes
                | Some avgTime \<Rightarrow> Inr (\<lparr>dp_n = n, dp_time = avgTime\<rparr>, s3))))"
  unfolding measure_size_def now_def Let_def by simp

lemma measure_size_InrE:
  assumes "measure_size algorithm inputMode iterations n s = Inr (dp, s')"
  obtains calEnd calCount x2 s2 ts where
    "calibrate algorithm (materialize inputMode n) (clock s (ticks s)) (clock s (ticks s)) 0
       (s\<lparr>ticks := Suc (ticks s)\<rparr>) = Inr (calEnd, calCount, x2, s2)"
    "measure_loop algorithm inputMode n (batch_size calCount (calEnd - clock s (ticks s)))
       iterations s2 = Inr (ts, s')"
    "ss_mean ts = Some (dp_time dp)" "dp_n dp = n"
  using assms by (auto simp: measure_size_cases split: sum.splits option.splits)

lemma measure_size_Inr:
  assumes m: "measure_size algorithm inputMode iterations n s = Inr (dp, s')"
  shows "dp_n dp = n \<and> clock s' = clock s \<and> prefix (calls s) (calls s') \<and>
    (mono (clock s) \<longrightarrow> 0 \<le> dp_time dp)"
proof -
  from m obtain calEnd calCount x2 s2 ts where
    cal: "calibrate algorithm (materialize inputMode n) (clock s (ticks s)) (clock s (ticks s)) 0
       (s\<lparr>ticks := Suc (ticks s)\<rparr>) = Inr (calEnd, calCount, x2, s2)" and
    ml: "measure_loop algorithm inputMode n (batch_size calCount (calEnd - clock s (ticks s)))
       iterations s2 = Inr (ts, s')" and
    mean: "ss_mean ts = Some (dp_time dp)" and dpn: "dp_n dp = n"
    by (rule measure_size_InrE)
  note C = calibrate_start [OF cal] and L = measure_loop_Inr [OF ml]
  have "0 \<le> dp_time dp" if mono: "mono (clock s)"
    using calibrate_start_mono [OF cal mono] C L mono ss_mean_nonneg [OF mean] by auto
  moreover have "prefix (calls s) (calls s')"
  proof -
    from C obtain xs where "calls s2 = calls s @ xs" by auto
    moreover from L obtain bs where "calls s' = calls s2 @ concat bs" by blast
    ultimately show ?thesis by (intro prefixI [of _ _ "xs @ concat bs"]) simp
  qed
  ultimately show ?thesis using C L dpn by auto
qed

lemma measure_size_no_throw:
  assumes nt: "\<And>y. fst (algorithm y) = None" and mono: "mono (clock s)" and it: "0 < iterations"
  shows "\<exists>r. measure_size algorithm inputMode iterations n s = Inr r"
proof -
  from calibrate_no_throw [OF nt] obtain r where
    "calibrate algorithm (materialize inputMode n) (clock s (ticks s)) (clock s (ticks s)) 0
       (s\<lparr>ticks := Suc (ticks s)\<rparr>) = Inr r" ..
  moreover obtain calEnd calCount x2 s2 where "r = (calEnd, calCount, x2, s2)" by (cases r) auto
  ultimately have cal: "calibrate algorithm (materialize inputMode n) (clock s (ticks s)) (clock s (ticks s)) 0
       (s\<lparr>ticks := Suc (ticks s)\<rparr>) = Inr (calEnd, calCount, x2, s2)" by simp
  define b where "b = batch_size calCount (calEnd - clock s (ticks s))"
  have "b \<noteq> 0" using calibrate_start_mono [OF cal mono] by (simp add: b_def)
  from measure_loop_no_throw [OF nt this] obtain r' where
    "measure_loop algorithm inputMode n b iterations s2 = Inr r'" ..
  moreover obtain ts s3 where "r' = (ts, s3)" by (cases r') auto
  ultimately have ml: "measure_loop algorithm inputMode n b iterations s2 = Inr (ts, s3)" by simp
  have "ts \<noteq> []" using measure_loop_Inr [OF ml] it by auto
  then show ?thesis using cal ml by (simp add: measure_size_cases b_def [symmetric] ss_mean_def)
qed

lemma measure_size_Inl:
  assumes m: "measure_size algorithm inputMode iterations n s = Inl err"
    and mono: "mono (clock s)" and it: "0 < iterations"
  shows "\<exists>e. err = Thrown e"
proof (cases "calibrate algorithm (materialize inputMode n) (clock s (ticks s)) (clock s (ticks s)) 0
       (s\<lparr>ticks := Suc (ticks s)\<rparr>)")
  case (Inl err')
  with m show ?thesis by (auto simp: measure_size_cases dest: calibrate_Inl)
next
  case (Inr r)
  then obtain calEnd calCount x2 s2 where
    cal: "calibrate algorithm (materialize inputMode n) (clock s (ticks s)) (clock s (ticks s)) 0
       (s\<lparr>ticks := Suc (ticks s)\<rparr>) = Inr (calEnd, calCount, x2, s2)"
    by (cases r) auto
  define b where "b = batch_size calCount (calEnd - clock s (ticks s))"
  have b: "b \<noteq> 0" using calibrate_start_mono [OF cal mono] by (simp add: b_def)
  show ?thesis
  proof (cases "measure_loop algorithm inputMode n b iterations s2")
    case (Inl err')
    with m cal b show ?thesis by (auto simp: measure_size_cases b_def [symmetric] dest: measure_loop_Inl)
  next
    case (Inr r')
    then obtain ts s3 where ml: "measure_loop algorithm inputMode n b iterations s2 = Inr (ts, s3)"
      by (cases r') auto
    have "ts \<noteq> []" using measure_loop_Inr [OF ml] it by auto
    with m cal ml show ?thesis by (simp add: measure_size_cases b_def [symmetric] ss_mean_def)
  qed
qed

lemma measure_size_no_iterations:
  assumes nt: "\<And>y. fst (algorithm y) = None"
  shows "measure_size algorithm inputMode 0 n s = Inl MeanOfNoTimes"
proof -
  from calibrate_no_throw [OF nt] obtain r where
    "calibrate algorithm (materialize inputMode n) (clock s (ticks s)) (clock s (ticks s)) 0
       (s\<lparr>ticks := Suc (ticks s)\<rparr>) = Inr r" ..
  moreover obtain calEnd calCount x2 s2 where "r = (calEnd, calCount, x2, s2)" by (cases r) auto
  ultimately show ?thesis by (simp add: measure_size_cases ss_mean_def)
qed

lemma measure_sizes_Inr:
  "measure_sizes algorithm inputMode iterations ns s = Inr (dps, s') \<Longrightarrow>
   map dp_n dps = ns \<and> clock s' = clock s \<and> prefix (calls s) (calls s') \<and>
   (mono (clock s) \<longrightarrow> (\<forall>d\<in>set dps. 0 \<le> dp_time d))"
proof (induction ns arbitrary: dps s)
  case (Cons n ns)
  then obtain dp s1 dps' where m: "measure_size algorithm inputMode iterations n s = Inr (dp, s1)"
    and r: "measure_sizes algorithm inputMode iterations ns s1 = Inr (dps', s')" and d: "dps = dp # dps'"
    by (auto split: sum.splits)
  note A = measure_size_Inr [OF m] and B = Cons.IH [OF r]
  have "prefix (calls s) (calls s')"
    using A B by (blast intro: prefix_order.trans)
  with A B d show ?case by auto
qed simp

lemma measure_sizes_no_throw:
  "\<lbrakk>\<And>y. fst (algorithm y) = None; mono (clock s); 0 < iterations\<rbrakk> \<Longrightarrow>
   \<exists>r. measure_sizes algorithm inputMode iterations ns s = Inr r"
proof (induction ns arbitrary: s)
  case (Cons n ns)
  from measure_size_no_throw [OF Cons.prems] obtain r
    where "measure_size algorithm inputMode iterations n s = Inr r" ..
  moreover obtain dp s1 where r: "r = (dp, s1)" by (cases r) auto
  ultimately have m: "measure_size algorithm inputMode iterations n s = Inr (dp, s1)" by simp
  have "mono (clock s1)" using measure_size_Inr [OF m] Cons.prems(2) by simp
  from Cons.IH [OF Cons.prems(1) this Cons.prems(3)] obtain r'
    where "measure_sizes algorithm inputMode iterations ns s1 = Inr r'" ..
  with m show ?case by (cases r') simp
qed simp

lemma measure_sizes_Inl:
  "\<lbrakk>measure_sizes algorithm inputMode iterations ns s = Inl err; mono (clock s); 0 < iterations\<rbrakk> \<Longrightarrow>
   \<exists>e. err = Thrown e"
proof (induction ns arbitrary: s)
  case (Cons n ns)
  show ?case
  proof (cases "measure_size algorithm inputMode iterations n s")
    case (Inl err')
    with Cons.prems measure_size_Inl [OF Inl Cons.prems(2,3)] show ?thesis by simp
  next
    case (Inr r)
    obtain dp s1 where r: "r = (dp, s1)" by (cases r) auto
    with Inr have m: "measure_size algorithm inputMode iterations n s = Inr (dp, s1)" by simp
    have "mono (clock s1)" using measure_size_Inr [OF m] Cons.prems(2) by simp
    moreover have "measure_sizes algorithm inputMode iterations ns s1 = Inl err"
      using Cons.prems(1) m by (auto split: sum.splits)
    ultimately show ?thesis using Cons.IH Cons.prems(3) by blast
  qed
qed simp

lemma runAnalysis_Cons:
  "runAnalysis algorithm (n # ns) iterations inputMode s =
     (case run_calls algorithm 100 (materialize inputMode n) s of
        Inl err \<Rightarrow> Inl err
      | Inr (_, s') \<Rightarrow> measure_sizes algorithm inputMode iterations (n # ns) s')"
  by (simp add: runAnalysis_def Let_def)

lemma runAnalysis_InrE:
  assumes "runAnalysis algorithm inputSizes iterations inputMode s = Inr (dps, s')"
  obtains s1 where "measure_sizes algorithm inputMode iterations inputSizes s1 = Inr (dps, s')"
    "clock s1 = clock s"
proof (cases inputSizes)
  case Nil
  with assms that show ?thesis by (simp add: runAnalysis_def)
next
  case (Cons n ns)
  with assms obtain x1 s1 where w: "run_calls algorithm 100 (materialize inputMode n) s = Inr (x1, s1)"
    and "measure_sizes algorithm inputMode iterations inputSizes s1 = Inr (dps, s')"
    by (auto simp: runAnalysis_Cons split: sum.splits)
  with run_calls_Inr [OF w] that show ?thesis by auto
qed

section \<open>Properties of the benchmarker\<close>

text \<open>
  C13. A successful run yields exactly one sample per input size, in the order of
  \<open>inputSizes\<close>: the \<open>n\<close> fields of the result are the sizes.
\<close>

theorem runAnalysis_sizes:
  assumes "runAnalysis algorithm inputSizes iterations inputMode s = Inr (dps, s')"
  shows "map dp_n dps = inputSizes"
  using assms by (rule runAnalysis_InrE) (simp add: measure_sizes_Inr)

lemma runAnalysis_sizes_witness:
  "runAnalysis (\<lambda>x. (None :: string option, x)) [3, 5] 1 NumberMode \<lparr>clock = \<lambda>i. 10 * real i, ticks = 0, calls = []\<rparr> =
     Inr ([\<lparr>dp_n = 3, dp_time = 10\<rparr>, \<lparr>dp_n = 5, dp_time = 10\<rparr>],
          \<lparr>clock = \<lambda>i. 10 * real i, ticks = 8,
           calls = replicate 100 (Num 3) @ [Num 3, Num 3, Num 5, Num 5]\<rparr>) \<and>
   map dp_n [\<lparr>dp_n = 3, dp_time = 10 :: real\<rparr>, \<lparr>dp_n = 5, dp_time = 10\<rparr>] = [3, 5]"
proof
  show r: "runAnalysis (\<lambda>x. (None :: string option, x)) [3, 5] 1 NumberMode \<lparr>clock = \<lambda>i. 10 * real i, ticks = 0, calls = []\<rparr> =
     Inr ([\<lparr>dp_n = 3, dp_time = 10\<rparr>, \<lparr>dp_n = 5, dp_time = 10\<rparr>],
          \<lparr>clock = \<lambda>i. 10 * real i, ticks = 8,
           calls = replicate 100 (Num 3) @ [Num 3, Num 3, Num 5, Num 5]\<rparr>)"
    by (simp add: runAnalysis_Cons run_calls_Num measure_size_cases calibrate.simps
        call_algorithm_Num now_def batch_size_def measure_once_def Let_def ss_mean_def)
  show "map dp_n [\<lparr>dp_n = 3, dp_time = 10 :: real\<rparr>, \<lparr>dp_n = 5, dp_time = 10\<rparr>] = [3, 5]"
    using runAnalysis_sizes [OF r] .
qed

text \<open>
  On a clock that never runs backwards every sample's time per call is
  non-negative.
\<close>

theorem runAnalysis_times_nonneg:
  assumes "runAnalysis algorithm inputSizes iterations inputMode s = Inr (dps, s')" "mono (clock s)"
  shows "\<forall>d\<in>set dps. 0 \<le> dp_time d"
proof -
  obtain s1 where "measure_sizes algorithm inputMode iterations inputSizes s1 = Inr (dps, s')"
    "clock s1 = clock s"
    using assms(1) by (rule runAnalysis_InrE)
  with measure_sizes_Inr assms(2) show ?thesis by metis
qed

lemma runAnalysis_times_nonneg_witness:
  "runAnalysis (\<lambda>x. (None :: string option, x)) [3] 1 NumberMode \<lparr>clock = \<lambda>i. 10 * real i, ticks = 0, calls = []\<rparr> =
     Inr ([\<lparr>dp_n = 3, dp_time = 10\<rparr>],
          \<lparr>clock = \<lambda>i. 10 * real i, ticks = 4, calls = replicate 100 (Num 3) @ [Num 3, Num 3]\<rparr>) \<and>
   list_all (\<lambda>d. 0 \<le> dp_time d) [\<lparr>dp_n = 3, dp_time = 10 :: real\<rparr>]"
proof
  show r: "runAnalysis (\<lambda>x. (None :: string option, x)) [3] 1 NumberMode \<lparr>clock = \<lambda>i. 10 * real i, ticks = 0, calls = []\<rparr> =
     Inr ([\<lparr>dp_n = 3, dp_time = 10\<rparr>],
          \<lparr>clock = \<lambda>i. 10 * real i, ticks = 4, calls = replicate 100 (Num 3) @ [Num 3, Num 3]\<rparr>)"
    by (simp add: runAnalysis_Cons run_calls_Num measure_size_cases calibrate.simps
        call_algorithm_Num now_def batch_size_def measure_once_def Let_def ss_mean_def)
  show "list_all (\<lambda>d. 0 \<le> dp_time d) [\<lparr>dp_n = 3, dp_time = 10 :: real\<rparr>]"
    using runAnalysis_times_nonneg [OF r] by (simp add: mono_def)
qed
text \<open>
  C16. On a clock that never runs backwards and with at least one iteration, the only
  way a run fails is a throw of the candidate, propagated unchanged: neither the
  empty mean nor the division by a zero batch size can occur.
\<close>

theorem runAnalysis_error_is_throw:
  assumes "runAnalysis algorithm inputSizes iterations inputMode s = Inl err"
    and "mono (clock s)" "0 < iterations"
  shows "\<exists>e. err = Thrown e"
proof (cases inputSizes)
  case (Cons n ns)
  show ?thesis
  proof (cases "run_calls algorithm 100 (materialize inputMode n) s")
    case (Inl err')
    with assms(1) Cons run_calls_Inl [OF Inl] show ?thesis by (simp add: runAnalysis_Cons)
  next
    case (Inr r)
    obtain x1 s1 where r: "r = (x1, s1)" by (cases r) auto
    with Inr have w: "run_calls algorithm 100 (materialize inputMode n) s = Inr (x1, s1)" by simp
    have "mono (clock s1)" using run_calls_Inr [OF w] assms(2) by auto
    moreover have "measure_sizes algorithm inputMode iterations inputSizes s1 = Inl err"
      using assms(1) Cons w by (simp add: runAnalysis_Cons)
    ultimately show ?thesis using measure_sizes_Inl assms(3) by blast
  qed
qed (use assms in \<open>simp add: runAnalysis_def\<close>)

lemma runAnalysis_error_is_throw_witness:
  "runAnalysis (\<lambda>x. (Some ''boom'', x)) [3] 1 NumberMode \<lparr>clock = \<lambda>i. 10 * real i, ticks = 0, calls = []\<rparr> = Inl (Thrown ''boom'') \<and>
   (\<exists>e. Thrown ''boom'' = (Thrown e :: string bench_error))"
proof
  show r: "runAnalysis (\<lambda>x. (Some ''boom'', x)) [3] 1 NumberMode \<lparr>clock = \<lambda>i. 10 * real i, ticks = 0, calls = []\<rparr> = Inl (Thrown ''boom'')"
    by (simp add: runAnalysis_Cons run_calls_numeral call_algorithm_def)
  show "\<exists>e. Thrown ''boom'' = (Thrown e :: string bench_error)"
    using runAnalysis_error_is_throw [OF r] by (simp add: mono_def)
qed
text \<open>
  A candidate that throws on the warmup input makes the whole run throw that
  exception, before any clock reading.
\<close>

theorem runAnalysis_warmup_throw:
  assumes "fst (algorithm (materialize inputMode n)) = Some e"
  shows "runAnalysis algorithm (n # ns) iterations inputMode s = Inl (Thrown e)"
  using run_calls_throw [where algorithm = algorithm and x = "materialize inputMode n" and k = 99, OF assms]
  by (simp add: runAnalysis_Cons)

lemma runAnalysis_warmup_throw_witness:
  "runAnalysis (\<lambda>x. (Some ''boom'', x)) [3, 5] 1 ArrayMode \<lparr>clock = \<lambda>i. 10 * real i, ticks = 0, calls = []\<rparr> = Inl (Thrown ''boom'')"
  by (rule runAnalysis_warmup_throw) simp
text \<open>
  With \<open>iterations = 0\<close> and at least one size, a run of a non-throwing
  candidate throws the empty-mean error of \<open>ss.mean\<close>: the code does not
  guard the iteration count.
\<close>

theorem runAnalysis_no_iterations:
  assumes "\<And>y. fst (algorithm y) = None" "inputSizes \<noteq> []"
  shows "runAnalysis algorithm inputSizes 0 inputMode s = Inl MeanOfNoTimes"
proof -
  obtain n ns where c: "inputSizes = n # ns" using assms(2) by (cases inputSizes) auto
  from run_calls_no_throw [OF assms(1)] obtain x1 s1
    where "run_calls algorithm 100 (materialize inputMode n) s = Inr (x1, s1)" by fastforce
  with c show ?thesis by (simp add: runAnalysis_Cons measure_size_no_iterations [OF assms(1)])
qed

lemma runAnalysis_no_iterations_witness:
  "runAnalysis (\<lambda>x. (None :: string option, x)) [3] 0 NumberMode \<lparr>clock = \<lambda>i. 10 * real i, ticks = 0, calls = []\<rparr> = Inl MeanOfNoTimes"
  by (rule runAnalysis_no_iterations) simp_all
text \<open>
  C7. Measuring one size reads the clock \<open>1 + calCount + 2 * iterations\<close> times,
  where the calibration count is between 1 and the cap \<open>10^6\<close>.
\<close>

theorem measure_size_clock_reads:
  assumes "measure_size algorithm inputMode iterations n s = Inr (dp, s')"
  shows "\<exists>calCount. 1 \<le> calCount \<and> calCount \<le> 1000000 \<and>
    ticks s' = ticks s + 1 + calCount + 2 * iterations"
proof -
  from assms obtain calEnd calCount x2 s2 ts where
    cal: "calibrate algorithm (materialize inputMode n) (clock s (ticks s)) (clock s (ticks s)) 0
       (s\<lparr>ticks := Suc (ticks s)\<rparr>) = Inr (calEnd, calCount, x2, s2)" and
    ml: "measure_loop algorithm inputMode n (batch_size calCount (calEnd - clock s (ticks s)))
       iterations s2 = Inr (ts, s')"
    by (rule measure_size_InrE)
  with calibrate_start [OF cal] measure_loop_Inr [OF ml] show ?thesis by auto
qed

lemma measure_size_clock_reads_witness:
  "measure_size (\<lambda>x. (None :: string option, x)) NumberMode 1 3 \<lparr>clock = \<lambda>i. 10 * real i, ticks = 0, calls = []\<rparr> =
     Inr (\<lparr>dp_n = 3, dp_time = 10\<rparr>, \<lparr>clock = \<lambda>i. 10 * real i, ticks = 4, calls = [Num 3, Num 3]\<rparr>) \<and>
   (\<exists>calCount. 1 \<le> calCount \<and> calCount \<le> 1000000 \<and> (4 :: nat) = 0 + 1 + calCount + 2 * 1)"
proof
  show r: "measure_size (\<lambda>x. (None :: string option, x)) NumberMode 1 3 \<lparr>clock = \<lambda>i. 10 * real i, ticks = 0, calls = []\<rparr> =
     Inr (\<lparr>dp_n = 3, dp_time = 10\<rparr>, \<lparr>clock = \<lambda>i. 10 * real i, ticks = 4, calls = [Num 3, Num 3]\<rparr>)"
    by (simp add: measure_size_cases calibrate.simps call_algorithm_Num now_def batch_size_def
        measure_once_def Let_def ss_mean_def)
  show "\<exists>calCount. 1 \<le> calCount \<and> calCount \<le> 1000000 \<and> (4 :: nat) = 0 + 1 + calCount + 2 * 1"
    using measure_size_clock_reads [OF r] by simp
qed
text \<open>
  C20. In array mode, on a clock that never runs backwards, the calibration and every
  timed batch start with a fresh \<open>generateInputArray(n)\<close>: whatever an in-place
  candidate did to the previous batch's array, the log of calls is the
  calibration calls followed by \<open>iterations\<close> non-empty batches, each opened
  by \<open>[0, ..., n-1]\<close>.
\<close>

theorem measure_size_fresh_inputs:
  assumes "measure_size algorithm ArrayMode iterations n s = Inr (dp, s')" "mono (clock s)"
  shows "\<exists>cal bs. calls s' = calls s @ cal @ concat bs \<and> cal \<noteq> [] \<and> hd cal = Arr [0..<n] \<and>
    length bs = iterations \<and> (\<forall>xs\<in>set bs. xs \<noteq> [] \<and> hd xs = Arr [0..<n])"
proof -
  from assms(1) obtain calEnd calCount x2 s2 ts where
    cal: "calibrate algorithm (materialize ArrayMode n) (clock s (ticks s)) (clock s (ticks s)) 0
       (s\<lparr>ticks := Suc (ticks s)\<rparr>) = Inr (calEnd, calCount, x2, s2)" and
    ml: "measure_loop algorithm ArrayMode n (batch_size calCount (calEnd - clock s (ticks s)))
       iterations s2 = Inr (ts, s')"
    by (rule measure_size_InrE)
  have b: "1 \<le> batch_size calCount (calEnd - clock s (ticks s))"
    using calibrate_start_mono [OF cal assms(2)] .
  from calibrate_start [OF cal] obtain cal where
    "calls s2 = calls s @ cal" "length cal = calCount" "hd cal = Arr [0..<n]" "1 \<le> calCount"
    by auto
  moreover from measure_loop_Inr [OF ml] obtain bs where
    "calls s' = calls s2 @ concat bs" "length bs = iterations"
    "\<forall>xs\<in>set bs. length xs = nat (batch_size calCount (calEnd - clock s (ticks s))) \<and>
       (batch_size calCount (calEnd - clock s (ticks s)) \<le> 0 \<or> hd xs = Arr [0..<n])"
    by auto
  ultimately show ?thesis using b by (intro exI [of _ cal] exI [of _ bs]) auto
qed

lemma measure_size_fresh_inputs_witness:
  "measure_size (\<lambda>x. (None :: string option, case x of Arr xs \<Rightarrow> Arr (rev xs) | Num k \<Rightarrow> Num k))
      ArrayMode 1 3 \<lparr>clock = \<lambda>i. 2 * real i, ticks = 0, calls = []\<rparr> =
     Inr (\<lparr>dp_n = 3, dp_time = 1 / 4\<rparr>,
          \<lparr>clock = \<lambda>i. 2 * real i, ticks = 6,
           calls = [Arr [0..<3], Arr (rev [0..<3]), Arr [0..<3]] @
                   [Arr [0..<3], Arr (rev [0..<3]), Arr [0..<3], Arr (rev [0..<3]),
                    Arr [0..<3], Arr (rev [0..<3]), Arr [0..<3], Arr (rev [0..<3])]\<rparr>) \<and>
   (\<exists>cal bs. [Arr [0..<3], Arr (rev [0..<3]), Arr [0..<3]] @
                   [Arr [0..<3], Arr (rev [0..<3]), Arr [0..<3], Arr (rev [0..<3]),
                    Arr [0..<3], Arr (rev [0..<3]), Arr [0..<3], Arr (rev [0..<3])] =
       [] @ cal @ concat bs \<and> cal \<noteq> [] \<and> hd cal = Arr [0..<3] \<and> length bs = 1 \<and>
       list_all (\<lambda>xs. xs \<noteq> [] \<and> hd xs = Arr [0..<3]) bs)"
proof
  show r: "measure_size (\<lambda>x. (None :: string option, case x of Arr xs \<Rightarrow> Arr (rev xs) | Num k \<Rightarrow> Num k))
      ArrayMode 1 3 \<lparr>clock = \<lambda>i. 2 * real i, ticks = 0, calls = []\<rparr> =
     Inr (\<lparr>dp_n = 3, dp_time = 1 / 4\<rparr>,
          \<lparr>clock = \<lambda>i. 2 * real i, ticks = 6,
           calls = [Arr [0..<3], Arr (rev [0..<3]), Arr [0..<3]] @
                   [Arr [0..<3], Arr (rev [0..<3]), Arr [0..<3], Arr (rev [0..<3]),
                    Arr [0..<3], Arr (rev [0..<3]), Arr [0..<3], Arr (rev [0..<3])]\<rparr>)"
    by (simp add: measure_size_cases calibrate.simps call_algorithm_def now_def batch_size_def
        measure_once_def Let_def ss_mean_def js_or_def run_calls_numeral)
  from measure_size_fresh_inputs [OF r] show "\<exists>cal bs. [Arr [0..<3], Arr (rev [0..<3]), Arr [0..<3]] @
                   [Arr [0..<3], Arr (rev [0..<3]), Arr [0..<3], Arr (rev [0..<3]),
                    Arr [0..<3], Arr (rev [0..<3]), Arr [0..<3], Arr (rev [0..<3])] =
       [] @ cal @ concat bs \<and> cal \<noteq> [] \<and> hd cal = Arr [0..<3] \<and> length bs = 1 \<and>
       list_all (\<lambda>xs. xs \<noteq> [] \<and> hd xs = Arr [0..<3]) bs"
    by (simp add: mono_def list_all_iff)
qed
text \<open>
  C21. A frozen clock (every reading equal) drives the calibration to its cap of
  \<open>10^6\<close> calls, and \<open>calDuration || 0.001\<close> then makes every batch
  \<open>15 * 10^6 / 0.001 = 1.5 * 10^10\<close> calls; the sample's time is 0.
\<close>

theorem measure_size_frozen_clock:
  assumes "clock s = (\<lambda>_. c)" "\<And>y. fst (algorithm y) = None" "0 < iterations"
  shows "\<exists>s'. measure_size algorithm inputMode iterations n s = Inr (\<lparr>dp_n = n, dp_time = 0\<rparr>, s') \<and>
    ticks s' = ticks s + 1000001 + 2 * iterations \<and>
    length (calls s') = length (calls s) + 1000000 + iterations * 15000000000"
proof -
  have mono: "mono (clock s)" using assms(1) by (simp add: mono_def)
  from calibrate_no_throw [OF assms(2)] obtain r where
    "calibrate algorithm (materialize inputMode n) c c 0 (s\<lparr>ticks := Suc (ticks s)\<rparr>) = Inr r" ..
  moreover obtain calEnd calCount x2 s2 where "r = (calEnd, calCount, x2, s2)" by (cases r) auto
  ultimately have cal: "calibrate algorithm (materialize inputMode n) c c 0
      (s\<lparr>ticks := Suc (ticks s)\<rparr>) = Inr (calEnd, calCount, x2, s2)" by simp
  note C = calibrate_start [OF cal]
  have e: "calEnd = c" using C assms(1) by auto
  then have cc: "calCount = 1000000" using C by auto
  have b: "batch_size calCount (calEnd - c) = 15000000000" using cc e batch_size_frozen by simp
  have "\<exists>r. measure_loop algorithm inputMode n 15000000000 iterations s2 = Inr r"
    by (rule measure_loop_no_throw) (simp_all add: assms(2))
  then obtain r' where "measure_loop algorithm inputMode n 15000000000 iterations s2 = Inr r'" ..
  moreover obtain ts s3 where "r' = (ts, s3)" by (cases r') auto
  ultimately have ml: "measure_loop algorithm inputMode n 15000000000 iterations s2 = Inr (ts, s3)"
    by simp
  note L = measure_loop_Inr [OF ml]
  have "ts = replicate (length ts) 0"
    using L C assms(1) by (auto intro!: replicate_length_same [symmetric])
  then have mean: "ss_mean ts = Some 0" using L assms(3) by (metis ss_mean_const length_0_conv
    less_not_refl map_replicate_const)
  from L obtain bs where "calls s3 = calls s2 @ concat bs" "length bs = iterations"
    "\<forall>xs\<in>set bs. length xs = 15000000000" by auto
  then have "length (calls s3) = length (calls s2) + iterations * 15000000000"
    using length_concat_const [of bs 15000000000] by (simp del: length_concat)
  with C L cc have "ticks s3 = ticks s + 1000001 + 2 * iterations"
    "length (calls s3) = length (calls s) + 1000000 + iterations * 15000000000" by auto
  with cal ml mean b assms(1) show ?thesis by (simp add: measure_size_cases)
qed

lemma measure_size_frozen_clock_witness:
  "\<exists>s'. measure_size (\<lambda>x. (None :: string option, x)) NumberMode 1 3 \<lparr>clock = \<lambda>_. 0, ticks = 0, calls = []\<rparr> =
     Inr (\<lparr>dp_n = 3, dp_time = 0\<rparr>, s') \<and> ticks s' = 0 + 1000001 + 2 * 1 \<and>
     length (calls s') = 0 + 1000000 + 1 * 15000000000"
  using measure_size_frozen_clock [where s = "\<lparr>clock = \<lambda>_. 0, ticks = 0, calls = []\<rparr>" and c = 0
      and algorithm = "(\<lambda>x. (None :: string option, x))" and iterations = 1 and inputMode = NumberMode and n = 3]
  by simp
text \<open>
  When the calibration took non-negative time the batch size is at least 1, and
  when it took at least 5 ms (the loop's exit condition) it is at most three
  times the calibration count.
\<close>

theorem batch_size_bounds:
  assumes "0 \<le> calDuration"
  shows "1 \<le> batch_size calCount calDuration \<and>
    (5 \<le> calDuration \<longrightarrow> batch_size calCount calDuration \<le> max 1 (3 * int calCount))"
  using batch_size_pos [OF assms] batch_size_le by blast

lemma batch_size_bounds_witness:
  "batch_size 3 6 = 8 \<and> 1 \<le> batch_size 3 6 \<and> batch_size 3 6 \<le> max 1 (3 * int 3)"
  using batch_size_bounds [of 6 3] by (simp add: batch_size_def)

text \<open>
  The warmup runs on the first requested size, not the smallest: a
  successful run's log opens with 100 calls whose first argument is the input
  for \<open>inputSizes[0]\<close>, whatever the order of the sizes.
\<close>

theorem runAnalysis_warmup_first_size:
  assumes "runAnalysis algorithm (n # ns) iterations inputMode s = Inr (dps, s')"
  shows "\<exists>w rest. calls s' = calls s @ w @ rest \<and> length w = 100 \<and> hd w = materialize inputMode n"
proof -
  from assms obtain x1 s1 where w: "run_calls algorithm 100 (materialize inputMode n) s = Inr (x1, s1)"
    and m: "measure_sizes algorithm inputMode iterations (n # ns) s1 = Inr (dps, s')"
    by (auto simp: runAnalysis_Cons split: sum.splits)
  from run_calls_Inr [OF w] obtain w where "s1 = s\<lparr>calls := calls s @ w\<rparr>" "length w = 100"
    "hd w = materialize inputMode n" by auto
  moreover from measure_sizes_Inr [OF m] obtain rest where "calls s' = calls s1 @ rest"
    by (auto simp: prefix_def)
  ultimately show ?thesis by auto
qed

lemma runAnalysis_warmup_first_size_witness:
  "runAnalysis (\<lambda>x. (None :: string option, x)) [5, 3] 1 NumberMode \<lparr>clock = \<lambda>i. 10 * real i, ticks = 0, calls = []\<rparr> =
     Inr ([\<lparr>dp_n = 5, dp_time = 10\<rparr>, \<lparr>dp_n = 3, dp_time = 10\<rparr>],
          \<lparr>clock = \<lambda>i. 10 * real i, ticks = 8,
           calls = replicate 100 (Num 5) @ [Num 5, Num 5, Num 3, Num 3]\<rparr>) \<and>
   (\<exists>w rest. replicate 100 (Num 5) @ [Num 5, Num 5, Num 3, Num 3] = [] @ w @ rest \<and>
      length w = 100 \<and> hd w = Num 5)"
proof
  show r: "runAnalysis (\<lambda>x. (None :: string option, x)) [5, 3] 1 NumberMode \<lparr>clock = \<lambda>i. 10 * real i, ticks = 0, calls = []\<rparr> =
     Inr ([\<lparr>dp_n = 5, dp_time = 10\<rparr>, \<lparr>dp_n = 3, dp_time = 10\<rparr>],
          \<lparr>clock = \<lambda>i. 10 * real i, ticks = 8,
           calls = replicate 100 (Num 5) @ [Num 5, Num 5, Num 3, Num 3]\<rparr>)"
    by (simp add: runAnalysis_Cons run_calls_Num measure_size_cases calibrate.simps
        call_algorithm_Num now_def batch_size_def measure_once_def Let_def ss_mean_def)
  show "\<exists>w rest. replicate 100 (Num 5) @ [Num 5, Num 5, Num 3, Num 3] = [] @ w @ rest \<and>
      length w = 100 \<and> hd w = Num 5"
    using runAnalysis_warmup_first_size [OF r] by simp
qed

end
