(* ===== verification/Facade.thy ===== *)
theory Facade
  imports Classifier Benchmarker
begin

text \<open>
  The facade \<open>runSingleAnalysis\<close> of \<open>src/utils/analysisRunner.js\<close> (staged as
  \<open>src/unnamed/part_000\<close>, lines 61--73): fewer than two sizes return the
  placeholder \<open>{bestFit: 'N/A', confidence: 0, results: []}\<close> without touching
  the candidate or the clock; otherwise the benchmarker's samples go to the
  classifier.  The defaults \<open>iterations = 10\<close> and \<open>inputMode = 'array'\<close>,
  which \<open>src/verifyAlg.js\<close> relies on, are the abbreviation
  \<open>runSingleAnalysis_default\<close>.  An exception of either stage propagates to
  the caller; the model tags it with its stage.
\<close>

datatype 'e analysis_error = BenchmarkFailed "'e bench_error" | ClassificationFailed cerror

definition runSingleAnalysis ::
  "'e algorithm \<Rightarrow> nat list \<Rightarrow> nat \<Rightarrow> input_mode \<Rightarrow> env \<Rightarrow>
   'e analysis_error + complexity_result \<times> env" where
  "runSingleAnalysis algorithm inputSizes iterations inputMode s =
     (if length inputSizes < 2
      then Inr (\<lparr>bestFit = ''N/A'', confidence = 0, results = []\<rparr>, s)
      else case runAnalysis algorithm inputSizes iterations inputMode s of
             Inl err \<Rightarrow> Inl (BenchmarkFailed err)
           | Inr (dataPoints, s') \<Rightarrow>
               (case determineComplexity dataPoints of
                  Inl err \<Rightarrow> Inl (ClassificationFailed err)
                | Inr complexityResult \<Rightarrow> Inr (complexityResult, s')))"

abbreviation runSingleAnalysis_default ::
  "'e algorithm \<Rightarrow> nat list \<Rightarrow> env \<Rightarrow> 'e analysis_error + complexity_result \<times> env" where
  "runSingleAnalysis_default algorithm inputSizes s \<equiv>
     runSingleAnalysis algorithm inputSizes 10 ArrayMode s"

declare runSingleAnalysis_def [model_defs]

section \<open>Lemmas\<close>

lemma runAnalysis_samples:
  assumes "\<And>y. fst (algorithm y) = None" "mono (clock s)" "0 < iterations"
  obtains dps s' where "runAnalysis algorithm inputSizes iterations inputMode s = Inr (dps, s')"
    "map dp_n dps = inputSizes"
proof (cases inputSizes)
  case Nil
  with that show ?thesis by (simp add: runAnalysis_def)
next
  case (Cons n ns)
  from run_calls_no_throw [OF assms(1)] obtain x1 s1
    where w: "run_calls algorithm 100 (materialize inputMode n) s = Inr (x1, s1)" by fastforce
  have "mono (clock s1)" using run_calls_Inr [OF w] assms(2) by auto
  from measure_sizes_no_throw [OF assms(1) this assms(3)] obtain r
    where "measure_sizes algorithm inputMode iterations inputSizes s1 = Inr r" ..
  moreover obtain dps s' where "r = (dps, s')" by (cases r) auto
  ultimately have m: "measure_sizes algorithm inputMode iterations inputSizes s1 = Inr (dps, s')"
    by simp
  with Cons w that measure_sizes_Inr [OF m] show ?thesis by (simp add: runAnalysis_Cons)
qed

section \<open>Properties of runSingleAnalysis\<close>

text \<open>
  C24. End to end: a candidate that never throws, timed on a clock that never
  runs backwards with at least one iteration, on positive sizes of which two
  differ, always gets a classification; no stage fails and no fit is \<open>NaN\<close>.
\<close>

theorem runSingleAnalysis_total:
  assumes "\<And>y. fst (algorithm y) = None" "mono (clock s)" "0 < iterations"
    and "\<forall>n \<in> set inputSizes. 0 < n" "not_all_equal inputSizes"
  shows "\<exists>r s'. runSingleAnalysis algorithm inputSizes iterations inputMode s = Inr (r, s')"
proof -
  obtain dps s' where run: "runAnalysis algorithm inputSizes iterations inputMode s = Inr (dps, s')"
    and sizes: "map dp_n dps = inputSizes"
    using assms(1-3) by (rule runAnalysis_samples)
  have "\<forall>d \<in> set dps. 0 < dp_n d" using assms(4) sizes by auto
  moreover have "length dps = 1 \<or> not_all_equal (map dp_n dps)" using assms(5) sizes by simp
  ultimately have "\<forall>tf \<in> {cov_linear, cov_quadratic, cov_log, cov_nlogn}. getRegressionRMSE tf dps \<noteq> None"
    using regression_defined_positive by blast
  moreover have "dps \<noteq> []" using not_all_equal_length [OF assms(5)] sizes by auto
  ultimately obtain r where "determineComplexity dps = Inr r"
    using determineComplexity_defined_iff by blast
  moreover have "\<not> length inputSizes < 2" using not_all_equal_length [OF assms(5)] by simp
  ultimately show ?thesis using run by (simp add: runSingleAnalysis_def)
qed

lemma runSingleAnalysis_total_witness:
  "\<exists>r s'. runSingleAnalysis (\<lambda>x. (None :: string option, x)) [3, 5] 1 NumberMode
     \<lparr>clock = \<lambda>i. 10 * real i, ticks = 0, calls = []\<rparr> = Inr (r, s')"
  by (rule runSingleAnalysis_total) (auto simp: mono_def not_all_equal_def)

end
