(* ===== verification/TestAlgorithms.thy ===== *)
theory TestAlgorithms
  imports Prelude
begin

text \<open>
  The benchmark algorithms of \<open>src/src/test_algorithms.js\<close>, whose complexity
  is known: \<open>constantTime\<close>, \<open>linearTime\<close>, \<open>logarithmicTime\<close> (binary
  search) and \<open>quadraticTime\<close>.  Arrays of JavaScript numbers are \<open>real\<close>
  lists; an index is an \<open>int\<close>, and reading \<open>arr[i]\<close> is \<open>js_index\<close>, which is
  \<open>undefined\<close> (\<open>None\<close>) out of range, where \<open>===\<close> and \<open><\<close> are false.
  Each loop is a \<open>function\<close> with the measure that makes it terminate;
  \<open>bsearch_steps\<close> counts the iterations of the binary search's loop.
\<close>

definition js_index :: "real list \<Rightarrow> int \<Rightarrow> real option" where
  "js_index arr i = (if 0 \<le> i \<and> i < int (length arr) then Some (arr ! nat i) else None)"

definition js_less :: "real option \<Rightarrow> real \<Rightarrow> bool" where
  "js_less v t = (case v of Some x \<Rightarrow> x < t | None \<Rightarrow> False)"

definition constantTime :: "real list \<Rightarrow> real option" where
  "constantTime arr = js_index arr 0"

function linearTime_loop :: "real list \<Rightarrow> nat \<Rightarrow> real \<Rightarrow> real" where
  "linearTime_loop arr i sum_acc =
     (if i < length arr then linearTime_loop arr (Suc i) (sum_acc + arr ! i) else sum_acc)"
  by pat_completeness auto
termination
  by (relation "measure (\<lambda>(arr, i, _). length arr - i)") auto

definition linearTime :: "real list \<Rightarrow> real" where
  "linearTime arr = linearTime_loop arr 0 0"

function logarithmicTime_loop :: "real list \<Rightarrow> real \<Rightarrow> int \<Rightarrow> int \<Rightarrow> int" where
  "logarithmicTime_loop arr target low high =
     (if low \<le> high then
        (let mid = (low + high) div 2
         in if js_index arr mid = Some target then mid
            else if js_less (js_index arr mid) target
            then logarithmicTime_loop arr target (mid + 1) high
            else logarithmicTime_loop arr target low (mid - 1))
      else -1)"
  by pat_completeness auto
termination
  by (relation "measure (\<lambda>(_, _, low, high). nat (high - low + 1))") auto

definition logarithmicTime :: "real list \<Rightarrow> real \<Rightarrow> int" where
  "logarithmicTime arr target = logarithmicTime_loop arr target 0 (int (length arr) - 1)"

function bsearch_steps :: "real list \<Rightarrow> real \<Rightarrow> int \<Rightarrow> int \<Rightarrow> nat" where
  "bsearch_steps arr target low high =
     (if low \<le> high then
        (let mid = (low + high) div 2
         in if js_index arr mid = Some target then 1
            else if js_less (js_index arr mid) target
            then Suc (bsearch_steps arr target (mid + 1) high)
            else Suc (bsearch_steps arr target low (mid - 1)))
      else 0)"
  by pat_completeness auto
termination
  by (relation "measure (\<lambda>(_, _, low, high). nat (high - low + 1))") auto

function quadraticTime_inner :: "real list \<Rightarrow> nat \<Rightarrow> nat \<Rightarrow> nat" where
  "quadraticTime_inner arr j count_acc =
     (if j < length arr then quadraticTime_inner arr (Suc j) (Suc count_acc) else count_acc)"
  by pat_completeness auto
termination
  by (relation "measure (\<lambda>(arr, j, _). length arr - j)") auto

function quadraticTime_outer :: "real list \<Rightarrow> nat \<Rightarrow> nat \<Rightarrow> nat" where
  "quadraticTime_outer arr i count_acc =
     (if i < length arr then quadraticTime_outer arr (Suc i) (quadraticTime_inner arr 0 count_acc)
      else count_acc)"
  by pat_completeness auto
termination
  by (relation "measure (\<lambda>(arr, i, _). length arr - i)") auto

definition quadraticTime :: "real list \<Rightarrow> nat" where
  "quadraticTime arr = quadraticTime_outer arr 0 0"

declare linearTime_loop.simps [simp del] logarithmicTime_loop.simps [simp del]
  bsearch_steps.simps [simp del] quadraticTime_inner.simps [simp del]
  quadraticTime_outer.simps [simp del]

section \<open>Lemmas\<close>

lemma js_index_in_set: "js_index arr i = Some x \<Longrightarrow> x \<in> set arr"
  by (auto simp: js_index_def nat_less_iff split: if_splits)

lemma linearTime_loop_sum: "linearTime_loop arr i s = s + sum_list (drop i arr)"
proof (induction arr i s rule: linearTime_loop.induct)
  case (1 arr i s)
  show ?case
  proof (cases "i < length arr")
    case True
    then have "drop i arr = arr ! i # drop (Suc i) arr" by (simp add: Cons_nth_drop_Suc)
    with True "1.IH" show ?thesis by (simp add: linearTime_loop.simps)
  qed (simp add: linearTime_loop.simps)
qed

lemma quadraticTime_inner_count: "quadraticTime_inner arr j c = c + (length arr - j)"
proof (induction arr j c rule: quadraticTime_inner.induct)
  case (1 arr j c)
  show ?case
  proof (cases "j < length arr")
    case True
    with "1.IH" show ?thesis by (subst quadraticTime_inner.simps) simp
  next
    case False
    then show ?thesis by (subst quadraticTime_inner.simps) simp
  qed
qed

lemma quadraticTime_outer_count:
  "quadraticTime_outer arr i c = c + (length arr - i) * length arr"
proof (induction arr i c rule: quadraticTime_outer.induct)
  case (1 arr i c)
  show ?case
  proof (cases "i < length arr")
    case True
    then have "length arr - i = Suc (length arr - Suc i)" by simp
    with True "1.IH" show ?thesis
      by (subst quadraticTime_outer.simps) (simp add: quadraticTime_inner_count)
  next
    case False
    then show ?thesis by (subst quadraticTime_outer.simps) simp
  qed
qed

lemma logarithmicTime_loop_found:
  "logarithmicTime_loop arr t low high \<noteq> -1 \<Longrightarrow>
   js_index arr (logarithmicTime_loop arr t low high) = Some t"
proof (induction arr t low high rule: logarithmicTime_loop.induct)
  case (1 arr t low high)
  define mid where "mid = (low + high) div 2"
  show ?case
  proof (cases "low \<le> high")
    case True
    consider (hit) "js_index arr mid = Some t"
      | (lt) "js_index arr mid \<noteq> Some t" "js_less (js_index arr mid) t"
      | (gt) "js_index arr mid \<noteq> Some t" "\<not> js_less (js_index arr mid) t" by blast
    then show ?thesis
    proof cases
      case hit
      have "logarithmicTime_loop arr t low high = mid"
        using True hit by (subst logarithmicTime_loop.simps) (simp add: Let_def mid_def)
      with hit show ?thesis by simp
    next
      case lt
      have e: "logarithmicTime_loop arr t low high = logarithmicTime_loop arr t (mid + 1) high"
        using True lt by (subst logarithmicTime_loop.simps) (simp add: Let_def mid_def)
      from "1.IH"(1) [OF True mid_def lt] "1.prems" show ?thesis unfolding e by simp
    next
      case gt
      have e: "logarithmicTime_loop arr t low high = logarithmicTime_loop arr t low (mid - 1)"
        using True gt by (subst logarithmicTime_loop.simps) (simp add: Let_def mid_def)
      from "1.IH"(2) [OF True mid_def gt] "1.prems" show ?thesis unfolding e by simp
    qed
  next
    case False
    with "1.prems" show ?thesis by (subst (asm) logarithmicTime_loop.simps) simp
  qed
qed


lemma mid_bounds:
  fixes low high :: int
  shows "low + high - 1 \<le> 2 * ((low + high) div 2) \<and> 2 * ((low + high) div 2) \<le> low + high"
  by presburger

lemma logarithmicTime_loop_not_found:
  assumes "sorted arr" "0 \<le> low" "high < int (length arr)"
    and "\<forall>i. 0 \<le> i \<and> i < low \<longrightarrow> arr ! nat i < t"
    and "\<forall>i. high < i \<and> i < int (length arr) \<longrightarrow> t < arr ! nat i"
    and "logarithmicTime_loop arr t low high = -1"
  shows "t \<notin> set arr"
  using assms
proof (induction arr t low high rule: logarithmicTime_loop.induct)
  case (1 arr t low high)
  define mid where "mid = (low + high) div 2"
  show ?case
  proof (cases "low \<le> high")
    case True
    have m: "low \<le> mid" "mid \<le> high" using mid_bounds [of low high] True by (simp_all add: mid_def)
    then have idx: "js_index arr mid = Some (arr ! nat mid)" using "1.prems"(2,3) by (simp add: js_index_def)
    have mono: "\<And>i j. 0 \<le> i \<Longrightarrow> i \<le> j \<Longrightarrow> j < int (length arr) \<Longrightarrow> arr ! nat i \<le> arr ! nat j"
      using "1.prems"(1) by (simp add: sorted_nth_mono)
    consider (hit) "arr ! nat mid = t" | (lt) "arr ! nat mid \<noteq> t" "arr ! nat mid < t"
      | (gt) "arr ! nat mid \<noteq> t" "\<not> arr ! nat mid < t" by blast
    then show ?thesis
    proof cases
      case hit
      with True idx "1.prems"(6) m "1.prems"(2) show ?thesis
        by (subst (asm) logarithmicTime_loop.simps) (simp add: Let_def mid_def [symmetric])
    next
      case lt
      have lt': "js_index arr mid \<noteq> Some t" "js_less (js_index arr mid) t"
        using lt idx by (simp_all add: js_less_def)
      have r: "logarithmicTime_loop arr t (mid + 1) high = -1"
        using "1.prems"(6) True lt' by (subst (asm) logarithmicTime_loop.simps) (simp add: Let_def mid_def)
      have "\<forall>i. 0 \<le> i \<and> i < mid + 1 \<longrightarrow> arr ! nat i < t"
        using mono [of _ mid] lt m "1.prems"(2,3) by (auto intro: le_less_trans)
      from "1.IH"(1) [OF True mid_def lt' "1.prems"(1) _ "1.prems"(3) this "1.prems"(5) r] m "1.prems"(2)
      show ?thesis by simp
    next
      case gt
      have gt': "js_index arr mid \<noteq> Some t" "\<not> js_less (js_index arr mid) t"
        using gt idx by (simp_all add: js_less_def)
      have r: "logarithmicTime_loop arr t low (mid - 1) = -1"
        using "1.prems"(6) True gt' by (subst (asm) logarithmicTime_loop.simps) (simp add: Let_def mid_def)
      have tm: "t < arr ! nat mid" using gt by simp
      have "\<forall>i. mid - 1 < i \<and> i < int (length arr) \<longrightarrow> t < arr ! nat i"
      proof (intro allI impI)
        fix i assume i: "mid - 1 < i \<and> i < int (length arr)"
        then have "arr ! nat mid \<le> arr ! nat i" using mono [of mid i] m "1.prems"(2) by simp
        with tm show "t < arr ! nat i" by simp
      qed
      from "1.IH"(2) [OF True mid_def gt' "1.prems"(1,2) _ "1.prems"(4) this r] m "1.prems"(3)
      show ?thesis by simp
    qed
  next
    case False
    show ?thesis
    proof
      assume "t \<in> set arr"
      then obtain k where k: "k < length arr" "arr ! k = t" by (auto simp: in_set_conv_nth)
      show False
      proof (cases "int k < low")
        case True
        with "1.prems"(4) k show False by (metis less_irrefl nat_int of_nat_0_le_iff)
      next
        case c: False
        with False have "high < int k" by simp
        with "1.prems"(5) k show False by (metis less_irrefl nat_int of_nat_less_iff)
      qed
    qed
  qed
qed


lemma bsearch_steps_bound:
  "2 ^ bsearch_steps arr t low high \<le> max 1 (2 * (high - low + 1))"
proof (induction arr t low high rule: bsearch_steps.induct)
  case (1 arr t low high)
  define mid where "mid = (low + high) div 2"
  show ?case
  proof (cases "low \<le> high")
    case True
    have m: "low + high - 1 \<le> 2 * mid" "2 * mid \<le> low + high"
      using mid_bounds [of low high] by (simp_all add: mid_def)
    consider (hit) "js_index arr mid = Some t"
      | (lt) "js_index arr mid \<noteq> Some t" "js_less (js_index arr mid) t"
      | (gt) "js_index arr mid \<noteq> Some t" "\<not> js_less (js_index arr mid) t" by blast
    then show ?thesis
    proof cases
      case hit
      then have "bsearch_steps arr t low high = 1"
        using True by (subst bsearch_steps.simps) (simp add: Let_def mid_def)
      with True show ?thesis by simp
    next
      case lt
      then have e: "bsearch_steps arr t low high = Suc (bsearch_steps arr t (mid + 1) high)"
        using True by (subst bsearch_steps.simps) (simp add: Let_def mid_def)
      have "(2::int) ^ bsearch_steps arr t (mid + 1) high \<le> max 1 (2 * (high - (mid + 1) + 1))"
        using "1.IH"(1) [OF True mid_def lt] .
      with True m show ?thesis unfolding e by simp
    next
      case gt
      then have e: "bsearch_steps arr t low high = Suc (bsearch_steps arr t low (mid - 1))"
        using True by (subst bsearch_steps.simps) (simp add: Let_def mid_def)
      have "(2::int) ^ bsearch_steps arr t low (mid - 1) \<le> max 1 (2 * (mid - 1 - low + 1))"
        using "1.IH"(2) [OF True mid_def gt] .
      with True m show ?thesis unfolding e by simp
    qed
  next
    case False
    then show ?thesis by (subst bsearch_steps.simps) simp
  qed
qed

section \<open>Properties of the benchmark algorithms\<close>

text \<open>
  C26. \<open>linearTime\<close> computes the sum of the array: its index loop is the
  reference \<open>sum_list\<close>.
\<close>

theorem linearTime_sum: "linearTime arr = sum_list arr"
  by (simp add: linearTime_def linearTime_loop_sum)

text \<open>
  C33. \<open>quadraticTime\<close> counts \<open>n * n\<close> inner iterations on an array of length
  \<open>n\<close>.
\<close>

theorem quadraticTime_count: "quadraticTime arr = length arr ^ 2"
  by (simp add: quadraticTime_def quadraticTime_outer_count power2_eq_square)

text \<open>
  C28. On a sorted array the binary search \<open>logarithmicTime\<close> returns \<open>-1\<close>
  exactly when the target is absent, and otherwise an index in range holding
  the target.
\<close>

theorem logarithmicTime_correct:
  assumes "sorted arr"
  shows "(logarithmicTime arr t = -1 \<longleftrightarrow> t \<notin> set arr) \<and>
    (logarithmicTime arr t \<noteq> -1 \<longrightarrow> js_index arr (logarithmicTime arr t) = Some t)"
proof -
  have found: "logarithmicTime arr t \<noteq> -1 \<longrightarrow> js_index arr (logarithmicTime arr t) = Some t"
    unfolding logarithmicTime_def using logarithmicTime_loop_found by blast
  have "logarithmicTime arr t = -1 \<Longrightarrow> t \<notin> set arr"
    unfolding logarithmicTime_def by (rule logarithmicTime_loop_not_found [OF assms]) auto
  moreover have "t \<notin> set arr \<Longrightarrow> logarithmicTime arr t = -1"
    using found js_index_in_set by blast
  ultimately show ?thesis using found by blast
qed

lemma logarithmicTime_correct_witness:
  "logarithmicTime [0, 1, 2, 3, 4] 3 = 3 \<and> js_index [0, 1, 2, 3, 4] 3 = Some 3"
proof -
  have "sorted [0, 1, 2, 3, 4 :: real]" by simp
  from logarithmicTime_correct [OF this, of 3] show ?thesis
    by (simp add: logarithmicTime_def logarithmicTime_loop.simps js_index_def js_less_def)
qed

text \<open>
  C23. The binary search makes at most \<open>log2 n + 1\<close> iterations on an array of
  length \<open>n\<close>: \<open>2 ^ steps \<le> max 1 (2 n)\<close>.
\<close>

theorem logarithmicTime_steps:
  "2 ^ bsearch_steps arr t 0 (int (length arr) - 1) \<le> max 1 (2 * int (length arr))"
  using bsearch_steps_bound [of arr t 0 "int (length arr) - 1"] by simp

end
