(* ===== verification/Legacy.thy ===== *)
theory Legacy
  imports Benchmarker Classifier
begin

text \<open>
  The older revision of \<open>src/calculator.js\<close> (staged as
  \<open>src/unnamed/part_001\<close>, lines 1--141), which the CLI of \<open>part_001\<close>
  loads.  Its \<open>runAnalysis\<close> (lines 21--53) has no calibration: a warmup of 5
  calls on the first size's array, then per size \<open>iterations\<close> timed single
  calls, each on a fresh array.  Its \<open>determineComplexity\<close> (lines 60--135)
  ranks four models (no constant model) by \<open>R^2\<close> from
  \<open>simple-statistics\<close>' \<open>rSquared\<close>, descending, then applies two fixed
  Occam checks with tolerance 0.01: towards \<open>O(n)\<close>, then towards
  \<open>O(log n)\<close>.  The state, the candidate and the errors are the
  benchmarker's (\<open>Benchmarker\<close>); the names carry the suffix \<open>_legacy\<close>.
  \<open>rSquared\<close> is modelled from the package: \<open>1\<close> below two points, else
  \<open>1 - err / sumOfSquares\<close>, non-finite (\<open>None\<close>) when all times agree.
\<close>

section \<open>Benchmarker without batching\<close>

definition measure_once_legacy ::
  "'e algorithm \<Rightarrow> nat \<Rightarrow> env \<Rightarrow> 'e bench_error + real \<times> env" where
  "measure_once_legacy algorithm n s =
     (let array = generateInputArray n;
          (start, s1) = now s
      in case call_algorithm algorithm (Arr array) s1 of
           Inl err \<Rightarrow> Inl err
         | Inr (_, s2) \<Rightarrow> (let (end_time, s3) = now s2 in Inr (end_time - start, s3)))"

fun measure_loop_legacy ::
  "'e algorithm \<Rightarrow> nat \<Rightarrow> nat \<Rightarrow> env \<Rightarrow> 'e bench_error + real list \<times> env" where
  "measure_loop_legacy algorithm n 0 s = Inr ([], s)"
| "measure_loop_legacy algorithm n (Suc k) s =
     (case measure_once_legacy algorithm n s of
        Inl err \<Rightarrow> Inl err
      | Inr (t, s') \<Rightarrow>
          (case measure_loop_legacy algorithm n k s' of
             Inl err \<Rightarrow> Inl err
           | Inr (ts, s'') \<Rightarrow> Inr (t # ts, s'')))"

fun measure_sizes_legacy ::
  "'e algorithm \<Rightarrow> nat \<Rightarrow> nat list \<Rightarrow> env \<Rightarrow> 'e bench_error + data_point list \<times> env" where
  "measure_sizes_legacy algorithm iterations [] s = Inr ([], s)"
| "measure_sizes_legacy algorithm iterations (n # ns) s =
     (case measure_loop_legacy algorithm n iterations s of
        Inl err \<Rightarrow> Inl err
      | Inr (time_list, s1) \<Rightarrow>
          (case ss_mean time_list of
             None \<Rightarrow> Inl MeanOfNoTimes
           | Some avgTime \<Rightarrow>
               (case measure_sizes_legacy algorithm iterations ns s1 of
                  Inl err \<Rightarrow> Inl err
                | Inr (dps, s2) \<Rightarrow> Inr (\<lparr>dp_n = n, dp_time = avgTime\<rparr> # dps, s2))))"

definition runAnalysis_legacy ::
  "'e algorithm \<Rightarrow> nat list \<Rightarrow> nat \<Rightarrow> env \<Rightarrow> 'e bench_error + data_point list \<times> env" where
  "runAnalysis_legacy algorithm inputSizes iterations s =
     (case inputSizes of
        [] \<Rightarrow> Inr ([], s)
      | warmupSize # _ \<Rightarrow>
          (case run_calls algorithm 5 (Arr (generateInputArray warmupSize)) s of
             Inl err \<Rightarrow> Inl err
           | Inr (_, s') \<Rightarrow> measure_sizes_legacy algorithm iterations inputSizes s'))"

section \<open>Classification by R-squared\<close>

definition rSquared :: "(real \<times> real) list \<Rightarrow> (real \<Rightarrow> real) \<Rightarrow> real option" where
  "rSquared x func =
     (if length x < 2 then Some 1
      else (let average = sum_list (map snd x) / real (length x);
                sumOfSquares = sum_list (map (\<lambda>(_, y). (average - y)\<^sup>2) x);
                err = sum_list (map (\<lambda>(u, y). (y - func u)\<^sup>2) x)
            in if sumOfSquares = 0 then None else Some (1 - err / sumOfSquares)))"

text \<open>
  One of the four repeated blocks of lines 72--95: the transformed data, its
  regression line and the line's \<open>R^2\<close>.  Below two points \<open>rSquared\<close>
  returns 1 without evaluating the line, so a \<open>NaN\<close> model or an infinite
  covariate matters only from two points on.
\<close>

definition getR2 :: "(nat \<Rightarrow> real option) \<Rightarrow> data_point list \<Rightarrow> real option" where
  "getR2 transformFn dataPoints =
     (if length dataPoints < 2 then Some 1
      else case those (map (transformFn \<circ> dp_n) dataPoints) of
             None \<Rightarrow> None
           | Some xs \<Rightarrow>
               (let data = zip xs (map dp_time dataPoints)
                in case linearRegression data of
                     None \<Rightarrow> None
                   | Some model \<Rightarrow> rSquared data (linearRegressionLine model)))"

record lmodel =
  ltype :: label
  r2 :: real

record legacy_result =
  lbestFit :: label
  lresults :: "lmodel list"

definition legacy_labels :: "label list" where
  "legacy_labels = [''O(n) - Linear'', ''O(n^2) - Quadratic'', ''O(log n) - Logarithmic'',
                    ''O(n log n) - Linear-ithmic'']"

text \<open>Lines 112--129: the two Occam checks, the second against the first's choice.\<close>

definition occam_legacy :: "lmodel list \<Rightarrow> lmodel" where
  "occam_legacy models =
     (let bestModel = hd models;
          tolerance = 1 / 100;
          bestModel =
            (case find (\<lambda>m. ltype m = ''O(n) - Linear'') models of
               Some simpleLinear \<Rightarrow>
                 if ltype bestModel \<noteq> ''O(n) - Linear'' \<and> r2 bestModel - r2 simpleLinear < tolerance
                 then simpleLinear else bestModel
             | None \<Rightarrow> bestModel)
      in case find (\<lambda>m. ltype m = ''O(log n) - Logarithmic'') models of
           Some simpleLog \<Rightarrow>
             if ltype bestModel \<noteq> ''O(log n) - Logarithmic'' \<and> r2 bestModel - r2 simpleLog < tolerance
             then simpleLog else bestModel
         | None \<Rightarrow> bestModel)"

definition determineComplexity_legacy :: "data_point list \<Rightarrow> cerror + legacy_result" where
  "determineComplexity_legacy dataPoints =
     (case (getR2 cov_linear dataPoints, getR2 cov_quadratic dataPoints,
            getR2 cov_log dataPoints, getR2 cov_nlogn dataPoints) of
        (Some linearR2, Some quadraticR2, Some logR2, Some nLogNR2) \<Rightarrow>
          (let models = sort_key (\<lambda>m. - r2 m)
                 [\<lparr>ltype = ''O(n) - Linear'', r2 = linearR2\<rparr>,
                  \<lparr>ltype = ''O(n^2) - Quadratic'', r2 = quadraticR2\<rparr>,
                  \<lparr>ltype = ''O(log n) - Logarithmic'', r2 = logR2\<rparr>,
                  \<lparr>ltype = ''O(n log n) - Linear-ithmic'', r2 = nLogNR2\<rparr>]
           in Inr \<lparr>lbestFit = ltype (occam_legacy models), lresults = models\<rparr>)
      | _ \<Rightarrow> Inl NonFiniteFit)"

declare measure_once_legacy_def [model_defs] runAnalysis_legacy_def [model_defs]
  rSquared_def [model_defs] getR2_def [model_defs] legacy_labels_def [model_defs]
  occam_legacy_def [model_defs] determineComplexity_legacy_def [model_defs]


section \<open>Lemmas: the benchmarker without batching\<close>

lemma measure_once_legacy_Inr:
  "measure_once_legacy algorithm n s = Inr (t, s') \<Longrightarrow>
   s' = s\<lparr>ticks := Suc (Suc (ticks s)), calls := calls s @ [Arr [0..<n]]\<rparr> \<and>
   t = clock s (Suc (ticks s)) - clock s (ticks s)"
  by (auto simp: measure_once_legacy_def now_def generateInputArray_def split: sum.splits
      dest!: call_algorithm_Inr)

lemma measure_loop_legacy_Inr:
  "measure_loop_legacy algorithm n k s = Inr (ts, s') \<Longrightarrow>
   length ts = k \<and> s' = s\<lparr>ticks := ticks s + 2 * k, calls := calls s @ replicate k (Arr [0..<n])\<rparr>"
proof (induction k arbitrary: ts s)
  case (Suc k)
  then obtain t s1 ts' where m: "measure_once_legacy algorithm n s = Inr (t, s1)"
    and l: "measure_loop_legacy algorithm n k s1 = Inr (ts', s')" and ts: "ts = t # ts'"
    by (auto split: sum.splits)
  from measure_once_legacy_Inr [OF m] Suc.IH [OF l] ts show ?case
    by (simp add: replicate_append_same)
qed simp

lemma measure_sizes_legacy_Inr:
  "measure_sizes_legacy algorithm iterations ns s = Inr (dps, s') \<Longrightarrow>
   map dp_n dps = ns \<and>
   s' = s\<lparr>ticks := ticks s + 2 * iterations * length ns,
          calls := calls s @ concat (map (\<lambda>n. replicate iterations (Arr [0..<n])) ns)\<rparr>"
proof (induction ns arbitrary: dps s)
  case (Cons n ns)
  then obtain ts s1 avg dps' where l: "measure_loop_legacy algorithm n iterations s = Inr (ts, s1)"
    and r: "measure_sizes_legacy algorithm iterations ns s1 = Inr (dps', s')"
    and d: "dps = \<lparr>dp_n = n, dp_time = avg\<rparr> # dps'"
    by (auto split: sum.splits option.splits)
  from measure_loop_legacy_Inr [OF l] Cons.IH [OF r] d show ?case by simp
qed simp

lemma runAnalysis_legacy_InrE:
  assumes "runAnalysis_legacy algorithm (n # ns) iterations s = Inr (dps, s')"
  obtains w where "length w = 5" "hd w = Arr [0..<n]"
    "measure_sizes_legacy algorithm iterations (n # ns) (s\<lparr>calls := calls s @ w\<rparr>) = Inr (dps, s')"
proof -
  from assms obtain x1 s1 where w: "run_calls algorithm 5 (Arr (generateInputArray n)) s = Inr (x1, s1)"
    and m: "measure_sizes_legacy algorithm iterations (n # ns) s1 = Inr (dps, s')"
    by (auto simp: runAnalysis_legacy_def split: sum.splits)
  from run_calls_Inr [OF w] m that show ?thesis by (auto simp: generateInputArray_def)
qed

section \<open>Lemmas: R-squared and the Occam checks\<close>

lemma getR2_exact:
  assumes xs: "those (map (transformFn \<circ> dp_n) dps) = Some xs"
    and nae: "not_all_equal xs" and a: "a \<noteq> 0"
    and times: "map dp_time dps = map (\<lambda>x. a * x + b) xs"
  shows "getR2 transformFn dps = Some 1"
proof -
  have len: "length dps = length xs" using those_Some_length [OF xs] by simp
  have two: "2 \<le> length xs" using not_all_equal_length [OF nae] .
  have data: "zip xs (map dp_time dps) = map (\<lambda>x. (x, a * x + b)) xs"
    unfolding times zip_map_line ..
  have lr: "linearRegression (zip xs (map dp_time dps)) = Some (a, b)"
    unfolding data by (rule linearRegression_exact [OF nae])
  define avg where "avg = sum_list (map (\<lambda>x. a * x + b) xs) / real (length xs)"
  have "sum_list (map (\<lambda>x. (avg - (a * x + b))\<^sup>2) xs) \<noteq> 0"
  proof
    assume "sum_list (map (\<lambda>x. (avg - (a * x + b))\<^sup>2) xs) = 0"
    then have "\<forall>x \<in> set xs. a * x + b = avg" by (simp add: sum_list_squares_eq_0_iff)
    then have "\<forall>x \<in> set xs. \<forall>y \<in> set xs. x = y"
      using a by (metis add_right_cancel mult_left_cancel)
    with nae show False by (auto simp: not_all_equal_def)
  qed
  then show ?thesis
    using xs lr len two
    by (simp add: getR2_def rSquared_def data linearRegressionLine_def avg_def split_def comp_def
        add.commute)
qed


lemma find_Some_mem: "find P xs = Some x \<Longrightarrow> x \<in> set xs"
  by (induction xs) (auto split: if_splits)

lemma find_Some_P: "find P xs = Some x \<Longrightarrow> P x"
  by (induction xs) (auto split: if_splits)

lemma sorted_desc_hd:
  "sorted (map (\<lambda>m. - r2 m) ms) \<Longrightarrow> m \<in> set ms \<Longrightarrow> r2 m \<le> r2 (hd ms)"
  by (cases ms) auto

lemma occam_legacy_in: "models \<noteq> [] \<Longrightarrow> occam_legacy models \<in> set models"
  by (auto simp: occam_legacy_def Let_def split: option.splits dest: find_Some_mem)

lemma occam_legacy_drift: "r2 (hd models) - 2 / 100 < r2 (occam_legacy models)"
  by (auto simp: occam_legacy_def Let_def split: option.splits)

lemma determineComplexity_legacy_Inr:
  assumes "determineComplexity_legacy dps = Inr r"
  obtains li q l nl where
    "getR2 cov_linear dps = Some li" "getR2 cov_quadratic dps = Some q"
    "getR2 cov_log dps = Some l" "getR2 cov_nlogn dps = Some nl"
    "lresults r = sort_key (\<lambda>m. - r2 m)
       [\<lparr>ltype = ''O(n) - Linear'', r2 = li\<rparr>, \<lparr>ltype = ''O(n^2) - Quadratic'', r2 = q\<rparr>,
        \<lparr>ltype = ''O(log n) - Logarithmic'', r2 = l\<rparr>, \<lparr>ltype = ''O(n log n) - Linear-ithmic'', r2 = nl\<rparr>]"
    "lbestFit r = ltype (occam_legacy (lresults r))"
proof -
  obtain li where li: "getR2 cov_linear dps = Some li"
    using assms by (cases "getR2 cov_linear dps") (simp_all add: determineComplexity_legacy_def)
  obtain q where q: "getR2 cov_quadratic dps = Some q"
    using assms li by (cases "getR2 cov_quadratic dps") (simp_all add: determineComplexity_legacy_def)
  obtain l where l: "getR2 cov_log dps = Some l"
    using assms li q by (cases "getR2 cov_log dps") (simp_all add: determineComplexity_legacy_def)
  obtain nl where nl: "getR2 cov_nlogn dps = Some nl"
    using assms li q l by (cases "getR2 cov_nlogn dps") (simp_all add: determineComplexity_legacy_def)
  let ?M = "sort_key (\<lambda>m. - r2 m)
       [\<lparr>ltype = ''O(n) - Linear'', r2 = li\<rparr>, \<lparr>ltype = ''O(n^2) - Quadratic'', r2 = q\<rparr>,
        \<lparr>ltype = ''O(log n) - Logarithmic'', r2 = l\<rparr>, \<lparr>ltype = ''O(n log n) - Linear-ithmic'', r2 = nl\<rparr>]"
  have "determineComplexity_legacy dps = Inr \<lparr>lbestFit = ltype (occam_legacy ?M), lresults = ?M\<rparr>"
    by (simp only: determineComplexity_legacy_def li q l nl Let_def prod.case option.case)
  with assms have "r = \<lparr>lbestFit = ltype (occam_legacy ?M), lresults = ?M\<rparr>" by simp
  with that li q l nl show ?thesis by simp
qed

lemma legacy_models_nonempty: "sort_key f [a, b, c, d] \<noteq> []"
proof -
  have "length (sort_key f [a, b, c, d]) = 4" by (simp only: length_sort) simp
  then show ?thesis by auto
qed

lemma determineComplexity_legacy_labels:
  assumes "determineComplexity_legacy dps = Inr r"
  shows "lbestFit r \<in> set legacy_labels \<and> lbestFit r \<noteq> ''O(1) - Constant''"
proof -
  obtain li q l nl where "getR2 cov_linear dps = Some li" "getR2 cov_quadratic dps = Some q"
      "getR2 cov_log dps = Some l" "getR2 cov_nlogn dps = Some nl"
    and res: "lresults r = sort_key (\<lambda>m. - r2 m)
       [\<lparr>ltype = ''O(n) - Linear'', r2 = li\<rparr>, \<lparr>ltype = ''O(n^2) - Quadratic'', r2 = q\<rparr>,
        \<lparr>ltype = ''O(log n) - Logarithmic'', r2 = l\<rparr>, \<lparr>ltype = ''O(n log n) - Linear-ithmic'', r2 = nl\<rparr>]"
    and best: "lbestFit r = ltype (occam_legacy (lresults r))"
    using assms by (rule determineComplexity_legacy_Inr)
  have "occam_legacy (lresults r) \<in> set (lresults r)"
    unfolding res by (rule occam_legacy_in [OF legacy_models_nonempty])
  then have "occam_legacy (lresults r) \<in> set
       [\<lparr>ltype = ''O(n) - Linear'', r2 = li\<rparr>, \<lparr>ltype = ''O(n^2) - Quadratic'', r2 = q\<rparr>,
        \<lparr>ltype = ''O(log n) - Logarithmic'', r2 = l\<rparr>, \<lparr>ltype = ''O(n log n) - Linear-ithmic'', r2 = nl\<rparr>]"
    unfolding res by (simp only: set_sort)
  then show ?thesis unfolding best by (auto simp: legacy_labels_def)
qed

section \<open>Properties of the older calculator\<close>

lemma determineComplexity_legacy_single:
  "determineComplexity_legacy [\<lparr>dp_n = 3, dp_time = 5\<rparr>] =
   Inr \<lparr>lbestFit = ''O(log n) - Logarithmic'',
        lresults = [\<lparr>ltype = ''O(n) - Linear'', r2 = 1\<rparr>, \<lparr>ltype = ''O(n^2) - Quadratic'', r2 = 1\<rparr>,
                    \<lparr>ltype = ''O(log n) - Logarithmic'', r2 = 1\<rparr>,
                    \<lparr>ltype = ''O(n log n) - Linear-ithmic'', r2 = 1\<rparr>]\<rparr>"
  by (simp add: determineComplexity_legacy_def getR2_def occam_legacy_def Let_def)

text \<open>
  C30. The older classifier's results are its four models sorted by
  non-increasing \<open>R^2\<close>, each label paired with the \<open>R^2\<close> of its own
  regression (\<open>Time\<close> against \<open>N\<close>, \<open>N^2\<close>, \<open>log N\<close> and \<open>N log N\<close>).
\<close>

theorem determineComplexity_legacy_results:
  assumes "determineComplexity_legacy dps = Inr r"
  shows "sorted (map (\<lambda>m. - r2 m) (lresults r)) \<and>
    (\<exists>li q l nl. getR2 cov_linear dps = Some li \<and> getR2 cov_quadratic dps = Some q \<and>
       getR2 cov_log dps = Some l \<and> getR2 cov_nlogn dps = Some nl \<and>
       mset (map (\<lambda>m. (ltype m, r2 m)) (lresults r)) =
       mset [(''O(n) - Linear'', li), (''O(n^2) - Quadratic'', q), (''O(log n) - Logarithmic'', l),
             (''O(n log n) - Linear-ithmic'', nl)])"
proof -
  obtain li q l nl where fits: "getR2 cov_linear dps = Some li" "getR2 cov_quadratic dps = Some q"
      "getR2 cov_log dps = Some l" "getR2 cov_nlogn dps = Some nl"
    and res: "lresults r = sort_key (\<lambda>m. - r2 m)
       [\<lparr>ltype = ''O(n) - Linear'', r2 = li\<rparr>, \<lparr>ltype = ''O(n^2) - Quadratic'', r2 = q\<rparr>,
        \<lparr>ltype = ''O(log n) - Logarithmic'', r2 = l\<rparr>, \<lparr>ltype = ''O(n log n) - Linear-ithmic'', r2 = nl\<rparr>]"
    using assms by (rule determineComplexity_legacy_Inr)
  have "sorted (map (\<lambda>m. - r2 m) (lresults r))" unfolding res by (rule sorted_sort_key)
  moreover have "mset (map (\<lambda>m. (ltype m, r2 m)) (lresults r)) =
       mset [(''O(n) - Linear'', li), (''O(n^2) - Quadratic'', q), (''O(log n) - Logarithmic'', l),
             (''O(n log n) - Linear-ithmic'', nl)]"
    unfolding res by (simp only: mset_map_sort_key) simp
  ultimately show ?thesis using fits by blast
qed

lemma determineComplexity_legacy_results_witness:
  "determineComplexity_legacy [\<lparr>dp_n = 3, dp_time = 5\<rparr>] =
   Inr \<lparr>lbestFit = ''O(log n) - Logarithmic'',
        lresults = [\<lparr>ltype = ''O(n) - Linear'', r2 = 1\<rparr>, \<lparr>ltype = ''O(n^2) - Quadratic'', r2 = 1\<rparr>,
                    \<lparr>ltype = ''O(log n) - Logarithmic'', r2 = 1\<rparr>,
                    \<lparr>ltype = ''O(n log n) - Linear-ithmic'', r2 = 1\<rparr>]\<rparr> \<and>
   (\<exists>l. getR2 cov_log [\<lparr>dp_n = 3, dp_time = 5\<rparr>] = Some l \<and>
        (''O(log n) - Logarithmic'', l) \<in> set [(''O(n) - Linear'', 1), (''O(n^2) - Quadratic'', 1),
           (''O(log n) - Logarithmic'', 1), (''O(n log n) - Linear-ithmic'', 1 :: real)])"
proof -
  have h: "determineComplexity_legacy [\<lparr>dp_n = 3, dp_time = 5\<rparr>] =
   Inr \<lparr>lbestFit = ''O(log n) - Logarithmic'',
        lresults = [\<lparr>ltype = ''O(n) - Linear'', r2 = 1\<rparr>, \<lparr>ltype = ''O(n^2) - Quadratic'', r2 = 1\<rparr>,
                    \<lparr>ltype = ''O(log n) - Logarithmic'', r2 = 1\<rparr>,
                    \<lparr>ltype = ''O(n log n) - Linear-ithmic'', r2 = 1\<rparr>]\<rparr>"
    by (rule determineComplexity_legacy_single)
  from determineComplexity_legacy_results [OF h] obtain li q l nl where
      l: "getR2 cov_log [\<lparr>dp_n = 3, dp_time = 5\<rparr>] = Some l"
    and m: "mset [(''O(n) - Linear'', 1), (''O(n^2) - Quadratic'', 1),
           (''O(log n) - Logarithmic'', 1), (''O(n log n) - Linear-ithmic'', 1 :: real)] =
       mset [(''O(n) - Linear'', li), (''O(n^2) - Quadratic'', q), (''O(log n) - Logarithmic'', l),
             (''O(n log n) - Linear-ithmic'', nl)]"
    by auto
  have "(''O(log n) - Logarithmic'', l) \<in># mset [(''O(n) - Linear'', 1), (''O(n^2) - Quadratic'', 1),
           (''O(log n) - Logarithmic'', 1), (''O(n log n) - Linear-ithmic'', 1 :: real)]"
    unfolding m by simp
  then have "(''O(log n) - Logarithmic'', l) \<in> set [(''O(n) - Linear'', 1), (''O(n^2) - Quadratic'', 1),
           (''O(log n) - Logarithmic'', 1), (''O(n log n) - Linear-ithmic'', 1 :: real)]"
    by (simp only: in_multiset_in_set)
  with h l show ?thesis by blast
qed

text \<open>
  C32. The two chained Occam checks (lines 112--129) on models sorted by
  descending \<open>R^2\<close>: the reported model is one of them, it is the best one
  unless it is the linear or the logarithmic model, and its \<open>R^2\<close> is at most
  the best's and less than \<open>0.02\<close> below it.  The bound is \<open>0.02\<close>, not the
  comment's \<open>0.01\<close>: each check moves only to a model less than \<open>0.01\<close> below
  the current choice, and the second compares with the first's choice; the
  witness is a drift of \<open>0.014\<close>.
\<close>

theorem occam_legacy_bound:
  assumes "sorted (map (\<lambda>m. - r2 m) models)" "models \<noteq> []"
  shows "occam_legacy models \<in> set models \<and>
    (occam_legacy models = hd models \<or>
     ltype (occam_legacy models) \<in> {''O(n) - Linear'', ''O(log n) - Logarithmic''}) \<and>
    r2 (hd models) - 2 / 100 < r2 (occam_legacy models) \<and> r2 (occam_legacy models) \<le> r2 (hd models)"
proof -
  have m: "occam_legacy models \<in> set models" using assms(2) by (rule occam_legacy_in)
  have "occam_legacy models = hd models \<or>
     ltype (occam_legacy models) \<in> {''O(n) - Linear'', ''O(log n) - Logarithmic''}"
    by (auto simp: occam_legacy_def Let_def split: option.splits dest!: find_Some_P)
  with m occam_legacy_drift sorted_desc_hd [OF assms(1) m] show ?thesis by blast
qed

lemma occam_legacy_bound_witness:
  "sorted (map (\<lambda>m. - r2 m) [\<lparr>ltype = ''O(n^2) - Quadratic'', r2 = 1\<rparr>, \<lparr>ltype = ''O(n) - Linear'', r2 = 199 / 200\<rparr>,
                 \<lparr>ltype = ''O(n log n) - Linear-ithmic'', r2 = 99 / 100\<rparr>,
                 \<lparr>ltype = ''O(log n) - Logarithmic'', r2 = 493 / 500 :: real\<rparr>]) \<and>
   occam_legacy [\<lparr>ltype = ''O(n^2) - Quadratic'', r2 = 1\<rparr>, \<lparr>ltype = ''O(n) - Linear'', r2 = 199 / 200\<rparr>,
                 \<lparr>ltype = ''O(n log n) - Linear-ithmic'', r2 = 99 / 100\<rparr>,
                 \<lparr>ltype = ''O(log n) - Logarithmic'', r2 = 493 / 500\<rparr>] =
     \<lparr>ltype = ''O(log n) - Logarithmic'', r2 = 493 / 500\<rparr> \<and>
   1 - 2 / 100 < (493 / 500 :: real) \<and> 1 / 100 < 1 - (493 / 500 :: real)"
proof -
  have s: "sorted (map (\<lambda>m. - r2 m) [\<lparr>ltype = ''O(n^2) - Quadratic'', r2 = 1\<rparr>, \<lparr>ltype = ''O(n) - Linear'', r2 = 199 / 200\<rparr>,
                 \<lparr>ltype = ''O(n log n) - Linear-ithmic'', r2 = 99 / 100\<rparr>,
                 \<lparr>ltype = ''O(log n) - Logarithmic'', r2 = 493 / 500 :: real\<rparr>])" by simp
  have o: "occam_legacy [\<lparr>ltype = ''O(n^2) - Quadratic'', r2 = 1\<rparr>, \<lparr>ltype = ''O(n) - Linear'', r2 = 199 / 200\<rparr>,
                 \<lparr>ltype = ''O(n log n) - Linear-ithmic'', r2 = 99 / 100\<rparr>,
                 \<lparr>ltype = ''O(log n) - Logarithmic'', r2 = 493 / 500\<rparr>] =
     \<lparr>ltype = ''O(log n) - Logarithmic'', r2 = 493 / 500\<rparr>"
    by (simp add: occam_legacy_def Let_def)
  from occam_legacy_bound [OF s] o s show ?thesis by simp
qed

text \<open>
  On noiseless linear data with two different sizes and a non-zero slope the
  older classifier's linear model has \<open>R^2 = 1\<close>.
\<close>

theorem getR2_linear_exact:
  assumes "not_all_equal (map dp_n dps)" "a \<noteq> 0"
    and "\<forall>d \<in> set dps. dp_time d = a * real (dp_n d) + b"
  shows "getR2 cov_linear dps = Some 1"
proof -
  have times: "map dp_time dps = map (\<lambda>x. a * x + b) (map (real \<circ> dp_n) dps)"
    using assms(3) by (simp add: comp_def)
  show ?thesis
    by (rule getR2_exact [OF cov_linear_those not_all_equal_real [OF assms(1)] assms(2) times])
qed

lemma getR2_linear_exact_witness:
  "getR2 cov_linear [\<lparr>dp_n = 1, dp_time = 3\<rparr>, \<lparr>dp_n = 2, dp_time = 5\<rparr>] = Some 1"
  by (rule getR2_linear_exact [where a = 2 and b = 1]) (auto simp: not_all_equal_def)

text \<open>
  C34. The older benchmarker yields one sample per size in order, reads the
  clock exactly twice per timed call, and logs 5 warmup calls opened by the
  first size's array, then for each size \<open>iterations\<close> calls, each on a fresh
  \<open>[0, ..., n-1]\<close>.
\<close>

theorem runAnalysis_legacy_log:
  assumes "runAnalysis_legacy algorithm (n # ns) iterations s = Inr (dps, s')"
  shows "map dp_n dps = n # ns \<and> ticks s' = ticks s + 2 * iterations * length (n # ns) \<and>
    (\<exists>w. length w = 5 \<and> hd w = Arr [0..<n] \<and>
      calls s' = calls s @ w @ concat (map (\<lambda>m. replicate iterations (Arr [0..<m])) (n # ns)))"
proof -
  obtain w where "length w = 5" "hd w = Arr [0..<n]"
    "measure_sizes_legacy algorithm iterations (n # ns) (s\<lparr>calls := calls s @ w\<rparr>) = Inr (dps, s')"
    using assms by (rule runAnalysis_legacy_InrE)
  with measure_sizes_legacy_Inr [OF this(3)] show ?thesis by auto
qed

lemma runAnalysis_legacy_log_witness:
  "runAnalysis_legacy (\<lambda>x. (None :: string option, x)) [3] 1 \<lparr>clock = \<lambda>i. 10 * real i, ticks = 0, calls = []\<rparr> =
     Inr ([\<lparr>dp_n = 3, dp_time = 10\<rparr>],
          \<lparr>clock = \<lambda>i. 10 * real i, ticks = 2, calls = replicate 5 (Arr [0..<3]) @ [Arr [0..<3]]\<rparr>) \<and>
   map dp_n [\<lparr>dp_n = 3, dp_time = 10 :: real\<rparr>] = [3] \<and>
   (\<exists>w. length w = 5 \<and> hd w = Arr [0..<3] \<and>
      replicate 5 (Arr [0..<3]) @ [Arr [0..<3]] = [] @ w @ concat (map (\<lambda>m. replicate 1 (Arr [0..<m])) [3]))"
proof -
  have r: "runAnalysis_legacy (\<lambda>x. (None :: string option, x)) [3] 1 \<lparr>clock = \<lambda>i. 10 * real i, ticks = 0, calls = []\<rparr> =
     Inr ([\<lparr>dp_n = 3, dp_time = 10\<rparr>],
          \<lparr>clock = \<lambda>i. 10 * real i, ticks = 2, calls = replicate 5 (Arr [0..<3]) @ [Arr [0..<3]]\<rparr>)"
    by (simp add: runAnalysis_legacy_def run_calls_numeral call_algorithm_def measure_once_legacy_def
        now_def ss_mean_def generateInputArray_def numeral_eq_Suc)
  from runAnalysis_legacy_log [OF r] r show ?thesis by (simp add: numeral_eq_Suc)
qed

end
