(* ===== verification/ConsoleInput.thy ===== *)
theory ConsoleInput
  imports Prelude
begin

text \<open>
  The console helpers of \<open>src/utils/input.js\<close> (staged as
  \<open>src/unnamed/part_000\<close>, lines 1--51), which the CLI of \<open>part_001\<close> uses to
  read its parameters.  \<open>getNumberFromConsole\<close> converts the typed line with
  \<open>Number(userInput)\<close>, rejects \<open>NaN\<close>, and returns \<open>parseInt(number)\<close>; both
  built-ins are written out here after ECMAScript: \<open>js_number\<close> is
  StringToNumber (whitespace trimming, the decimal literal with sign,
  fraction and exponent, \<open>Infinity\<close>, the \<open>0x\<close>/\<open>0o\<close>/\<open>0b\<close> literals, and
  rounding to a double beyond the largest finite double), and
  \<open>js_parseInt_num\<close> is \<open>parseInt\<close> applied to a number, which first prints
  the number (Number::toString, in exponent notation outside
  \<open>[1e-6, 1e21)\<close>) and then reads its leading integer digits.  A double is
  the datatype \<open>jsnum\<close>: a finite value, read as an exact real, or one of the
  two infinities or \<open>NaN\<close>.  The answers of \<open>readline-sync\<close> (the typed line,
  the index chosen by \<open>keyInSelect\<close>, the key of \<open>keyInYN\<close>) are the
  arguments of the helpers; the messages they print are not modelled.
\<close>

section \<open>Doubles\<close>

datatype jsnum = JFin real | JPosInf | JNegInf | JNaN

definition js_neg :: "jsnum \<Rightarrow> jsnum" where
  "js_neg v = (case v of JFin x \<Rightarrow> JFin (- x) | JPosInf \<Rightarrow> JNegInf | JNegInf \<Rightarrow> JPosInf | JNaN \<Rightarrow> JNaN)"

text \<open>
  Rounding an exact value to a double, at the two ends where it changes the
  value's kind: magnitudes from \<open>2^1024 - 2^970\<close> on (half an ulp above the
  largest finite double) become infinite, and magnitudes up to \<open>2^-1075\<close>
  (half the smallest subnormal, ties to even) become zero.  Between the two
  the model keeps the exact value.
\<close>

definition round_double :: "jsnum \<Rightarrow> jsnum" where
  "round_double v =
     (case v of
        JFin x \<Rightarrow>
          if 2 ^ 1024 - 2 ^ 970 \<le> x then JPosInf
          else if x \<le> - (2 ^ 1024 - 2 ^ 970) then JNegInf
          else if \<bar>x\<bar> * 2 ^ 1075 \<le> 1 then JFin 0
          else JFin x
      | _ \<Rightarrow> v)"

text \<open>
  The operators the CLI loops use, after IEEE 754: \<open>+\<close> and \<open>*\<close> of two
  finite values round the exact result; an infinite operand gives an
  infinity of the product's or the sum's sign, except \<open>Infinity - Infinity\<close>
  and \<open>0 * Infinity\<close>, which are \<open>NaN\<close>; \<open>NaN\<close> absorbs everything.  The
  comparisons take a finite left operand (the loop counter) and are false
  against \<open>NaN\<close>.
\<close>

definition js_inf :: "real \<Rightarrow> jsnum" where
  "js_inf sign = (if 0 < sign then JPosInf else JNegInf)"

definition js_sign :: "jsnum \<Rightarrow> real" where
  "js_sign v = (case v of JFin x \<Rightarrow> sgn x | JPosInf \<Rightarrow> 1 | JNegInf \<Rightarrow> -1 | JNaN \<Rightarrow> 0)"

definition js_add :: "jsnum \<Rightarrow> jsnum \<Rightarrow> jsnum" where
  "js_add a b =
     (case (a, b) of
        (JFin x, JFin y) \<Rightarrow> round_double (JFin (x + y))
      | (JNaN, _) \<Rightarrow> JNaN
      | (_, JNaN) \<Rightarrow> JNaN
      | (JFin _, _) \<Rightarrow> b
      | (_, JFin _) \<Rightarrow> a
      | _ \<Rightarrow> if a = b then a else JNaN)"

definition js_mul :: "jsnum \<Rightarrow> jsnum \<Rightarrow> jsnum" where
  "js_mul a b =
     (case (a, b) of
        (JFin x, JFin y) \<Rightarrow> round_double (JFin (x * y))
      | (JNaN, _) \<Rightarrow> JNaN
      | (_, JNaN) \<Rightarrow> JNaN
      | _ \<Rightarrow> if js_sign a * js_sign b = 0 then JNaN else js_inf (js_sign a * js_sign b))"

definition js_lt :: "real \<Rightarrow> jsnum \<Rightarrow> bool" where
  "js_lt x v = (case v of JFin y \<Rightarrow> x < y | JPosInf \<Rightarrow> True | _ \<Rightarrow> False)"

definition js_le :: "real \<Rightarrow> jsnum \<Rightarrow> bool" where
  "js_le x v = (case v of JFin y \<Rightarrow> x \<le> y | JPosInf \<Rightarrow> True | _ \<Rightarrow> False)"

section \<open>StringToNumber\<close>

text \<open>
  StrWhiteSpaceChar: the white space and line terminators of ECMAScript
  that are single bytes (tab, line feed, vertical tab, form feed, carriage
  return, space, no-break space).
\<close>

definition is_js_space :: "char \<Rightarrow> bool" where
  "is_js_space c = (of_char c \<in> {9, 10, 11, 12, 13, 32, 160 :: nat})"

definition js_trim :: "string \<Rightarrow> string" where
  "js_trim s = rev (dropWhile is_js_space (rev (dropWhile is_js_space s)))"

text \<open>The value of a digit character in a radix of at most 16, if it is one.\<close>

definition digit_value :: "nat \<Rightarrow> char \<Rightarrow> nat option" where
  "digit_value radix c =
     (let k = of_char c :: nat;
          d = (if 48 \<le> k \<and> k \<le> 57 then Some (k - 48)
               else if 97 \<le> k \<and> k \<le> 102 then Some (k - 87)
               else if 65 \<le> k \<and> k \<le> 70 then Some (k - 55)
               else None)
      in case d of Some v \<Rightarrow> if v < radix then Some v else None | None \<Rightarrow> None)"

definition digits_value :: "nat \<Rightarrow> nat list \<Rightarrow> nat" where
  "digits_value radix ds = foldl (\<lambda>acc d. radix * acc + d) 0 ds"

text \<open>The longest prefix of decimal digits, and the rest.\<close>

fun take_digits :: "string \<Rightarrow> nat list \<times> string" where
  "take_digits [] = ([], [])"
| "take_digits (c # cs) =
     (case digit_value 10 c of
        None \<Rightarrow> ([], c # cs)
      | Some d \<Rightarrow> (let (ds, rest) = take_digits cs in (d # ds, rest)))"

definition scale10 :: "real \<Rightarrow> int \<Rightarrow> real" where
  "scale10 x e = (if 0 \<le> e then x * 10 ^ nat e else x / 10 ^ nat (- e))"

text \<open>ExponentPart, or nothing: \<open>e\<close> or \<open>E\<close>, an optional sign, digits.\<close>

definition parse_exponent :: "string \<Rightarrow> int option" where
  "parse_exponent s =
     (case s of
        [] \<Rightarrow> Some 0
      | c # r \<Rightarrow>
          if c = CHR ''e'' \<or> c = CHR ''E'' then
            (let (sign, r') = (case r of
                                 c' # r'' \<Rightarrow> if c' = CHR ''+'' then (1, r'')
                                             else if c' = CHR ''-'' then (-1, r'')
                                             else (1, r)
                               | [] \<Rightarrow> (1, r));
                 (ds, rest) = take_digits r'
             in if ds \<noteq> [] \<and> rest = [] then Some (sign * int (digits_value 10 ds)) else None)
          else None)"

text \<open>
  StrUnsignedDecimalLiteral: \<open>Infinity\<close>, or digits with an optional
  fraction (one of the two parts non-empty) and an optional exponent.
\<close>

definition str_unsigned_decimal :: "string \<Rightarrow> jsnum" where
  "str_unsigned_decimal s =
     (if s = ''Infinity'' then JPosInf
      else
        (let (ip, r1) = take_digits s;
             (fp, r3) = (if r1 \<noteq> [] \<and> hd r1 = CHR ''.'' then take_digits (tl r1) else ([], r1))
         in if ip = [] \<and> fp = [] then JNaN
            else case parse_exponent r3 of
                   None \<Rightarrow> JNaN
                 | Some e \<Rightarrow> JFin (scale10 (real (digits_value 10 (ip @ fp))) (e - int (length fp)))))"

definition str_decimal_literal :: "string \<Rightarrow> jsnum" where
  "str_decimal_literal s =
     (case s of
        c # r \<Rightarrow> if c = CHR ''+'' then str_unsigned_decimal r
                 else if c = CHR ''-'' then js_neg (str_unsigned_decimal r)
                 else str_unsigned_decimal s
      | [] \<Rightarrow> str_unsigned_decimal s)"

text \<open>NonDecimalIntegerLiteral: \<open>0x\<close>, \<open>0o\<close> or \<open>0b\<close> (either case), then digits.\<close>

definition radix_of :: "char \<Rightarrow> nat option" where
  "radix_of c =
     (if c = CHR ''x'' \<or> c = CHR ''X'' then Some 16
      else if c = CHR ''o'' \<or> c = CHR ''O'' then Some 8
      else if c = CHR ''b'' \<or> c = CHR ''B'' then Some 2
      else None)"

definition non_decimal_literal :: "string \<Rightarrow> jsnum option" where
  "non_decimal_literal s =
     (case s of
        c0 # c1 # ds \<Rightarrow>
          if c0 = CHR ''0'' then
            (case radix_of c1 of
               None \<Rightarrow> None
             | Some radix \<Rightarrow>
                 Some (case those (map (digit_value radix) ds) of
                         Some vs \<Rightarrow> if vs = [] then JNaN else JFin (real (digits_value radix vs))
                       | None \<Rightarrow> JNaN))
          else None
      | _ \<Rightarrow> None)"

definition js_number :: "string \<Rightarrow> jsnum" where
  "js_number str =
     (let s = js_trim str
      in if s = [] then JFin 0
         else round_double (case non_decimal_literal s of
                              Some v \<Rightarrow> v
                            | None \<Rightarrow> str_decimal_literal s))"

section \<open>parseInt of a number\<close>

text \<open>
  The first significant digit of a positive value: the digit that
  Number::toString prints first in exponent notation.
\<close>

function lead_digit_down :: "real \<Rightarrow> int" where
  "lead_digit_down x = (if 10 \<le> x then lead_digit_down (x / 10) else \<lfloor>x\<rfloor>)"
  by pat_completeness auto

termination
proof (relation "measure (\<lambda>x. nat \<lfloor>x\<rfloor>)")
  fix x :: real
  assume "10 \<le> x"
  then have "\<lfloor>x / 10\<rfloor> < \<lfloor>x\<rfloor>" by linarith
  then show "(x / 10, x) \<in> measure (\<lambda>x. nat \<lfloor>x\<rfloor>)" using \<open>10 \<le> x\<close> by simp
qed simp

function lead_digit_up :: "real \<Rightarrow> int" where
  "lead_digit_up x = (if 0 < x \<and> x < 1 then lead_digit_up (10 * x) else lead_digit_down x)"
  by pat_completeness auto

termination
proof (relation "measure (\<lambda>x. nat \<lceil>1 / x\<rceil>)")
  fix x :: real
  assume x: "0 < x \<and> x < 1"
  define y where "y = 1 / x"
  have y: "1 < y" using x by (simp add: y_def)
  have "\<lceil>y / 10\<rceil> < \<lceil>y\<rceil>"
  proof (cases "y \<le> 10")
    case True
    then have "\<lceil>y / 10\<rceil> = 1" using y by (simp add: ceiling_eq_iff)
    moreover have "2 \<le> \<lceil>y\<rceil>" using y by (simp add: le_ceiling_iff)
    ultimately show ?thesis by simp
  next
    case False
    have "real_of_int \<lceil>y / 10\<rceil> < real_of_int \<lceil>y\<rceil>"
      using False of_int_ceiling_le_add_one [of "y / 10"] le_of_int_ceiling [of y] by linarith
    then show ?thesis by simp
  qed
  then have "\<lceil>(1 / x) / 10\<rceil> < \<lceil>1 / x\<rceil>" by (simp add: y_def)
  then have "\<lceil>1 / (10 * x)\<rceil> < \<lceil>1 / x\<rceil>" by (simp add: field_simps)
  then show "(10 * x, x) \<in> measure (\<lambda>x. nat \<lceil>1 / x\<rceil>)" using x by simp
qed simp

definition js_parseInt_num :: "jsnum \<Rightarrow> jsnum" where
  "js_parseInt_num v =
     (case v of
        JFin x \<Rightarrow>
          if x = 0 then JFin 0
          else if 1 / 10 ^ 6 \<le> \<bar>x\<bar> \<and> \<bar>x\<bar> < 10 ^ 21 then JFin (sgn x * of_int \<lfloor>\<bar>x\<bar>\<rfloor>)
          else JFin (sgn x * of_int (lead_digit_up \<bar>x\<bar>))
      | _ \<Rightarrow> JNaN)"

section \<open>The console helpers\<close>

text \<open>
  Lines 5--22.  \<open>readlineSync.question\<close> returns the typed line as a string,
  so of the two guards only \<open>userInput === ''\<close> can hold.
\<close>

definition getNumberFromConsole :: "string \<Rightarrow> jsnum option" where
  "getNumberFromConsole userInput =
     (if userInput = [] then None
      else (let number = js_number userInput
            in if number = JNaN then None else Some (js_parseInt_num number)))"

text \<open>
  Lines 24--31: \<open>keyInSelect\<close> answers an index of \<open>options\<close> or \<open>-1\<close> for
  cancel; an index outside the array reads \<open>undefined\<close>, which the callers
  treat as the cancel (\<open>if (!selected) return\<close>).
\<close>

definition getOptionFromConsole :: "'a list \<Rightarrow> int \<Rightarrow> 'a option" where
  "getOptionFromConsole options index =
     (if index = -1 then None
      else if 0 \<le> index \<and> index < int (length options) then Some (options ! nat index)
      else None)"

definition getStringFromConsole :: "string \<Rightarrow> string option" where
  "getStringFromConsole userInput = (if userInput = [] then None else Some userInput)"

text \<open>
  Lines 41--44: \<open>keyInYN\<close> answers \<open>true\<close> for Y, \<open>false\<close> for N and the
  empty string for any other key; the callers only test the answer's
  truthiness, which is what the model returns.
\<close>

datatype yn_key = KeyY | KeyN | KeyOther

definition getYesNoFromConsole :: "yn_key \<Rightarrow> bool" where
  "getYesNoFromConsole key = (key = KeyY)"

section \<open>Printing integers\<close>

text \<open>
  Number::toString on an integer-valued double of magnitude below
  \<open>10^21\<close>: its decimal digits, with a minus sign when negative.
\<close>

fun nat_digits :: "nat \<Rightarrow> nat list" where
  "nat_digits n = (if n < 10 then [n] else nat_digits (n div 10) @ [n mod 10])"

definition digit_char :: "nat \<Rightarrow> char" where
  "digit_char d = ''0123456789'' ! d"

definition string_of_nat :: "nat \<Rightarrow> string" where
  "string_of_nat n = map digit_char (nat_digits n)"

definition string_of_int :: "int \<Rightarrow> string" where
  "string_of_int i = (if i < 0 then CHR ''-'' # string_of_nat (nat (- i)) else string_of_nat (nat i))"

declare js_neg_def [model_defs] round_double_def [model_defs] js_inf_def [model_defs]
  js_sign_def [model_defs] js_add_def [model_defs] js_mul_def [model_defs] js_lt_def [model_defs]
  js_le_def [model_defs] is_js_space_def [model_defs]
  js_trim_def [model_defs] digit_value_def [model_defs] digits_value_def [model_defs]
  scale10_def [model_defs] parse_exponent_def [model_defs] str_unsigned_decimal_def [model_defs]
  str_decimal_literal_def [model_defs] radix_of_def [model_defs]
  non_decimal_literal_def [model_defs] js_number_def [model_defs] js_parseInt_num_def [model_defs]
  getNumberFromConsole_def [model_defs] getOptionFromConsole_def [model_defs]
  getStringFromConsole_def [model_defs] getYesNoFromConsole_def [model_defs]
  digit_char_def [model_defs] string_of_nat_def [model_defs] string_of_int_def [model_defs]

declare nat_digits.simps [simp del] lead_digit_down.simps [simp del] lead_digit_up.simps [simp del]

section \<open>Lemmas on digits\<close>

lemma nat_digits_lt: "d \<in> set (nat_digits n) \<Longrightarrow> d < 10"
  by (induction n rule: nat_digits.induct) (subst (asm) nat_digits.simps, auto split: if_splits)

lemma nat_digits_ne [simp]: "nat_digits n \<noteq> []"
  by (subst nat_digits.simps) simp

lemma digits_value_snoc [simp]: "digits_value r (ds @ [d]) = r * digits_value r ds + d"
  by (simp add: digits_value_def)

lemma digits_value_nat_digits [simp]: "digits_value 10 (nat_digits n) = n"
  by (induction n rule: nat_digits.induct) (subst nat_digits.simps, simp add: digits_value_def)

lemma of_char_digit_char: "d < 10 \<Longrightarrow> of_char (digit_char d) = 48 + d"
proof -
  assume "d < 10"
  then have "d \<in> {0, 1, 2, 3, 4, 5, 6, 7, 8, 9}" by auto
  then show ?thesis by (auto simp: digit_char_def)
qed

lemma digit_value_digit_char [simp]: "d < 10 \<Longrightarrow> digit_value 10 (digit_char d) = Some d"
  by (simp add: digit_value_def of_char_digit_char)

lemma take_digits_digit_chars:
  "\<forall>d \<in> set ds. d < 10 \<Longrightarrow> take_digits (map digit_char ds) = (ds, [])"
  by (induction ds) auto

lemma digit_char_not_space: "d < 10 \<Longrightarrow> \<not> is_js_space (digit_char d)"
  by (auto simp: is_js_space_def of_char_digit_char)

lemma js_trim_id: "\<forall>c \<in> set s. \<not> is_js_space c \<Longrightarrow> js_trim s = s"
proof -
  assume a: "\<forall>c \<in> set s. \<not> is_js_space c"
  then have "dropWhile is_js_space s = s" by (cases s) auto
  moreover have "dropWhile is_js_space (rev s) = rev s" using a by (cases s rule: rev_cases) auto
  ultimately show ?thesis by (simp add: js_trim_def)
qed

lemma digit_char_neq: "d < 10 \<Longrightarrow> (of_char c :: nat) \<notin> {48..57} \<Longrightarrow> digit_char d \<noteq> c"
  by (auto simp: of_char_digit_char)

lemma take_digits_append:
  "\<forall>d \<in> set ds. d < 10 \<Longrightarrow>
   take_digits (map digit_char ds @ rest) = (ds @ fst (take_digits rest), snd (take_digits rest))"
  by (induction ds) (auto split: prod.splits)

lemma str_unsigned_decimal_digits:
  assumes "ds \<noteq> []" "\<forall>d \<in> set ds. d < 10"
  shows "str_unsigned_decimal (map digit_char ds) = JFin (real (digits_value 10 ds))"
proof -
  obtain d ds' where ds: "ds = d # ds'" using assms(1) by (cases ds) auto
  have "map digit_char ds \<noteq> ''Infinity''" using assms(2) ds by (auto simp: digit_char_neq)
  moreover have "take_digits (map digit_char ds) = (ds, [])"
    using take_digits_append [OF assms(2), of "[]"] by simp
  ultimately show ?thesis using assms(1) by (simp add: str_unsigned_decimal_def parse_exponent_def scale10_def)
qed

lemma string_of_nat_digits: "string_of_nat n = map digit_char (nat_digits n)"
  by (simp add: string_of_nat_def)

lemma string_of_nat_not_space: "c \<in> set (string_of_nat n) \<Longrightarrow> \<not> is_js_space c"
  by (auto simp: string_of_nat_digits) (meson digit_char_not_space nat_digits_lt)

lemma string_of_nat_ne [simp]: "string_of_nat n \<noteq> []"
  by (simp add: string_of_nat_digits)

lemma str_unsigned_decimal_string_of_nat:
  "str_unsigned_decimal (string_of_nat n) = JFin (real n)"
  unfolding string_of_nat_digits
  by (subst str_unsigned_decimal_digits) (auto dest: nat_digits_lt)

lemma hd_string_of_nat: "(of_char (hd (string_of_nat n)) :: nat) \<in> {48..57}"
proof -
  obtain d ds where "nat_digits n = d # ds" by (cases "nat_digits n") auto
  moreover have "d < 10" using calculation nat_digits_lt [of d n] by simp
  ultimately show ?thesis by (simp add: string_of_nat_digits of_char_digit_char)
qed

lemma radix_of_digit_char: "d < 10 \<Longrightarrow> radix_of (digit_char d) = None"
  by (auto simp: radix_of_def digit_char_neq)

lemma non_decimal_literal_digit_chars:
  "\<forall>d \<in> set ds. d < 10 \<Longrightarrow> non_decimal_literal (map digit_char ds) = None"
proof (induction ds rule: remdups_adj.induct)
  case (3 d0 d1 rest)
  then show ?case by (simp add: non_decimal_literal_def radix_of_digit_char)
qed (simp_all add: non_decimal_literal_def)

lemma non_decimal_literal_string_of_nat: "non_decimal_literal (string_of_nat n) = None"
  unfolding string_of_nat_digits by (rule non_decimal_literal_digit_chars) (auto dest: nat_digits_lt)

lemma non_decimal_literal_minus [simp]: "non_decimal_literal (CHR ''-'' # s) = None"
  by (cases s) (simp_all add: non_decimal_literal_def)

lemma str_decimal_literal_string_of_nat: "str_decimal_literal (string_of_nat n) = JFin (real n)"
proof -
  obtain c s where cs: "string_of_nat n = c # s" by (cases "string_of_nat n") auto
  have "(of_char c :: nat) \<in> {48..57}" using hd_string_of_nat [of n] cs by simp
  then have "c \<noteq> CHR ''+''" "c \<noteq> CHR ''-''" by auto
  then show ?thesis using str_unsigned_decimal_string_of_nat [of n] cs
    by (simp add: str_decimal_literal_def)
qed

lemma real_abs_lt_pow10: "\<bar>i\<bar> < 10 ^ k \<Longrightarrow> \<bar>real_of_int i\<bar> < 10 ^ k"
  by (metis of_int_abs of_int_less_iff of_int_numeral of_int_power)

lemma round_double_fin:
  fixes x :: real
  assumes "\<bar>x\<bar> < 2 ^ 1024 - 2 ^ 970" and "x \<noteq> 0 \<Longrightarrow> 1 < \<bar>x\<bar> * 2 ^ 1075"
  shows "round_double (JFin x) = JFin x"
proof -
  have "\<not> 2 ^ 1024 - 2 ^ 970 \<le> x" "\<not> x \<le> - (2 ^ 1024 - 2 ^ 970)" using assms(1) by linarith+
  moreover have "(\<bar>x\<bar> * 2 ^ 1075 \<le> 1) \<longleftrightarrow> x = 0" using assms(2) by fastforce
  ultimately show ?thesis unfolding round_double_def by (simp only: jsnum.case if_False) simp
qed

lemma round_double_int:
  assumes "\<bar>i\<bar> < 10 ^ 21"
  shows "round_double (JFin (of_int i)) = JFin (of_int i)"
proof (rule round_double_fin)
  have "(10::real) ^ 21 < 2 ^ 1024 - 2 ^ 970" by simp
  then show "\<bar>real_of_int i\<bar> < 2 ^ 1024 - 2 ^ 970" using real_abs_lt_pow10 [OF assms] by linarith
next
  assume "real_of_int i \<noteq> 0"
  then have "i \<noteq> 0" by simp
  then have "1 \<le> \<bar>real_of_int i\<bar>" by linarith
  then have "2 ^ 1075 \<le> \<bar>real_of_int i\<bar> * 2 ^ 1075" by simp
  moreover have "(1::real) < 2 ^ 1075" by simp
  ultimately show "1 < \<bar>real_of_int i\<bar> * 2 ^ 1075" by linarith
qed

lemma js_number_string_of_int:
  assumes "\<bar>i\<bar> < 10 ^ 21"
  shows "js_number (string_of_int i) = JFin (of_int i)"
proof (cases "i < 0")
  case True
  have "js_trim (CHR ''-'' # string_of_nat (nat (- i))) = CHR ''-'' # string_of_nat (nat (- i))"
    by (rule js_trim_id) (auto simp: is_js_space_def dest: string_of_nat_not_space)
  moreover have "str_decimal_literal (CHR ''-'' # string_of_nat (nat (- i))) = JFin (of_int i)"
    using True by (simp add: str_decimal_literal_def str_unsigned_decimal_string_of_nat js_neg_def)
  ultimately show ?thesis using True round_double_int [OF assms]
    by (simp add: js_number_def string_of_int_def)
next
  case False
  have "js_trim (string_of_nat (nat i)) = string_of_nat (nat i)"
    by (rule js_trim_id) (auto dest: string_of_nat_not_space)
  then show ?thesis using False round_double_int [OF assms]
    by (simp add: js_number_def string_of_int_def non_decimal_literal_string_of_nat
      str_decimal_literal_string_of_nat)
qed

lemma js_parseInt_num_int:
  assumes "\<bar>i\<bar> < 10 ^ 21"
  shows "js_parseInt_num (JFin (of_int i)) = JFin (of_int i)"
proof -
  have "\<bar>real_of_int i\<bar> < 10 ^ 21" using assms by (rule real_abs_lt_pow10)
  moreover have "1 / 10 ^ 6 \<le> \<bar>real_of_int i\<bar>" if "i \<noteq> 0"
  proof -
    have "1 \<le> \<bar>real_of_int i\<bar>" using that by linarith
    then show ?thesis by simp
  qed
  moreover have "sgn (real_of_int i) * real_of_int \<lfloor>\<bar>real_of_int i\<bar>\<rfloor> = real_of_int i"
    by (cases "0 < i") (auto simp: sgn_real_def)
  ultimately show ?thesis by (simp add: js_parseInt_num_def)
qed

lemma sgn_times_int: "\<exists>j. sgn x * real_of_int k = real_of_int j"
proof (cases "0 < x")
  case True
  then show ?thesis by simp
next
  case False
  then show ?thesis by (cases "x = 0") (auto intro: exI [of _ "- k"])
qed

lemma js_parseInt_num_cases: "js_parseInt_num v = JNaN \<or> (\<exists>i. js_parseInt_num v = JFin (of_int i))"
  by (cases v) (auto simp: js_parseInt_num_def sgn_times_int intro: exI [of _ 0])

lemma lead_digit_down_pow10: "lead_digit_down (10 ^ k) = 1"
proof (induction k)
  case 0
  then show ?case by (subst lead_digit_down.simps) simp
next
  case (Suc k)
  have "(10::real) \<le> 10 ^ Suc k" by simp
  then show ?case using Suc by (subst lead_digit_down.simps) simp
qed

lemma lead_digit_up_ge1: "1 \<le> x \<Longrightarrow> lead_digit_up x = lead_digit_down x"
  by (subst lead_digit_up.simps) simp

lemma take_digits_e: "take_digits (CHR ''e'' # s) = ([], CHR ''e'' # s)"
  by (simp add: digit_value_def)

lemma parse_exponent_string_of_nat: "parse_exponent (CHR ''e'' # string_of_nat k) = Some (int k)"
proof -
  obtain c s where cs: "string_of_nat k = c # s" by (cases "string_of_nat k") auto
  have "(of_char c :: nat) \<in> {48..57}" using hd_string_of_nat [of k] cs by simp
  then have "c \<noteq> CHR ''+''" "c \<noteq> CHR ''-''" by auto
  moreover have "take_digits (string_of_nat k) = (nat_digits k, [])"
    unfolding string_of_nat_digits by (rule take_digits_digit_chars) (auto dest: nat_digits_lt)
  ultimately show ?thesis using cs by (simp add: parse_exponent_def)
qed

lemma js_number_one_e: "js_number (CHR ''1'' # CHR ''e'' # string_of_nat k) = round_double (JFin (10 ^ k))"
proof -
  have "js_trim (''1e'' @ string_of_nat k) = ''1e'' @ string_of_nat k"
    by (rule js_trim_id) (auto simp: is_js_space_def dest: string_of_nat_not_space)
  moreover have "str_unsigned_decimal (''1e'' @ string_of_nat k) = JFin (10 ^ k)"
    using parse_exponent_string_of_nat [of k]
    by (simp add: str_unsigned_decimal_def take_digits_e digit_value_def scale10_def digits_value_def)
  ultimately show ?thesis by (simp add: js_number_def non_decimal_literal_def str_decimal_literal_def)
qed

lemma js_add_fin [simp]: "js_add (JFin x) (JFin y) = round_double (JFin (x + y))"
  by (simp add: js_add_def)

lemma js_mul_fin [simp]: "js_mul (JFin x) (JFin y) = round_double (JFin (x * y))"
  by (simp add: js_mul_def)

lemma js_lt_fin [simp]: "js_lt x (JFin y) \<longleftrightarrow> x < y"
  by (simp add: js_lt_def)

lemma js_le_fin [simp]: "js_le x (JFin y) \<longleftrightarrow> x \<le> y"
  by (simp add: js_le_def)

lemma js_lt_NaN [simp]: "\<not> js_lt x JNaN" and js_le_NaN [simp]: "\<not> js_le x JNaN"
  by (simp_all add: js_lt_def js_le_def)

lemma getOptionFromConsole_Some:
  "getOptionFromConsole options index = Some x \<Longrightarrow> x \<in> set options"
  by (auto simp: getOptionFromConsole_def split: if_splits)

lemma getOptionFromConsole_index:
  "0 \<le> index \<Longrightarrow> index < int (length options) \<Longrightarrow>
   getOptionFromConsole options index = Some (options ! nat index)"
  by (simp add: getOptionFromConsole_def)

lemma getNumberFromConsole_cases:
  "getNumberFromConsole userInput = Some v \<Longrightarrow> v = JNaN \<or> (\<exists>i. v = JFin (of_int i))"
  using js_parseInt_num_cases by (auto simp: getNumberFromConsole_def Let_def split: if_splits)

text \<open>
  A line of white space only is not empty, so it passes the first guard,
  and \<open>Number\<close> reads it as 0: the helper returns 0 instead of \<open>null\<close>.
\<close>

lemma getNumberFromConsole_blank:
  "userInput \<noteq> [] \<Longrightarrow> \<forall>c \<in> set userInput. is_js_space c \<Longrightarrow>
   getNumberFromConsole userInput = Some (JFin 0)"
proof -
  assume "userInput \<noteq> []" "\<forall>c \<in> set userInput. is_js_space c"
  moreover from this(2) have d: "dropWhile is_js_space userInput = []" by (simp only: dropWhile_eq_Nil_conv)
  have "js_trim userInput = []" unfolding js_trim_def d by simp
  ultimately show ?thesis by (simp add: getNumberFromConsole_def js_number_def js_parseInt_num_def)
qed

section \<open>Properties of getNumberFromConsole\<close>

text \<open>
  C18. Round trip: typing the decimal digits of an integer of magnitude at
  most \<open>2^53\<close> (with a minus sign when negative) gives back that integer.
  These are the integers a double holds exactly; above \<open>2^53\<close> \<open>Number\<close>
  rounds (\<open>9007199254740993\<close> reads as \<open>9007199254740992\<close>), which the
  model's exact reading of numbers between the thresholds does not follow,
  so the claim stops there.
\<close>

theorem getNumberFromConsole_string_of_int:
  assumes "\<bar>i\<bar> \<le> 2 ^ 53"
  shows "getNumberFromConsole (string_of_int i) = Some (JFin (of_int i))"
proof -
  have b: "\<bar>i\<bar> < 10 ^ 21"
  proof -
    have "(2 :: int) ^ 53 < 10 ^ 21" by simp
    with assms show ?thesis by linarith
  qed
  have "string_of_int i \<noteq> []" by (simp add: string_of_int_def)
  then show ?thesis
    using js_number_string_of_int [OF b] js_parseInt_num_int [OF b]
    by (simp add: getNumberFromConsole_def)
qed

lemma getNumberFromConsole_string_of_int_witness:
  "getNumberFromConsole (string_of_int (-120)) = Some (JFin (-120))"
  using getNumberFromConsole_string_of_int [of "-120"] by simp

text \<open>
  C22. Every number \<open>getNumberFromConsole\<close> returns is an integer, except
  \<open>NaN\<close>: the \<open>isNaN\<close> guard runs before \<open>parseInt\<close>, so an input whose
  \<open>Number\<close> is infinite (\<open>Infinity\<close>, \<open>-Infinity\<close>, \<open>1e400\<close>) passes the
  guard and comes back as \<open>NaN\<close>.
\<close>

theorem getNumberFromConsole_integral:
  assumes "getNumberFromConsole userInput = Some v"
  shows "(\<exists>i. v = JFin (of_int i)) \<or>
         (v = JNaN \<and> (js_number userInput = JPosInf \<or> js_number userInput = JNegInf))"
proof -
  have v: "v = js_parseInt_num (js_number userInput)" and nn: "js_number userInput \<noteq> JNaN"
    using assms by (auto simp: getNumberFromConsole_def Let_def split: if_splits)
  show ?thesis
  proof (cases "js_number userInput")
    case (JFin x)
    have "js_parseInt_num (JFin x) \<noteq> JNaN" by (simp add: js_parseInt_num_def)
    then show ?thesis using js_parseInt_num_cases [of "JFin x"] v JFin by auto
  qed (use v nn in \<open>simp_all add: js_parseInt_num_def\<close>)
qed

lemma getNumberFromConsole_integral_witness:
  "(\<exists>i. JNaN = JFin (of_int i)) \<or>
   (JNaN = JNaN \<and> (js_number ''Infinity'' = JPosInf \<or> js_number ''Infinity'' = JNegInf))"
  by (rule getNumberFromConsole_integral) (simp add: model_defs)

text \<open>
  C25. Exponent notation: \<open>1e21\<close> and every larger power of ten up to
  \<open>1e308\<close> are read as 1, because \<open>parseInt\<close> reads the printed
  \<open>1e+21\<close> up to the first non-digit; from \<open>1e309\<close> on the value
  overflows to \<open>Infinity\<close> and is returned as \<open>NaN\<close>.
\<close>

theorem getNumberFromConsole_exponent:
  assumes "21 \<le> k"
  shows "getNumberFromConsole (''1e'' @ string_of_nat k) = Some (if k \<le> 308 then JFin 1 else JNaN)"
proof (cases "k \<le> 308")
  case True
  have "(10::real) ^ k \<le> 10 ^ 308" using True by (intro power_increasing) simp_all
  moreover have "(10::real) ^ 308 < 2 ^ 1024 - 2 ^ 970" by simp
  moreover have "(2::real) ^ 1075 \<le> 10 ^ k * 2 ^ 1075" by simp
  moreover have "(1::real) < 2 ^ 1075" by simp
  moreover have "\<bar>(10::real) ^ k\<bar> = 10 ^ k" by simp
  ultimately have "round_double (JFin (10 ^ k)) = JFin (10 ^ k)"
    by (intro round_double_fin) linarith+
  moreover have "(10::real) ^ 21 \<le> 10 ^ k" using assms by (intro power_increasing) simp_all
  ultimately show ?thesis using True
    by (simp add: getNumberFromConsole_def js_number_one_e js_parseInt_num_def
      lead_digit_up_ge1 lead_digit_down_pow10)
next
  case False
  have "(10::real) ^ 309 \<le> 10 ^ k" using False by (intro power_increasing) simp_all
  moreover have "(2::real) ^ 1024 - 2 ^ 970 \<le> 10 ^ 309" by simp
  ultimately have "round_double (JFin (10 ^ k)) = JPosInf" by (simp add: round_double_def)
  then show ?thesis using False
    by (simp add: getNumberFromConsole_def js_number_one_e js_parseInt_num_def)
qed

lemma getNumberFromConsole_exponent_witness:
  "getNumberFromConsole (''1e'' @ string_of_nat 21) = Some (JFin 1)"
  using getNumberFromConsole_exponent [of 21] by simp

end
