(* ===== verification/Cli.thy ===== *)
theory Cli
  imports Legacy ConsoleInput "HOL-Library.Monad_Syntax"
begin

text \<open>
  The two interactive command-line mains staged in \<open>src/unnamed/part_001\<close>:
  the older \<open>src/index.js\<close> (lines 142--219), which drives the older
  calculator (\<open>Legacy\<close>), and the current one (lines 220--386), which drives
  the current benchmarker and classifier and offers a high-precision rerun
  after a low-confidence result.  Both read their parameters with the
  helpers of \<open>ConsoleInput\<close>.  The console is a record of the answers still
  to come, one stream per kind of prompt (the index answered to
  \<open>keyInSelect\<close>, the line answered to \<open>question\<close>, the key answered to
  \<open>keyInYN\<close>); a prompt with no answer left waits forever, which is the
  value \<open>None\<close>, as is a loop that never ends.  A main returns the analyses
  it ran, in order, with the final benchmark state; an early \<open>return\<close> is
  the empty list.  A built-in or loaded function is a
  \<open>real option \<Rightarrow> 'e algorithm\<close>: the benchmarker's candidate for each value
  of the second argument, which the \<open>logarithmicTime\<close> wrapper fixes to
  \<open>-1\<close> and a one-argument call leaves \<open>undefined\<close> (\<open>None\<close>).  What the
  current main's \<open>displayAnalysis\<close> prints is a list of report lines; the
  rest of what the mains print (tables, most colours, the graph itself) is
  not modelled.
\<close>

section \<open>The console\<close>

record console =
  keys :: "int list"
  lines :: "string list"
  yn_keys :: "yn_key list"

definition read_key :: "console \<Rightarrow> (int \<times> console) option" where
  "read_key c = (case keys c of [] \<Rightarrow> None | k # ks \<Rightarrow> Some (k, c\<lparr>keys := ks\<rparr>))"

definition read_line :: "console \<Rightarrow> (string \<times> console) option" where
  "read_line c = (case lines c of [] \<Rightarrow> None | l # ls \<Rightarrow> Some (l, c\<lparr>lines := ls\<rparr>))"

definition read_yn :: "console \<Rightarrow> (yn_key \<times> console) option" where
  "read_yn c = (case yn_keys c of [] \<Rightarrow> None | y # ys \<Rightarrow> Some (y, c\<lparr>yn_keys := ys\<rparr>))"

text \<open>
  \<open>if (!selected) return\<close> on a string: the empty string is falsy too.
\<close>

definition truthy_string :: "string option \<Rightarrow> string option" where
  "truthy_string v = (case v of Some s \<Rightarrow> if s = [] then None else Some s | None \<Rightarrow> None)"

definition ask_option :: "string list \<Rightarrow> console \<Rightarrow> (string option \<times> console) option" where
  "ask_option options c =
     do { (index, c') \<leftarrow> read_key c; Some (truthy_string (getOptionFromConsole options index), c') }"

definition ask_number :: "console \<Rightarrow> (jsnum option \<times> console) option" where
  "ask_number c = do { (userInput, c') \<leftarrow> read_line c; Some (getNumberFromConsole userInput, c') }"

section \<open>Growth strategies\<close>

definition growthStrategies :: "string list" where
  "growthStrategies = [''Powers of 10 (10, 100, 1000...)'', ''Doubling (100, 200, 400...)'',
                       ''Linear Steps (1000, 2000, 3000...)'']"

text \<open>\<open>for (let i = 1; i <= maxPower; i++) inputSizes.push(10 ** i)\<close>\<close>

partial_function (option) powers_loop :: "jsnum \<Rightarrow> nat \<Rightarrow> jsnum list option" where
  "powers_loop maxPower i =
     (if js_le (real i) maxPower
      then do { rest \<leftarrow> powers_loop maxPower (Suc i); Some (round_double (JFin (10 ^ i)) # rest) }
      else Some [])"

text \<open>\<open>for (let i = 0; i < steps; i++) { inputSizes.push(current); current *= 2; }\<close>\<close>

partial_function (option) doubling_loop :: "jsnum \<Rightarrow> nat \<Rightarrow> jsnum \<Rightarrow> jsnum list option" where
  "doubling_loop steps i current =
     (if js_lt (real i) steps
      then do { rest \<leftarrow> doubling_loop steps (Suc i) (js_mul current (JFin 2)); Some (current # rest) }
      else Some [])"

text \<open>\<open>for (let i = 0; i < count; i++) inputSizes.push(startSize + (i * stepSize))\<close>\<close>

partial_function (option) linear_loop :: "jsnum \<Rightarrow> jsnum \<Rightarrow> jsnum \<Rightarrow> nat \<Rightarrow> jsnum list option" where
  "linear_loop startSize stepSize pointCount i =
     (if js_lt (real i) pointCount
      then do { rest \<leftarrow> linear_loop startSize stepSize pointCount (Suc i);
                Some (js_add startSize (js_mul (JFin (real i)) stepSize) # rest) }
      else Some [])"

declare powers_loop.simps [code] doubling_loop.simps [code] linear_loop.simps [code]

text \<open>
  The strategy's questions, asked all before any answer is checked, then
  its loop; an answer \<open>null\<close> is the early return (inner \<open>None\<close>).
\<close>

definition select_input_sizes :: "string \<Rightarrow> console \<Rightarrow> (jsnum list option \<times> console) option" where
  "select_input_sizes selectedStrategy c =
     (if prefix ''Powers of 10'' selectedStrategy then
        do { (maxPower, c1) \<leftarrow> ask_number c;
             case maxPower of
               None \<Rightarrow> Some (None, c1)
             | Some m \<Rightarrow> do { inputSizes \<leftarrow> powers_loop m 1; Some (Some inputSizes, c1) } }
      else if prefix ''Doubling'' selectedStrategy then
        do { (startSize, c1) \<leftarrow> ask_number c;
             (steps, c2) \<leftarrow> ask_number c1;
             case (startSize, steps) of
               (Some st, Some k) \<Rightarrow> do { inputSizes \<leftarrow> doubling_loop k 0 st; Some (Some inputSizes, c2) }
             | _ \<Rightarrow> Some (None, c2) }
      else if prefix ''Linear Steps'' selectedStrategy then
        do { (startSize, c1) \<leftarrow> ask_number c;
             (stepSize, c2) \<leftarrow> ask_number c1;
             (pointCount, c3) \<leftarrow> ask_number c2;
             case (startSize, stepSize, pointCount) of
               (Some st, Some sz, Some k) \<Rightarrow>
                 do { inputSizes \<leftarrow> linear_loop st sz k 0; Some (Some inputSizes, c3) }
             | _ \<Rightarrow> Some (None, c3) }
      else Some (Some [], c))"

section \<open>Running an analysis\<close>

text \<open>
  The benchmarker takes sizes as naturals: a plan of non-negative integers
  is one; any other plan (negative, fractional, infinite or \<open>NaN\<close> sizes)
  is outside the benchmarker's model and reported as such.
\<close>

definition js_size :: "jsnum \<Rightarrow> nat option" where
  "js_size v = (case v of JFin x \<Rightarrow> if 0 \<le> x \<and> x = of_int \<lfloor>x\<rfloor> then Some (nat \<lfloor>x\<rfloor>) else None | _ \<Rightarrow> None)"

definition sizes_as_nat :: "jsnum list \<Rightarrow> nat list option" where
  "sizes_as_nat inputSizes = those (map js_size inputSizes)"

datatype ('e, 'r) analysis =
    Unsupported "jsnum list"
  | Crashed "'e bench_error + cerror"
  | Reported string "nat list" "data_point list" 'r

type_synonym 'e js_function = "real option \<Rightarrow> 'e algorithm"

text \<open>Lines 154--162 and 324--328: the \<open>logarithmicTime\<close> wrapper, chosen by name.\<close>

definition select_algorithm :: "string \<Rightarrow> 'e js_function \<Rightarrow> 'e algorithm" where
  "select_algorithm selectedAlgoName f =
     (if selectedAlgoName = ''logarithmicTime'' then f (Some (-1)) else f None)"

text \<open>
  Lines 199--216 of the older main: \<open>runAnalysis(algorithm, inputSizes)\<close>
  with its default of 10 iterations and the older classifier; an exception
  of either is uncaught.
\<close>

definition run_cli1 ::
  "'e algorithm \<Rightarrow> string \<Rightarrow> jsnum list \<Rightarrow> env \<Rightarrow> ('e, legacy_result) analysis \<times> env" where
  "run_cli1 algorithm selectedAlgoName inputSizes s =
     (case sizes_as_nat inputSizes of
        None \<Rightarrow> (Unsupported inputSizes, s)
      | Some ns \<Rightarrow>
          (case runAnalysis_legacy algorithm ns 10 s of
             Inl err \<Rightarrow> (Crashed (Inl err), s)
           | Inr (dataPoints, s') \<Rightarrow>
               (case determineComplexity_legacy dataPoints of
                  Inl err \<Rightarrow> (Crashed (Inr err), s')
                | Inr complexityResult \<Rightarrow> (Reported selectedAlgoName ns dataPoints complexityResult, s'))))"

text \<open>
  Lines 230--252 of the current main: what \<open>displayAnalysis\<close> prints, line by
  line.  The confidence is printed green above 75 and red otherwise, the
  warning at 75 or below, then each model's RMSE in the order of
  \<open>results\<close>; \<open>createGraph\<close> resolves with the graph's path or rejects, and a
  rejection is caught and reported.  Colours other than the confidence's,
  and \<open>toFixed(6)\<close>, are not modelled.
\<close>

datatype graph_outcome = GraphWritten string | GraphFailed string

datatype report_line =
    ReportBestFit label
  | ReportConfidence int bool
  | ReportLowConfidence
  | ReportFit label real
  | ReportGraph string
  | ReportGraphError string

definition displayAnalysis :: "complexity_result \<Rightarrow> graph_outcome \<Rightarrow> report_line list" where
  "displayAnalysis complexityResult graph =
     [ReportBestFit (bestFit complexityResult),
      ReportConfidence (confidence complexityResult) (confidence complexityResult > 75)] @
     (if confidence complexityResult \<le> 75 then [ReportLowConfidence] else []) @
     map (\<lambda>(type, rmse). ReportFit type rmse) (results complexityResult) @
     [case graph of GraphWritten graphPath \<Rightarrow> ReportGraph graphPath | GraphFailed message \<Rightarrow> ReportGraphError message]"

text \<open>Lines 257--270 of the current main.\<close>

definition runAndDisplayAnalysis ::
  "'e algorithm \<Rightarrow> string \<Rightarrow> jsnum list \<Rightarrow> input_mode \<Rightarrow> env \<Rightarrow>
   ('e, complexity_result) analysis \<times> env" where
  "runAndDisplayAnalysis algorithm selectedAlgoName inputSizes inputMode s =
     (case sizes_as_nat inputSizes of
        None \<Rightarrow> (Unsupported inputSizes, s)
      | Some ns \<Rightarrow>
          (case runAnalysis algorithm ns 10 inputMode s of
             Inl err \<Rightarrow> (Crashed (Inl err), s)
           | Inr (dataPoints, s') \<Rightarrow>
               (case determineComplexity dataPoints of
                  Inl err \<Rightarrow> (Crashed (Inr err), s')
                | Inr complexityResult \<Rightarrow> (Reported selectedAlgoName ns dataPoints complexityResult, s'))))"

section \<open>The older main\<close>

text \<open>Lines 146--217.\<close>

definition main_cli1 ::
  "(string \<times> 'e js_function) list \<Rightarrow> console \<Rightarrow> env \<Rightarrow>
   (('e, legacy_result) analysis list \<times> env) option" where
  "main_cli1 algorithms c s =
     do { (selectedAlgoName, c1) \<leftarrow> ask_option (map fst algorithms) c;
          case selectedAlgoName of
            None \<Rightarrow> Some ([], s)
          | Some name \<Rightarrow>
              (let algorithm = select_algorithm name (the (map_of algorithms name))
               in do { (selectedStrategy, c2) \<leftarrow> ask_option growthStrategies c1;
                       case selectedStrategy of
                         None \<Rightarrow> Some ([], s)
                       | Some strategy \<Rightarrow>
                           do { (inputSizes, c3) \<leftarrow> select_input_sizes strategy c2;
                                case inputSizes of
                                  None \<Rightarrow> Some ([], s)
                                | Some sizes \<Rightarrow> Some (apfst (\<lambda>a. [a]) (run_cli1 algorithm name sizes s)) } }) }"

section \<open>The current main\<close>

text \<open>
  What \<open>require\<close> yields for the typed path: a function (with its \<open>name\<close>), an
  object (its own enumerable properties in \<open>Object.keys\<close> order), \<open>null\<close>, or
  another value; \<open>None\<close> when \<open>require\<close> throws.  Resolving the path and
  loading the file are the environment's.
\<close>

datatype 'e js_value =
    JSFunction string "'e js_function"
  | JSObject "(string \<times> 'e js_value) list"
  | JSNull
  | JSPrimitive

definition sourceOptions :: "string list" where
  "sourceOptions = [''Built-in Algorithms'', ''Load Custom Function from File'']"

definition inputModeOptions :: "string list" where
  "inputModeOptions = [''Array of n items (for sorting, iteration, etc.)'',
                       ''The number n itself (for mathematical, digit-based functions, etc.)'']"

definition is_function_value :: "'e js_value option \<Rightarrow> bool" where
  "is_function_value v = (case v of Some (JSFunction _ _) \<Rightarrow> True | _ \<Rightarrow> False)"

text \<open>
  \<open>customModule[selectedAlgoName]\<close> for an offered key, which always holds
  a function; the last branch is never taken.
\<close>

definition member_function :: "'e js_value option \<Rightarrow> 'e js_function" where
  "member_function v = (case v of Some (JSFunction _ f) \<Rightarrow> f | _ \<Rightarrow> (\<lambda>_ x. (None, x)))"

text \<open>Lines 309--316: \<open>includes('Array')\<close> decides the mode.\<close>

definition choose_input_mode :: "console \<Rightarrow> (input_mode option \<times> console) option" where
  "choose_input_mode c =
     do { (selectedModeDescription, c') \<leftarrow> ask_option inputModeOptions c;
          Some (map_option (\<lambda>d. if str_includes d ''Array'' then ArrayMode else NumberMode)
                  selectedModeDescription, c') }"

text \<open>Lines 285--289: a built-in, always in array mode.\<close>

definition select_builtin ::
  "(string \<times> 'e js_function) list \<Rightarrow> console \<Rightarrow>
   ((string \<times> 'e js_function \<times> input_mode) option \<times> console) option" where
  "select_builtin algorithms c =
     do { (selectedAlgoName, c') \<leftarrow> ask_option (map fst algorithms) c;
          Some (map_option (\<lambda>name. (name, the (map_of algorithms name), ArrayMode)) selectedAlgoName, c') }"

text \<open>
  Lines 290--322: a function loaded from a file.  Every exception of the
  \<open>try\<close> block (\<open>require\<close> failing, no exported function, a module that is
  neither a function nor an object, \<open>Object.keys(null)\<close>) is caught and ends
  the main.
\<close>

definition load_custom ::
  "(string \<Rightarrow> 'e js_value option) \<Rightarrow> console \<Rightarrow>
   ((string \<times> 'e js_function \<times> input_mode) option \<times> console) option" where
  "load_custom load c =
     do { (filePath, c1) \<leftarrow> read_line c;
          if filePath = [] then Some (None, c1)
          else case load filePath of
            Some (JSFunction fname f) \<Rightarrow>
              do { (inputMode, c2) \<leftarrow> choose_input_mode c1;
                   Some (map_option (\<lambda>m. (if fname = [] then ''Custom Function'' else fname, f, m)) inputMode, c2) }
          | Some (JSObject members) \<Rightarrow>
              (let exports = filter (\<lambda>k. is_function_value (map_of members k)) (map fst members)
               in if exports = [] then Some (None, c1)
                  else do { (selectedAlgoName, c2) \<leftarrow> ask_option exports c1;
                            case selectedAlgoName of
                              None \<Rightarrow> Some (None, c2)
                            | Some name \<Rightarrow>
                                do { (inputMode, c3) \<leftarrow> choose_input_mode c2;
                                     Some (map_option (\<lambda>m. (name, member_function (map_of members name), m)) inputMode, c3) } })
          | _ \<Rightarrow> Some (None, c1) }"

text \<open>Lines 361--376: which prompt a low-confidence result gets.\<close>

datatype prompt = FastIsh | Slow | NoPrompt

definition rerun_prompt :: "label \<Rightarrow> prompt" where
  "rerun_prompt fit =
     (if str_includes fit ''O(1)'' \<or> str_includes fit ''O(log n)'' \<or>
         str_includes fit ''O(n)'' \<or> str_includes fit ''O(n log n)'' then FastIsh
      else if str_includes fit ''O(n^2)'' then Slow
      else NoPrompt)"

definition highPrecisionInputSizes :: "jsnum list" where
  "highPrecisionInputSizes = [JFin 10, JFin 1000, JFin 100000, JFin 10000000]"

text \<open>Lines 360--383: the offer of the "Super Range" rerun.\<close>

definition offer_rerun ::
  "'e algorithm \<Rightarrow> string \<Rightarrow> input_mode \<Rightarrow> complexity_result \<Rightarrow> console \<Rightarrow> env \<Rightarrow>
   (('e, complexity_result) analysis list \<times> env) option" where
  "offer_rerun algorithm selectedAlgoName inputMode initialComplexity c s =
     (if confidence initialComplexity \<le> 75 \<and> rerun_prompt (bestFit initialComplexity) \<noteq> NoPrompt
      then do { (key, c') \<leftarrow> read_yn c;
                if getYesNoFromConsole key
                then Some (apfst (\<lambda>a. [a])
                       (runAndDisplayAnalysis algorithm selectedAlgoName highPrecisionInputSizes inputMode s))
                else Some ([], s) }
      else Some ([], s))"

text \<open>
  Lines 357--383: the initial analysis, and the offer when it returned (an
  exception of the analysis is uncaught and ends the main).
\<close>

definition analyse_and_offer ::
  "'e algorithm \<Rightarrow> string \<Rightarrow> jsnum list \<Rightarrow> input_mode \<Rightarrow> console \<Rightarrow> env \<Rightarrow>
   (('e, complexity_result) analysis list \<times> env) option" where
  "analyse_and_offer algorithm selectedAlgoName inputSizes inputMode c s =
     (case runAndDisplayAnalysis algorithm selectedAlgoName inputSizes inputMode s of
        (Reported n ns dps initialComplexity, s') \<Rightarrow>
          map_option (apfst (Cons (Reported n ns dps initialComplexity)))
            (offer_rerun algorithm selectedAlgoName inputMode initialComplexity c s')
      | (a, s') \<Rightarrow> Some ([a], s'))"

text \<open>Lines 272--356.\<close>

definition main_cli2 ::
  "(string \<times> 'e js_function) list \<Rightarrow> (string \<Rightarrow> 'e js_value option) \<Rightarrow> console \<Rightarrow> env \<Rightarrow>
   (('e, complexity_result) analysis list \<times> env) option" where
  "main_cli2 algorithms load c s =
     do { (source, c1) \<leftarrow> ask_option sourceOptions c;
          case source of
            None \<Rightarrow> Some ([], s)
          | Some src \<Rightarrow>
              do { (selected, c2) \<leftarrow> (if src = ''Built-in Algorithms'' then select_builtin algorithms c1
                                      else load_custom load c1);
                   case selected of
                     None \<Rightarrow> Some ([], s)
                   | Some (selectedAlgoName, f, inputMode) \<Rightarrow>
                       (let algorithm = select_algorithm selectedAlgoName f
                        in do { (selectedStrategy, c3) \<leftarrow> ask_option growthStrategies c2;
                                case selectedStrategy of
                                  None \<Rightarrow> Some ([], s)
                                | Some strategy \<Rightarrow>
                                    do { (inputSizes, c4) \<leftarrow> select_input_sizes strategy c3;
                                         case inputSizes of
                                           None \<Rightarrow> Some ([], s)
                                         | Some sizes \<Rightarrow> analyse_and_offer algorithm selectedAlgoName sizes inputMode c4 s } }) } }"

section \<open>The built-in algorithms\<close>

text \<open>
  \<open>Object.keys(require('./test_algorithms'))\<close> (\<open>src/src/test_algorithms.js\<close>,
  lines 55--60), in export order.  As candidates of the benchmarker the four
  are alike: none throws (on an array, on a number, with or without a
  target) and none writes to its argument (\<open>TestAlgorithms\<close> has what
  they compute).
\<close>

definition algorithm_names :: "string list" where
  "algorithm_names = [''constantTime'', ''linearTime'', ''quadraticTime'', ''logarithmicTime'']"

definition builtin_algorithms :: "(string \<times> 'e js_function) list" where
  "builtin_algorithms = map (\<lambda>name. (name, \<lambda>_ x. (None, x))) algorithm_names"

declare read_key_def [model_defs] read_line_def [model_defs] read_yn_def [model_defs]
  truthy_string_def [model_defs] ask_option_def [model_defs] ask_number_def [model_defs]
  growthStrategies_def [model_defs] select_input_sizes_def [model_defs] js_size_def [model_defs]
  sizes_as_nat_def [model_defs] select_algorithm_def [model_defs] run_cli1_def [model_defs]
  runAndDisplayAnalysis_def [model_defs] main_cli1_def [model_defs] sourceOptions_def [model_defs]
  inputModeOptions_def [model_defs] is_function_value_def [model_defs]
  member_function_def [model_defs] choose_input_mode_def [model_defs] select_builtin_def [model_defs]
  load_custom_def [model_defs] rerun_prompt_def [model_defs]
  highPrecisionInputSizes_def [model_defs] offer_rerun_def [model_defs] analyse_and_offer_def [model_defs] main_cli2_def [model_defs]
  algorithm_names_def [model_defs] builtin_algorithms_def [model_defs]

section \<open>The loops end on every bound but \<open>+Infinity\<close>\<close>

lemma powers_loop_fin:
  "powers_loop (JFin m) i = Some (map (\<lambda>j. round_double (JFin (10 ^ j))) [i..<nat (\<lfloor>m\<rfloor> + 1)])"
proof (induction "nat (\<lfloor>m\<rfloor> + 1) - i" arbitrary: i)
  case 0
  then have "\<not> real i \<le> m" by linarith
  with 0 show ?case by (subst powers_loop.simps) simp
next
  case (Suc d)
  then have le: "real i \<le> m" and lt: "i < nat (\<lfloor>m\<rfloor> + 1)" by linarith+
  have "powers_loop (JFin m) (Suc i) =
          Some (map (\<lambda>j. round_double (JFin (10 ^ j))) [Suc i..<nat (\<lfloor>m\<rfloor> + 1)])"
    using Suc by simp
  then show ?case using le lt by (subst powers_loop.simps) (simp add: upt_conv_Cons)
qed

lemma powers_loop_nonfin: "m = JNaN \<or> m = JNegInf \<Longrightarrow> powers_loop m i = Some []"
  by (subst powers_loop.simps) (auto simp: js_le_def)

lemma doubling_loop_fin:
  "doubling_loop (JFin k) i current =
     Some (map (\<lambda>j. ((\<lambda>v. js_mul v (JFin 2)) ^^ j) current) [0..<nat \<lceil>k\<rceil> - i])"
proof (induction "nat \<lceil>k\<rceil> - i" arbitrary: i current)
  case 0
  then have "\<not> real i < k" by linarith
  with 0 show ?case by (subst doubling_loop.simps) simp
next
  case (Suc d)
  then have lt: "real i < k" by linarith
  have "nat \<lceil>k\<rceil> - i = Suc (nat \<lceil>k\<rceil> - Suc i)" using Suc(2) by linarith
  moreover have "doubling_loop (JFin k) (Suc i) (js_mul current (JFin 2)) =
     Some (map (\<lambda>j. ((\<lambda>v. js_mul v (JFin 2)) ^^ j) (js_mul current (JFin 2))) [0..<nat \<lceil>k\<rceil> - Suc i])"
    using Suc by simp
  ultimately show ?case using lt
    by (subst doubling_loop.simps) (simp add: map_upt_Suc funpow_Suc_right del: upt_Suc funpow.simps)
qed

lemma doubling_loop_nonfin: "k = JNaN \<or> k = JNegInf \<Longrightarrow> doubling_loop k i current = Some []"
  by (subst doubling_loop.simps) (auto simp: js_lt_def)

lemma linear_loop_fin:
  "linear_loop startSize stepSize (JFin k) i =
     Some (map (\<lambda>j. js_add startSize (js_mul (JFin (real j)) stepSize)) [i..<nat \<lceil>k\<rceil>])"
proof (induction "nat \<lceil>k\<rceil> - i" arbitrary: i)
  case 0
  then have "\<not> real i < k" by linarith
  with 0 show ?case by (subst linear_loop.simps) simp
next
  case (Suc d)
  then have lt: "real i < k" and lt': "i < nat \<lceil>k\<rceil>" by linarith+
  have "linear_loop startSize stepSize (JFin k) (Suc i) =
          Some (map (\<lambda>j. js_add startSize (js_mul (JFin (real j)) stepSize)) [Suc i..<nat \<lceil>k\<rceil>])"
    using Suc by simp
  then show ?case using lt lt' by (subst linear_loop.simps) (simp add: upt_conv_Cons)
qed

lemma linear_loop_nonfin: "k = JNaN \<or> k = JNegInf \<Longrightarrow> linear_loop startSize stepSize k i = Some []"
  by (subst linear_loop.simps) (auto simp: js_lt_def)

lemma powers_loop_ends: "m \<noteq> JPosInf \<Longrightarrow> powers_loop m i \<noteq> None"
  by (cases m) (simp_all add: powers_loop_fin powers_loop_nonfin)

lemma doubling_loop_ends: "k \<noteq> JPosInf \<Longrightarrow> doubling_loop k i current \<noteq> None"
  by (cases k) (simp_all add: doubling_loop_fin doubling_loop_nonfin)

lemma linear_loop_ends: "k \<noteq> JPosInf \<Longrightarrow> linear_loop startSize stepSize k i \<noteq> None"
  by (cases k) (simp_all add: linear_loop_fin linear_loop_nonfin)

lemma getNumberFromConsole_not_PosInf: "getNumberFromConsole userInput \<noteq> Some JPosInf"
  using getNumberFromConsole_cases [of userInput JPosInf] by auto

lemma ask_number_Cons: "lines c = l # ls \<Longrightarrow> ask_number c = Some (getNumberFromConsole l, c\<lparr>lines := ls\<rparr>)"
  by (simp add: ask_number_def read_line_def)

lemma no_PosInf_cases:
  obtains "getNumberFromConsole l = None" | v where "getNumberFromConsole l = Some v" "v \<noteq> JPosInf"
  using getNumberFromConsole_not_PosInf [of l] by (cases "getNumberFromConsole l") auto

section \<open>Properties of the size plans\<close>

text \<open>
  C17. The size-plan step of both mains always ends once the user has
  answered its questions: \<open>getNumberFromConsole\<close> never returns
  \<open>+Infinity\<close>, and each loop ends on every other bound, \<open>NaN\<close> included.
\<close>

theorem select_input_sizes_total:
  assumes "3 \<le> length (lines c)"
  shows "select_input_sizes selectedStrategy c \<noteq> None"
proof -
  obtain l1 l2 l3 ls where ls: "lines c = l1 # l2 # l3 # ls"
    using assms by (cases "lines c" rule: remdups_adj.cases) (auto simp: Suc_le_length_iff)
  show ?thesis
  proof (cases rule: no_PosInf_cases [of l1]; cases rule: no_PosInf_cases [of l2];
         cases rule: no_PosInf_cases [of l3])
  qed (use ls powers_loop_ends doubling_loop_ends linear_loop_ends in
        \<open>simp_all add: select_input_sizes_def ask_number_Cons bind_eq_None_conv
           del: not_None_eq split: option.splits\<close>)
qed

lemma select_input_sizes_total_witness:
  "select_input_sizes ''Doubling (100, 200, 400...)''
     \<lparr>keys = [], lines = [''100'', ''4'', ''''], yn_keys = []\<rparr> \<noteq> None"
  by (rule select_input_sizes_total) simp

section \<open>Lemmas on the mains\<close>

lemma ask_option_index:
  assumes "keys c = k # ks" "0 \<le> k" "k < int (length options)" "options ! nat k \<noteq> []"
  shows "ask_option options c = Some (Some (options ! nat k), c\<lparr>keys := ks\<rparr>)"
  using assms by (simp add: ask_option_def read_key_def getOptionFromConsole_def truthy_string_def)

lemma algorithm_names_ne: "0 \<le> k \<Longrightarrow> k < 4 \<Longrightarrow> algorithm_names ! nat k \<noteq> []"
proof -
  assume "0 \<le> k" "k < 4"
  then have "k = 0 \<or> k = 1 \<or> k = 2 \<or> k = 3" by arith
  then show ?thesis by (auto simp: algorithm_names_def)
qed

lemma builtin_keys: "map fst builtin_algorithms = algorithm_names"
  by (simp add: builtin_algorithms_def algorithm_names_def)

lemma powers_loop_below_one: "\<not> js_le 1 v \<Longrightarrow> powers_loop v (Suc 0) = Some []"
  by (subst powers_loop.simps) simp

lemma select_powers_empty:
  assumes "lines c = [maxPower]" "getNumberFromConsole maxPower = Some v" "\<not> js_le 1 v"
  shows "select_input_sizes ''Powers of 10 (10, 100, 1000...)'' c = Some (Some [], c\<lparr>lines := []\<rparr>)"
  using assms by (simp add: select_input_sizes_def ask_number_Cons powers_loop_below_one)

lemma runAndDisplayAnalysis_Nil:
  "runAndDisplayAnalysis algorithm selectedAlgoName [] inputMode s = (Crashed (Inr MeanOfEmpty), s)"
  by (simp add: runAndDisplayAnalysis_def sizes_as_nat_def runAnalysis_def determineComplexity_def
    ss_mean_def)

lemma determineComplexity_legacy_Nil:
  "determineComplexity_legacy [] =
     Inr \<lparr>lbestFit = ''O(log n) - Logarithmic'', lresults = map (\<lambda>t. \<lparr>ltype = t, r2 = 1\<rparr>) legacy_labels\<rparr>"
  by (simp add: determineComplexity_legacy_def getR2_def occam_legacy_def legacy_labels_def)

lemma run_cli1_Nil:
  "run_cli1 algorithm selectedAlgoName [] s =
     (Reported selectedAlgoName [] []
        \<lparr>lbestFit = ''O(log n) - Logarithmic'', lresults = map (\<lambda>t. \<lparr>ltype = t, r2 = 1\<rparr>) legacy_labels\<rparr>, s)"
  by (simp add: run_cli1_def sizes_as_nat_def runAnalysis_legacy_def determineComplexity_legacy_Nil)

lemma rerun_prompt_catalog:
  "fit \<in> set catalog_labels \<Longrightarrow>
   rerun_prompt fit = (if fit = ''O(n^2) - Quadratic'' then Slow else FastIsh)"
  by (auto simp: catalog_labels_def rerun_prompt_def str_includes_def sublist_code)

lemma sizes_as_nat_high: "sizes_as_nat highPrecisionInputSizes = Some [10, 1000, 100000, 10000000]"
  by (simp add: sizes_as_nat_def highPrecisionInputSizes_def js_size_def)

lemma runAndDisplayAnalysis_result:
  assumes "sizes_as_nat inputSizes = Some ns"
  shows "(\<exists>e. fst (runAndDisplayAnalysis algorithm selectedAlgoName inputSizes inputMode s) = Crashed e) \<or>
         (\<exists>dps r. fst (runAndDisplayAnalysis algorithm selectedAlgoName inputSizes inputMode s) =
                   Reported selectedAlgoName ns dps r)"
  using assms by (auto simp: runAndDisplayAnalysis_def split: sum.splits prod.splits)

lemma runAndDisplayAnalysis_name:
  "runAndDisplayAnalysis algorithm selectedAlgoName inputSizes inputMode s = (Reported n ns dps r, s') \<Longrightarrow>
   n = selectedAlgoName"
  by (auto simp: runAndDisplayAnalysis_def split: option.splits sum.splits prod.splits)

lemma offer_rerun_result:
  assumes "offer_rerun algorithm selectedAlgoName inputMode initialComplexity c s = Some (as, s')"
  shows "as = [] \<or>
         (confidence initialComplexity \<le> 75 \<and> rerun_prompt (bestFit initialComplexity) \<noteq> NoPrompt \<and>
          (\<exists>a. as = [a] \<and> ((\<exists>e. a = Crashed e) \<or>
                              (\<exists>dps r. a = Reported selectedAlgoName [10, 1000, 100000, 10000000] dps r))))"
proof -
  have run: "(\<exists>e. fst (runAndDisplayAnalysis algorithm selectedAlgoName highPrecisionInputSizes inputMode s) = Crashed e) \<or>
      (\<exists>dps r. fst (runAndDisplayAnalysis algorithm selectedAlgoName highPrecisionInputSizes inputMode s) =
                Reported selectedAlgoName [10, 1000, 100000, 10000000] dps r)"
    by (rule runAndDisplayAnalysis_result [OF sizes_as_nat_high])
  show ?thesis using assms run
    by (auto simp: offer_rerun_def bind_eq_Some_conv apfst_def map_prod_def split: if_splits prod.splits)
qed

lemma displayAnalysis_warning:
  "ReportLowConfidence \<in> set (displayAnalysis complexityResult graph) \<longleftrightarrow> confidence complexityResult \<le> 75"
  by (auto simp: displayAnalysis_def split: graph_outcome.splits)

text \<open>The high-precision rerun is only offered after the warning was printed.\<close>

lemma offer_rerun_after_warning:
  "\<lbrakk>offer_rerun algorithm selectedAlgoName inputMode r c s = Some (as, s'); as \<noteq> []\<rbrakk> \<Longrightarrow>
   ReportLowConfidence \<in> set (displayAnalysis r graph)"
  by (auto dest!: offer_rerun_result simp: displayAnalysis_warning)

lemma main_cli2_cases:
  assumes "main_cli2 algorithms load c s = Some (as, s')"
  shows "as = [] \<or>
         (\<exists>algorithm selectedAlgoName inputSizes inputMode c'.
            analyse_and_offer algorithm selectedAlgoName inputSizes inputMode c' s = Some (as, s'))"
  using assms by (auto simp: main_cli2_def bind_eq_Some_conv Let_def split: option.splits prod.splits)

section \<open>Properties of the mains\<close>

text \<open>
  C11. A plan with no size (max power 0 or negative, or \<open>Infinity\<close>, whose
  \<open>parseInt\<close> is \<open>NaN\<close>) reaches the benchmarker, which returns no sample,
  and \<open>determineComplexity\<close> throws in \<open>ss.mean\<close>: the current main dies
  with an uncaught exception, whichever built-in was chosen.
\<close>

theorem main_cli2_no_sizes_crash:
  assumes "0 \<le> k" "k < 4" "getNumberFromConsole maxPower = Some v" "\<not> js_le 1 v"
  shows "main_cli2 builtin_algorithms load \<lparr>keys = [0, k, 0], lines = [maxPower], yn_keys = ys\<rparr> s =
    Some ([Crashed (Inr MeanOfEmpty)], s)"
proof -
  have src: "ask_option sourceOptions \<lparr>keys = [0, k, 0], lines = [maxPower], yn_keys = ys\<rparr> =
      Some (Some ''Built-in Algorithms'', \<lparr>keys = [k, 0], lines = [maxPower], yn_keys = ys\<rparr>)"
    by (subst ask_option_index [where k = 0]) (simp_all add: sourceOptions_def)
  have alg: "ask_option (map fst builtin_algorithms) \<lparr>keys = [k, 0], lines = [maxPower], yn_keys = ys\<rparr> =
      Some (Some (algorithm_names ! nat k), \<lparr>keys = [0], lines = [maxPower], yn_keys = ys\<rparr>)"
    using assms(1,2) algorithm_names_ne [OF assms(1,2)]
    by (subst ask_option_index [where k = k]) (simp_all add: builtin_keys algorithm_names_def)
  have strat: "ask_option growthStrategies \<lparr>keys = [0], lines = [maxPower], yn_keys = ys\<rparr> =
      Some (Some ''Powers of 10 (10, 100, 1000...)'', \<lparr>keys = [], lines = [maxPower], yn_keys = ys\<rparr>)"
    by (subst ask_option_index [where k = 0]) (simp_all add: growthStrategies_def)
  have sizes: "select_input_sizes ''Powers of 10 (10, 100, 1000...)'' \<lparr>keys = [], lines = [maxPower], yn_keys = ys\<rparr> =
      Some (Some [], \<lparr>keys = [], lines = [], yn_keys = ys\<rparr>)"
    using assms(3,4) by (subst select_powers_empty) simp_all
  show ?thesis
    by (simp add: main_cli2_def src select_builtin_def alg strat sizes analyse_and_offer_def
      runAndDisplayAnalysis_Nil)
qed

lemma main_cli2_no_sizes_crash_witness:
  "main_cli2 (builtin_algorithms :: (string \<times> string js_function) list) (\<lambda>_. None)
     \<lparr>keys = [0, 1, 0], lines = [''Infinity''], yn_keys = []\<rparr> \<lparr>clock = \<lambda>i. real i, ticks = 0, calls = []\<rparr> =
   Some ([Crashed (Inr MeanOfEmpty)], \<lparr>clock = \<lambda>i. real i, ticks = 0, calls = []\<rparr>)"
  by (rule main_cli2_no_sizes_crash [where v = JNaN]) (simp_all add: model_defs)


text \<open>
  C31. The older main on the same empty plan does not fail: the older
  benchmarker returns no sample, every \<open>R^2\<close> of fewer than two points is 1,
  and the Occam checks report \<open>O(log n)\<close>, a classification measured on
  nothing.
\<close>

theorem main_cli1_no_sizes:
  assumes "0 \<le> k" "k < 4" "getNumberFromConsole maxPower = Some v" "\<not> js_le 1 v"
  shows "main_cli1 builtin_algorithms \<lparr>keys = [k, 0], lines = [maxPower], yn_keys = ys\<rparr> s =
    Some ([Reported (algorithm_names ! nat k) [] []
             \<lparr>lbestFit = ''O(log n) - Logarithmic'', lresults = map (\<lambda>t. \<lparr>ltype = t, r2 = 1\<rparr>) legacy_labels\<rparr>], s)"
proof -
  have alg: "ask_option (map fst builtin_algorithms) \<lparr>keys = [k, 0], lines = [maxPower], yn_keys = ys\<rparr> =
      Some (Some (algorithm_names ! nat k), \<lparr>keys = [0], lines = [maxPower], yn_keys = ys\<rparr>)"
    using assms(1,2) algorithm_names_ne [OF assms(1,2)]
    by (subst ask_option_index [where k = k]) (simp_all add: builtin_keys algorithm_names_def)
  have strat: "ask_option growthStrategies \<lparr>keys = [0], lines = [maxPower], yn_keys = ys\<rparr> =
      Some (Some ''Powers of 10 (10, 100, 1000...)'', \<lparr>keys = [], lines = [maxPower], yn_keys = ys\<rparr>)"
    by (subst ask_option_index [where k = 0]) (simp_all add: growthStrategies_def)
  have sizes: "select_input_sizes ''Powers of 10 (10, 100, 1000...)'' \<lparr>keys = [], lines = [maxPower], yn_keys = ys\<rparr> =
      Some (Some [], \<lparr>keys = [], lines = [], yn_keys = ys\<rparr>)"
    using assms(3,4) by (subst select_powers_empty) simp_all
  show ?thesis by (simp add: main_cli1_def alg strat sizes run_cli1_Nil)
qed

lemma main_cli1_no_sizes_witness:
  "main_cli1 (builtin_algorithms :: (string \<times> string js_function) list)
     \<lparr>keys = [3, 0], lines = [''0''], yn_keys = []\<rparr> \<lparr>clock = \<lambda>i. real i, ticks = 0, calls = []\<rparr> =
   Some ([Reported ''logarithmicTime'' [] []
            \<lparr>lbestFit = ''O(log n) - Logarithmic'', lresults = map (\<lambda>t. \<lparr>ltype = t, r2 = 1\<rparr>) legacy_labels\<rparr>],
         \<lparr>clock = \<lambda>i. real i, ticks = 0, calls = []\<rparr>)"
  using main_cli1_no_sizes [where k = 3 and v = "JFin 0" and maxPower = "''0''"]
  by (simp add: model_defs)


text \<open>
  C27. After a low-confidence result the current main always asks before
  the rerun: every label the classifier can report is "fast-ish" or slow
  (the quadratic one, with the warning about run time), none is neither.
\<close>

theorem rerun_prompt_classified:
  assumes "determineComplexity dataPoints = Inr r"
  shows "rerun_prompt (bestFit r) = (if bestFit r = ''O(n^2) - Quadratic'' then Slow else FastIsh)"
  using determineComplexity_bestFit_catalog [OF assms] by (rule rerun_prompt_catalog)

lemma rerun_prompt_classified_witness:
  "rerun_prompt (bestFit \<lparr>bestFit = ''O(1) - Constant'', confidence = 70, results = zip catalog_labels [0, 0, 0, 0, 0]\<rparr>) = FastIsh"
proof -
  have "determineComplexity [\<lparr>dp_n = 1, dp_time = 1\<rparr>] =
      Inr \<lparr>bestFit = ''O(1) - Constant'', confidence = 70, results = zip catalog_labels [0, 0, 0, 0, 0]\<rparr>"
    by (simp add: model_defs sublist_code)
  from rerun_prompt_classified [OF this] show ?thesis by simp
qed


text \<open>
  C4. The analysis step of the current main (lines 357--383, which
  \<open>main_cli2\<close> runs on the selected function) runs at most two analyses.
  A second one runs exactly when the first reported a confidence of at most
  75 with a rerun prompt and the user answered yes to \<open>keyInYN\<close>.  It is the
  same function, under the same name and input mode, measured on the
  "Super Range" \<open>highPrecisionInputSizes\<close> from the state the first run left
  (it may crash there), and its outcome is the main's.
\<close>

theorem analyse_and_offer_rerun:
  assumes "analyse_and_offer algorithm selectedAlgoName inputSizes inputMode c s = Some (as, s')"
  shows "length as \<le> 2 \<and>
    (length as = 2 \<longrightarrow>
       (\<exists>ns dps r s1 c'. runAndDisplayAnalysis algorithm selectedAlgoName inputSizes inputMode s =
            (Reported selectedAlgoName ns dps r, s1) \<and>
          confidence r \<le> 75 \<and> rerun_prompt (bestFit r) \<noteq> NoPrompt \<and> read_yn c = Some (KeyY, c') \<and>
          as = [Reported selectedAlgoName ns dps r,
                fst (runAndDisplayAnalysis algorithm selectedAlgoName highPrecisionInputSizes inputMode s1)] \<and>
          s' = snd (runAndDisplayAnalysis algorithm selectedAlgoName highPrecisionInputSizes inputMode s1))) \<and>
    ((\<exists>ns dps r s1 c'. runAndDisplayAnalysis algorithm selectedAlgoName inputSizes inputMode s =
            (Reported selectedAlgoName ns dps r, s1) \<and>
          confidence r \<le> 75 \<and> rerun_prompt (bestFit r) \<noteq> NoPrompt \<and> read_yn c = Some (KeyY, c')) \<longrightarrow>
       length as = 2)"
proof (cases "runAndDisplayAnalysis algorithm selectedAlgoName inputSizes inputMode s")
  case (Pair a s1)
  show ?thesis
  proof (cases a)
    case (Reported n ns dps r)
    then have n: "n = selectedAlgoName" using Pair runAndDisplayAnalysis_name by blast
    obtain rs where o: "offer_rerun algorithm selectedAlgoName inputMode r c s1 = Some (rs, s')"
      and as: "as = Reported n ns dps r # rs"
      using assms Pair Reported by (auto simp: analyse_and_offer_def apfst_def map_prod_def)
    from o show ?thesis using as n Pair Reported
      by (auto simp: offer_rerun_def bind_eq_Some_conv read_yn_def getYesNoFromConsole_def
          apfst_def map_prod_def split: if_splits list.splits prod.splits)
  qed (use assms Pair in \<open>auto simp: analyse_and_offer_def\<close>)
qed

lemma analyse_and_offer_rerun_witness:
  "(\<exists>s'. analyse_and_offer (\<lambda>x. (if x = Num 2 then None else Some ''too large'', x)) ''probe'' [JFin 2] NumberMode
      \<lparr>keys = [], lines = [], yn_keys = [KeyY]\<rparr> \<lparr>clock = \<lambda>i. 10 * real i, ticks = 0, calls = []\<rparr> =
      Some ([Reported ''probe'' [2] [\<lparr>dp_n = 2, dp_time = 10\<rparr>]
              \<lparr>bestFit = ''O(1) - Constant'', confidence = 70,
               results = [(''O(1) - Constant'', 0), (''O(log n) - Logarithmic'', 0), (''O(n) - Linear'', 0),
                          (''O(n log n) - Linear-ithmic'', 0), (''O(n^2) - Quadratic'', 0)]\<rparr>,
             Crashed (Inl (Thrown ''too large''))], s')) \<and>
   read_yn \<lparr>keys = [], lines = [], yn_keys = [KeyY]\<rparr> = Some (KeyY, \<lparr>keys = [], lines = [], yn_keys = []\<rparr>)"
proof -
  have "\<exists>s'. analyse_and_offer (\<lambda>x. (if x = Num 2 then None else Some ''too large'', x)) ''probe'' [JFin 2] NumberMode
      \<lparr>keys = [], lines = [], yn_keys = [KeyY]\<rparr> \<lparr>clock = \<lambda>i. 10 * real i, ticks = 0, calls = []\<rparr> =
      Some ([Reported ''probe'' [2] [\<lparr>dp_n = 2, dp_time = 10\<rparr>]
              \<lparr>bestFit = ''O(1) - Constant'', confidence = 70,
               results = [(''O(1) - Constant'', 0), (''O(log n) - Logarithmic'', 0), (''O(n) - Linear'', 0),
                          (''O(n log n) - Linear-ithmic'', 0), (''O(n^2) - Quadratic'', 0)]\<rparr>,
             Crashed (Inl (Thrown ''too large''))], s')"
    by (simp add: analyse_and_offer_def offer_rerun_def read_yn_def getYesNoFromConsole_def
        highPrecisionInputSizes_def rerun_prompt_def runAndDisplayAnalysis_def sizes_as_nat_def js_size_def
        runAnalysis_Cons run_calls_Num run_calls_numeral call_algorithm_def measure_size_cases calibrate.simps
        call_algorithm_Num now_def batch_size_def measure_once_def Let_def ss_mean_def measure_loop_numeral
        model_defs sublist_code)
  then obtain s' where r: "analyse_and_offer (\<lambda>x. (if x = Num 2 then None else Some ''too large'', x)) ''probe'' [JFin 2] NumberMode
      \<lparr>keys = [], lines = [], yn_keys = [KeyY]\<rparr> \<lparr>clock = \<lambda>i. 10 * real i, ticks = 0, calls = []\<rparr> =
      Some ([Reported ''probe'' [2] [\<lparr>dp_n = 2, dp_time = 10\<rparr>]
              \<lparr>bestFit = ''O(1) - Constant'', confidence = 70,
               results = [(''O(1) - Constant'', 0), (''O(log n) - Logarithmic'', 0), (''O(n) - Linear'', 0),
                          (''O(n log n) - Linear-ithmic'', 0), (''O(n^2) - Quadratic'', 0)]\<rparr>,
             Crashed (Inl (Thrown ''too large''))], s')" ..
  from analyse_and_offer_rerun [OF r] have
    "read_yn \<lparr>keys = [], lines = [], yn_keys = [KeyY]\<rparr> = Some (KeyY, \<lparr>keys = [], lines = [], yn_keys = []\<rparr>)"
    by (auto simp: read_yn_def)
  with r show ?thesis by blast
qed

end
