(* ===== verification/Scripts.thy ===== *)
theory Scripts
  imports Facade Cli
begin

text \<open>
  The two non-interactive verification scripts.  \<open>src/verifyAlg.js\<close> (lines
  1--65) runs \<open>runSingleAnalysis\<close> (\<open>Facade\<close>) on every built-in under two
  standard size plans, and under the high-precision plan for the two fast
  ones, and tabulates \<open>formatResult\<close> of each result; an exception of any
  run ends the script through \<open>main().catch\<close> before the table is printed.
  \<open>src/src/verify_all_algos.js\<close> (lines 1--61) runs \<open>runAnalysis\<close> and
  \<open>determineComplexity\<close> of \<open>./calculator\<close> on four tests, counts the tests
  whose best fit is the expected label (an exception counts as a failure)
  and exits with 0 when all pass, 1 otherwise.  The repository has no
  \<open>src/src/calculator.js\<close>, so the script is modelled over the calculator
  it is given (\<open>detector\<close>): the current one (\<open>detect_current\<close>) or the
  older one (\<open>detect_legacy\<close>).  After an exception the model continues
  from the state before the failed run.  What the scripts print is not
  modelled beyond the table's strings.
\<close>

section \<open>verifyAlg.js\<close>

definition standardStrategies :: "(string \<times> nat list) list" where
  "standardStrategies = [(''Standard Powers of 10'', [10, 100, 1000, 10000]),
                         (''Standard Linear'', [2000, 4000, 6000, 8000])]"

definition highPrecisionStrategy :: "string \<times> nat list" where
  "highPrecisionStrategy = (''High-Precision'', [10, 1000, 100000, 10000000])"

definition SLOW_ALGO_THRESHOLD :: nat where
  "SLOW_ALGO_THRESHOLD = 8001"

text \<open>
  Lines 17--23: the first space-separated word of the label, then the
  confidence when it is at most 75.  The confidence is an integer
  (\<open>Math.round\<close>), printed by \<open>string_of_int\<close>.
\<close>

definition formatResult :: "complexity_result \<Rightarrow> string" where
  "formatResult complexityResult =
     (let resultString = takeWhile (\<lambda>c. c \<noteq> CHR '' '') (bestFit complexityResult)
      in if confidence complexityResult \<le> 75
         then resultString @ '' (Conf: '' @ string_of_int (confidence complexityResult) @ ''%)''
         else resultString)"

text \<open>Lines 39--49: the standard plans in order, the quadratic one filtered.\<close>

fun run_strategies ::
  "'e algorithm \<Rightarrow> string \<Rightarrow> (string \<times> nat list) list \<Rightarrow> env \<Rightarrow>
   'e analysis_error + (string \<times> string) list \<times> env" where
  "run_strategies algorithmToTest algoName [] s = Inr ([], s)"
| "run_strategies algorithmToTest algoName ((strategyName, sizes) # rest) s =
     (let inputSizes = (if algoName = ''quadraticTime''
                        then filter (\<lambda>size. size < SLOW_ALGO_THRESHOLD) sizes else sizes)
      in case runSingleAnalysis_default algorithmToTest inputSizes s of
           Inl err \<Rightarrow> Inl err
         | Inr (complexityResult, s1) \<Rightarrow>
             (case run_strategies algorithmToTest algoName rest s1 of
                Inl err \<Rightarrow> Inl err
              | Inr (row, s2) \<Rightarrow> Inr ((strategyName, formatResult complexityResult) # row, s2)))"

text \<open>Lines 30--58: one algorithm's row.\<close>

definition verify_algorithm ::
  "string \<Rightarrow> 'e js_function \<Rightarrow> env \<Rightarrow> 'e analysis_error + (string \<times> string) list \<times> env" where
  "verify_algorithm algoName f s =
     (let algorithmToTest = select_algorithm algoName f
      in case run_strategies algorithmToTest algoName standardStrategies s of
           Inl err \<Rightarrow> Inl err
         | Inr (row, s1) \<Rightarrow>
             if algoName \<in> set [''constantTime'', ''logarithmicTime''] then
               (case runSingleAnalysis_default algorithmToTest (snd highPrecisionStrategy) s1 of
                  Inl err \<Rightarrow> Inl err
                | Inr (hpComplexity, s2) \<Rightarrow>
                    Inr (row @ [(fst highPrecisionStrategy, formatResult hpComplexity)], s2))
             else Inr (row, s1))"

text \<open>Lines 25--63: the rows of \<open>finalResults\<close>, in the order of \<open>Object.keys(algorithms)\<close>.\<close>

fun verify_main ::
  "(string \<times> 'e js_function) list \<Rightarrow> env \<Rightarrow>
   'e analysis_error + (string \<times> (string \<times> string) list) list \<times> env" where
  "verify_main [] s = Inr ([], s)"
| "verify_main ((algoName, f) # rest) s =
     (case verify_algorithm algoName f s of
        Inl err \<Rightarrow> Inl err
      | Inr (row, s1) \<Rightarrow>
          (case verify_main rest s1 of
             Inl err \<Rightarrow> Inl err
           | Inr (finalResults, s2) \<Rightarrow> Inr ((algoName, row) # finalResults, s2)))"

section \<open>verify_all_algos.js\<close>

record 'e vtest =
  vname :: string
  vfn :: "'e algorithm"
  vexpected :: label
  vinputs :: "nat list"

text \<open>Lines 4--29; \<open>logarithmicTime\<close> is wrapped to search for \<open>-1\<close>.\<close>

definition verify_tests :: "(string \<times> 'e js_function) list \<Rightarrow> 'e vtest list" where
  "verify_tests algorithms =
     [\<lparr>vname = ''constantTime'', vfn = the (map_of algorithms ''constantTime'') None,
       vexpected = ''O(1) - Constant'', vinputs = [1000, 10000, 100000, 1000000, 5000000]\<rparr>,
      \<lparr>vname = ''linearTime'', vfn = the (map_of algorithms ''linearTime'') None,
       vexpected = ''O(n) - Linear'', vinputs = [1000, 10000, 100000, 1000000, 2000000]\<rparr>,
      \<lparr>vname = ''quadraticTime'', vfn = the (map_of algorithms ''quadraticTime'') None,
       vexpected = ''O(n^2) - Quadratic'', vinputs = [100, 200, 500, 1000, 1500]\<rparr>,
      \<lparr>vname = ''logarithmicTime'', vfn = the (map_of algorithms ''logarithmicTime'') (Some (-1)),
       vexpected = ''O(log n) - Logarithmic'', vinputs = [1000, 10000, 100000, 1000000, 10000000]\<rparr>]"

text \<open>
  Line 35--36 with either calculator: the samples of \<open>runAnalysis(fn, inputs, 10)\<close>
  (array mode, the default) and the best fit of \<open>determineComplexity\<close>, or
  the exception of either.
\<close>

type_synonym 'e detector = "'e algorithm \<Rightarrow> nat list \<Rightarrow> env \<Rightarrow> ('e bench_error + cerror) + label \<times> env"

definition detect_current :: "'e detector" where
  "detect_current algorithm inputs s =
     (case runAnalysis algorithm inputs 10 ArrayMode s of
        Inl err \<Rightarrow> Inl (Inl err)
      | Inr (data, s1) \<Rightarrow>
          (case determineComplexity data of
             Inl err \<Rightarrow> Inl (Inr err)
           | Inr result \<Rightarrow> Inr (bestFit result, s1)))"

definition detect_legacy :: "'e detector" where
  "detect_legacy algorithm inputs s =
     (case runAnalysis_legacy algorithm inputs 10 s of
        Inl err \<Rightarrow> Inl (Inl err)
      | Inr (data, s1) \<Rightarrow>
          (case determineComplexity_legacy data of
             Inl err \<Rightarrow> Inl (Inr err)
           | Inr result \<Rightarrow> Inr (lbestFit result, s1)))"

text \<open>Lines 30--51: the count of passed tests.\<close>

fun verify_loop :: "'e detector \<Rightarrow> 'e vtest list \<Rightarrow> env \<Rightarrow> nat \<times> env" where
  "verify_loop detect [] s = (0, s)"
| "verify_loop detect (test # tests) s =
     (case detect (vfn test) (vinputs test) s of
        Inl _ \<Rightarrow> verify_loop detect tests s
      | Inr (detected, s1) \<Rightarrow>
          (let (passed, s2) = verify_loop detect tests s1
           in ((if detected = vexpected test then 1 else 0) + passed, s2)))"

text \<open>Lines 52--58: the exit code.\<close>

definition verify :: "'e detector \<Rightarrow> (string \<times> 'e js_function) list \<Rightarrow> env \<Rightarrow> nat \<times> env" where
  "verify detect algorithms s =
     (let tests = verify_tests algorithms;
          (passed, s') = verify_loop detect tests s
      in (if passed = length tests then 0 else 1, s'))"

declare standardStrategies_def [model_defs] highPrecisionStrategy_def [model_defs]
  SLOW_ALGO_THRESHOLD_def [model_defs] formatResult_def [model_defs]
  verify_algorithm_def [model_defs] verify_tests_def [model_defs] detect_current_def [model_defs]
  detect_legacy_def [model_defs] verify_def [model_defs]

section \<open>Lemmas\<close>

lemma formatResult_token:
  "fit \<in> set catalog_labels \<Longrightarrow>
   takeWhile (\<lambda>c. c \<noteq> CHR '' '') fit =
     the (map_of (zip catalog_labels [''O(1)'', ''O(log'', ''O(n)'', ''O(n'', ''O(n^2)'']) fit)"
  by (auto simp: catalog_labels_def)

end
