(* ===== verification/Frontend.thy ===== *)
theory Frontend
  imports Prelude
begin

text \<open>
  The React front end \<open>src/web-frontend/src/App.js\<close>: the form state
  (\<open>initialState\<close>, lines 16--32), its \<open>reducer\<close> (lines 34--52), the
  size plans and the request of \<open>handleSubmit\<close> (lines 78--123), and an
  abstract model of the page's runs, \<open>app_step\<close>: any field edit at any time,
  a submit only when idle, a reply only while loading.  The rendered page,
  whose runs refine \<open>app_step\<close>, is in \<open>Page\<close>.  \<open>SET_FIELD\<close> writes one field; the page
  writes the form fields and \<open>isBigOVisible\<close> (the "click to reveal" of line
  282), never \<open>result\<close>, \<open>error\<close> or \<open>isLoading\<close>, so a field update is a
  constructor per field the page writes.  The numeric fields hold
  \<open>parseInt\<close> of an integer input, an \<open>int\<close>; the \<open>NaN\<close> of an emptied field
  is not modelled.  \<open>Array.from({length: k}, f)\<close> makes \<open>max k 0\<close> elements.
  The loop \<open>for (let i = linearStart; i <= linearEnd; i += linearStep)\<close> does
  not end when the step is not positive, so it runs on fuel: \<open>None\<close> is a
  page that hangs.  The server's response is an outcome the model is given.
\<close>

record payload =
  bigO :: string
  p_confidence :: real
  p_rmse :: real

record app_state =
  code :: string
  algoName :: string
  inputMode :: string
  growthStrategy :: string
  useSuperRange :: bool
  powersOf10Count :: int
  doublingStart :: int
  doublingCount :: int
  linearStart :: int
  linearEnd :: int
  linearStep :: int
  result :: "payload option"
  error :: "string option"
  isLoading :: bool
  isBigOVisible :: bool

datatype field_update =
    SetCode string | SetAlgoName string | SetInputMode string | SetGrowthStrategy string
  | SetUseSuperRange bool | SetPowersOf10Count int | SetDoublingStart int | SetDoublingCount int
  | SetLinearStart int | SetLinearEnd int | SetLinearStep int | SetIsBigOVisible bool

datatype action =
    SET_FIELD field_update
  | START_ANALYSIS
  | ANALYSIS_SUCCESS payload
  | ANALYSIS_ERROR "string option"
  | OTHER_ACTION string

definition functionTemplate :: string where
  "functionTemplate = ''/**\<newline>* Paste your algorithm here.\<newline>* Function name MUST be 'functionToTest'.\<newline>*/\<newline>function functionToTest(input) {\<newline>  // Your code here\<newline>}''"

definition initialState :: app_state where
  "initialState =
     \<lparr>code = functionTemplate, algoName = [], inputMode = ''array'', growthStrategy = ''powersOf10'',
      useSuperRange = False, powersOf10Count = 4, doublingStart = 1, doublingCount = 10,
      linearStart = 100, linearEnd = 1000, linearStep = 100, result = None, error = None,
      isLoading = False, isBigOVisible = False\<rparr>"

primrec set_field :: "app_state \<Rightarrow> field_update \<Rightarrow> app_state" where
  "set_field s (SetCode v) = s\<lparr>code := v\<rparr>"
| "set_field s (SetAlgoName v) = s\<lparr>algoName := v\<rparr>"
| "set_field s (SetInputMode v) = s\<lparr>inputMode := v\<rparr>"
| "set_field s (SetGrowthStrategy v) = s\<lparr>growthStrategy := v\<rparr>"
| "set_field s (SetUseSuperRange v) = s\<lparr>useSuperRange := v\<rparr>"
| "set_field s (SetPowersOf10Count v) = s\<lparr>powersOf10Count := v\<rparr>"
| "set_field s (SetDoublingStart v) = s\<lparr>doublingStart := v\<rparr>"
| "set_field s (SetDoublingCount v) = s\<lparr>doublingCount := v\<rparr>"
| "set_field s (SetLinearStart v) = s\<lparr>linearStart := v\<rparr>"
| "set_field s (SetLinearEnd v) = s\<lparr>linearEnd := v\<rparr>"
| "set_field s (SetLinearStep v) = s\<lparr>linearStep := v\<rparr>"
| "set_field s (SetIsBigOVisible v) = s\<lparr>isBigOVisible := v\<rparr>"

fun reducer :: "app_state \<Rightarrow> action \<Rightarrow> app_state" where
  "reducer s (SET_FIELD f) = set_field s f"
| "reducer s START_ANALYSIS = s\<lparr>isLoading := True, error := None, result := None\<rparr>"
| "reducer s (ANALYSIS_SUCCESS p) =
     s\<lparr>isLoading := False, result := Some p, isBigOVisible := 75 \<le> p_confidence p\<rparr>"
| "reducer s (ANALYSIS_ERROR e) = s\<lparr>isLoading := False, error := e\<rparr>"
| "reducer s (OTHER_ACTION _) = s"

section \<open>Size plans\<close>

definition js_array_from :: "int \<Rightarrow> (nat \<Rightarrow> int) \<Rightarrow> int list" where
  "js_array_from len f = map f [0..<nat len]"

fun linear_sizes :: "nat \<Rightarrow> int \<Rightarrow> int \<Rightarrow> int \<Rightarrow> int list option" where
  "linear_sizes 0 i lEnd lStep = None"
| "linear_sizes (Suc fuel) i lEnd lStep =
     (if i \<le> lEnd
      then map_option (Cons i) (linear_sizes fuel (i + lStep) lEnd lStep)
      else Some [])"

definition input_sizes :: "nat \<Rightarrow> app_state \<Rightarrow> int list option" where
  "input_sizes fuel s =
     (if useSuperRange s then Some (js_array_from 100 (\<lambda>i. (int i + 1) * 10))
      else if growthStrategy s = ''powersOf10''
        then Some (js_array_from (powersOf10Count s) (\<lambda>i. 10 ^ (i + 1)))
      else if growthStrategy s = ''doubling''
        then Some (js_array_from (doublingCount s) (\<lambda>i. doublingStart s * 2 ^ i))
      else if growthStrategy s = ''linear''
        then linear_sizes fuel (linearStart s) (linearEnd s) (linearStep s)
      else Some [10, 100, 1000, 10000])"

section \<open>Submitting the form\<close>

record request =
  req_code :: string
  req_algoName :: string
  req_inputMode :: string
  req_inputSizes :: "int list"

datatype fetch_outcome = ResponseOk payload | ResponseNotOk "string option" | ConnectFailed

text \<open>
  \<open>handleSubmit\<close>: \<open>START_ANALYSIS\<close>, the size plan, the request, and the action
  the response leads to.  The result is the request sent and the final state, or
  \<open>None\<close> if the size loop does not end within the fuel.
\<close>

text \<open>Lines 113--121: the action the outcome of the request leads to.\<close>

definition response_action :: "fetch_outcome \<Rightarrow> action" where
  "response_action outcome =
     (case outcome of
        ResponseOk data \<Rightarrow> ANALYSIS_SUCCESS data
      | ResponseNotOk e \<Rightarrow> ANALYSIS_ERROR e
      | ConnectFailed \<Rightarrow> ANALYSIS_ERROR (Some ''Failed to connect to the server.''))"

definition handleSubmit ::
  "nat \<Rightarrow> fetch_outcome \<Rightarrow> app_state \<Rightarrow> (request \<times> app_state) option" where
  "handleSubmit fuel outcome s =
     (let s1 = reducer s START_ANALYSIS
      in case input_sizes fuel s1 of
           None \<Rightarrow> None
         | Some inputSizes \<Rightarrow>
             (let req = \<lparr>req_code = code s1, req_algoName = algoName s1,
                         req_inputMode = inputMode s1, req_inputSizes = inputSizes\<rparr>
              in Some (req, reducer s1 (response_action outcome))))"

section \<open>Runs of the page\<close>

text \<open>
  The abstract model of the page's runs, the specification the rendered page
  (\<open>Page.ui_step\<close>) is shown to refine: a field edit at any time;
  \<open>START_ANALYSIS\<close> only from a page that is not loading; the response's
  action only while loading.
\<close>

inductive app_step :: "app_state \<Rightarrow> app_state \<Rightarrow> bool" where
  edit: "app_step s (reducer s (SET_FIELD f))"
| submit: "\<not> isLoading s \<Longrightarrow> app_step s (reducer s START_ANALYSIS)"
| success: "isLoading s \<Longrightarrow> app_step s (reducer s (ANALYSIS_SUCCESS p))"
| failure: "isLoading s \<Longrightarrow> app_step s (reducer s (ANALYSIS_ERROR e))"

inductive app_reachable :: "app_state \<Rightarrow> bool" where
  init: "app_reachable initialState"
| step: "app_reachable s \<Longrightarrow> app_step s t \<Longrightarrow> app_reachable t"

text \<open>
  The invariant of the page: while loading there is neither a result nor an
  error on display, and never both at once.
\<close>

definition app_inv :: "app_state \<Rightarrow> bool" where
  "app_inv s \<longleftrightarrow> (isLoading s \<longrightarrow> result s = None \<and> error s = None) \<and> (result s = None \<or> error s = None)"

text \<open>
  The closed form of the linear plan for a positive step: \<open>start, start + step,
  \<dots>\<close> up to \<open>end\<close>.
\<close>

definition linear_count :: "int \<Rightarrow> int \<Rightarrow> int \<Rightarrow> nat" where
  "linear_count i lEnd lStep = (if i \<le> lEnd then nat ((lEnd - i) div lStep) + 1 else 0)"

definition linear_ref :: "int \<Rightarrow> int \<Rightarrow> int \<Rightarrow> int list" where
  "linear_ref i lEnd lStep = map (\<lambda>k. i + int k * lStep) [0..<linear_count i lEnd lStep]"

declare initialState_def [model_defs] js_array_from_def [model_defs] input_sizes_def [model_defs]
  handleSubmit_def [model_defs] response_action_def [model_defs] app_inv_def [model_defs]

section \<open>Lemmas\<close>

inductive_cases app_stepE: "app_step s t"

lemma linear_count_step:
  assumes "0 < lStep" "i \<le> lEnd"
  shows "linear_count i lEnd lStep = Suc (linear_count (i + lStep) lEnd lStep)"
proof (cases "i + lStep \<le> lEnd")
  case True
  have "(lEnd - i) div lStep = (lEnd - (i + lStep)) div lStep + 1"
    using div_add_self2 [of lStep "lEnd - (i + lStep)"] assms(1) by simp
  moreover have "0 \<le> (lEnd - (i + lStep)) div lStep"
    using True assms(1) by (simp add: pos_imp_zdiv_nonneg_iff)
  ultimately show ?thesis using True assms(2) by (simp add: linear_count_def nat_add_distrib)
next
  case False
  then have "(lEnd - i) div lStep = 0" using assms by (simp add: div_pos_pos_trivial)
  with False assms(2) show ?thesis by (simp add: linear_count_def)
qed

lemma linear_ref_step:
  assumes "0 < lStep" "i \<le> lEnd"
  shows "linear_ref i lEnd lStep = i # linear_ref (i + lStep) lEnd lStep"
proof -
  have u: "\<And>c. [0..<Suc c] = 0 # map Suc [0..<c]"
    by (simp add: map_Suc_upt upt_conv_Cons del: upt_Suc)
  show ?thesis
    unfolding linear_ref_def linear_count_step [OF assms] u
    by (simp add: comp_def algebra_simps del: upt_Suc)
qed

lemma linear_sizes_enough:
  "\<lbrakk>0 < lStep; linear_count i lEnd lStep < fuel\<rbrakk> \<Longrightarrow>
   linear_sizes fuel i lEnd lStep = Some (linear_ref i lEnd lStep)"
proof (induction fuel arbitrary: i)
  case (Suc fuel)
  show ?case
  proof (cases "i \<le> lEnd")
    case True
    with Suc.prems have "linear_count (i + lStep) lEnd lStep < fuel"
      by (simp add: linear_count_step)
    with Suc.IH Suc.prems(1) True show ?thesis by (simp add: linear_ref_step)
  qed (simp add: linear_ref_def linear_count_def)
qed simp

lemma linear_sizes_hang: "\<lbrakk>lStep \<le> 0; i \<le> lEnd\<rbrakk> \<Longrightarrow> linear_sizes fuel i lEnd lStep = None"
  by (induction fuel arbitrary: i) simp_all

lemma app_step_inv: "app_step s t \<Longrightarrow> app_inv s \<Longrightarrow> app_inv t"
proof (induction rule: app_step.induct)
  case (edit s f)
  then show ?case by (cases f) (simp_all add: app_inv_def)
qed (auto simp: app_inv_def)


lemma input_sizes_start:
  "input_sizes fuel (s\<lparr>isLoading := b, error := e, result := r\<rparr>) = input_sizes fuel s"
  by (simp add: input_sizes_def)

lemma linear_sizes_Some:
  "linear_sizes fuel i lEnd lStep = Some xs \<Longrightarrow> sorted_wrt (<) xs \<and> (\<forall>x \<in> set xs. i \<le> x)"
proof (induction fuel arbitrary: i xs)
  case (Suc fuel)
  show ?case
  proof (cases "i \<le> lEnd")
    case True
    with Suc.prems obtain ys where ys: "linear_sizes fuel (i + lStep) lEnd lStep = Some ys"
      and xs: "xs = i # ys" by auto
    have "0 < lStep"
    proof (rule ccontr)
      assume "\<not> 0 < lStep"
      with True have "linear_sizes fuel (i + lStep) lEnd lStep = None"
        by (intro linear_sizes_hang) simp_all
      with ys show False by simp
    qed
    with Suc.IH [OF ys] xs show ?thesis by fastforce
  next
    case False
    with Suc.prems show ?thesis by auto
  qed
qed simp

lemma sorted_map_upt: "strict_mono f \<Longrightarrow> sorted_wrt (<) (map f [0..<n])"
  by (induction n) (auto simp: sorted_wrt_append strict_mono_less)

lemma js_array_from_valid:
  "\<lbrakk>strict_mono f; \<And>i. 0 < f i\<rbrakk> \<Longrightarrow> sorted_wrt (<) (js_array_from k f) \<and> (\<forall>x \<in> set (js_array_from k f). 0 < x)"
  by (simp add: js_array_from_def sorted_map_upt)

section \<open>Properties of the front end\<close>

text \<open>
  C36. With a positive step the linear plan ends, given one unit of fuel more
  than the number of sizes, and is \<open>start, start + step, \<dots>\<close> up to \<open>end\<close>.
\<close>

theorem input_sizes_linear:
  assumes "\<not> useSuperRange s" "growthStrategy s = ''linear''" "0 < linearStep s"
    and "linear_count (linearStart s) (linearEnd s) (linearStep s) < fuel"
  shows "input_sizes fuel s = Some (linear_ref (linearStart s) (linearEnd s) (linearStep s))"
  using assms by (simp add: input_sizes_def linear_sizes_enough)

lemma input_sizes_linear_witness:
  "input_sizes 11 (initialState\<lparr>growthStrategy := ''linear''\<rparr>) = Some (linear_ref 100 1000 100)"
  using input_sizes_linear [of "initialState\<lparr>growthStrategy := ''linear''\<rparr>" 11]
  by (simp add: initialState_def linear_count_def)

text \<open>
  C37. With a step that is not positive and \<open>linearStart <= linearEnd\<close>, the
  loop of \<open>handleSubmit\<close> never ends: for every amount of fuel no request is
  sent and the page hangs in its loading state.
\<close>

theorem handleSubmit_linear_hangs:
  assumes "\<not> useSuperRange s" "growthStrategy s = ''linear''" "linearStep s \<le> 0"
    and "linearStart s \<le> linearEnd s"
  shows "handleSubmit fuel outcome s = None"
  using assms by (simp add: handleSubmit_def input_sizes_start input_sizes_def linear_sizes_hang)

lemma handleSubmit_linear_hangs_witness:
  "handleSubmit 1000 ConnectFailed (initialState\<lparr>growthStrategy := ''linear'', linearStep := 0\<rparr>) = None"
  by (rule handleSubmit_linear_hangs) (simp_all add: initialState_def)

text \<open>
  C38. In every state the page can reach, nothing is on display while it
  loads, and a result and an error are never displayed together.
\<close>

theorem app_reachable_inv: "app_reachable s \<Longrightarrow> app_inv s"
proof (induction rule: app_reachable.induct)
  case init
  show ?case by (simp add: app_inv_def initialState_def)
next
  case (step s t)
  from step.hyps(2) step.IH show ?case by (rule app_step_inv)
qed

lemma app_reachable_inv_witness:
  "app_reachable (reducer initialState START_ANALYSIS) \<and> app_inv (reducer initialState START_ANALYSIS)"
proof -
  have r: "app_reachable (reducer initialState START_ANALYSIS)"
    by (rule app_reachable.step [OF app_reachable.init]) (rule app_step.submit, simp add: initialState_def)
  from r app_reachable_inv [OF r] show ?thesis by simp
qed

text \<open>
  C39. A submit from a reachable idle page is a run of the page (the
  \<open>START_ANALYSIS\<close> step, then the response's): it ends idle, having sent the
  plan of the form, showing the result (its label visible exactly when the
  confidence is at least 75) or the error.  A failed response without an
  \<open>error\<close> field leaves neither on display.
\<close>

theorem handleSubmit_run:
  assumes "app_reachable s" "\<not> isLoading s" "handleSubmit fuel outcome s = Some (req, s')"
  shows "app_reachable s' \<and> \<not> isLoading s' \<and> input_sizes fuel s = Some (req_inputSizes req) \<and>
    (case outcome of
       ResponseOk p \<Rightarrow> result s' = Some p \<and> error s' = None \<and> (isBigOVisible s' \<longleftrightarrow> 75 \<le> p_confidence p)
     | ResponseNotOk e \<Rightarrow> result s' = None \<and> error s' = e
     | ConnectFailed \<Rightarrow> result s' = None \<and> error s' = Some ''Failed to connect to the server.'')"
proof -
  define s1 where "s1 = reducer s START_ANALYSIS"
  have r1: "app_reachable s1"
    unfolding s1_def using assms(1,2) by (blast intro: app_reachable.step app_step.submit)
  obtain sizes where sz: "input_sizes fuel s = Some sizes"
    using assms(3) by (cases "input_sizes fuel s") (simp_all add: handleSubmit_def input_sizes_start Let_def)
  define act where "act = response_action outcome"
  have eq: "s' = reducer s1 act" "req_inputSizes req = sizes"
    using assms(3) sz by (auto simp: handleSubmit_def input_sizes_start Let_def s1_def act_def)
  have l: "isLoading s1" by (simp add: s1_def)
  have "app_step s1 (reducer s1 act)"
  proof (cases outcome)
    case (ResponseOk p)
    then show ?thesis unfolding act_def response_action_def using app_step.success [OF l, of p] by simp
  next
    case (ResponseNotOk e)
    then show ?thesis unfolding act_def response_action_def using app_step.failure [OF l, of e] by simp
  next
    case ConnectFailed
    then show ?thesis unfolding act_def response_action_def
      using app_step.failure [OF l, of "Some ''Failed to connect to the server.''"] by simp
  qed
  then have "app_step s1 s'" using eq by simp
  with r1 have "app_reachable s'" by (rule app_reachable.step)
  moreover have "result s1 = None" "error s1 = None" by (simp_all add: s1_def)
  ultimately show ?thesis using sz unfolding eq act_def response_action_def by (cases outcome) simp_all
qed

lemma handleSubmit_run_witness:
  "handleSubmit 0 (ResponseOk \<lparr>bigO = ''O(n)'', p_confidence = 80, p_rmse = 0\<rparr>) initialState =
     Some (\<lparr>req_code = functionTemplate, req_algoName = [], req_inputMode = ''array'',
             req_inputSizes = [10, 100, 1000, 10000]\<rparr>,
           initialState\<lparr>result := Some \<lparr>bigO = ''O(n)'', p_confidence = 80, p_rmse = 0\<rparr>,
                        isBigOVisible := True\<rparr>) \<and>
   result (initialState\<lparr>result := Some \<lparr>bigO = ''O(n)'', p_confidence = 80, p_rmse = 0\<rparr>,
                        isBigOVisible := True\<rparr>) = Some \<lparr>bigO = ''O(n)'', p_confidence = 80, p_rmse = 0\<rparr>"
proof
  show h: "handleSubmit 0 (ResponseOk \<lparr>bigO = ''O(n)'', p_confidence = 80, p_rmse = 0\<rparr>) initialState =
     Some (\<lparr>req_code = functionTemplate, req_algoName = [], req_inputMode = ''array'',
             req_inputSizes = [10, 100, 1000, 10000]\<rparr>,
           initialState\<lparr>result := Some \<lparr>bigO = ''O(n)'', p_confidence = 80, p_rmse = 0\<rparr>,
                        isBigOVisible := True\<rparr>)"
    by (simp add: handleSubmit_def response_action_def input_sizes_def initialState_def
        js_array_from_def Let_def upt_rec numeral_eq_Suc)
  have "app_reachable initialState" by (rule app_reachable.init)
  moreover have "\<not> isLoading initialState" by (simp add: initialState_def)
  ultimately have "app_reachable initialState" "\<not> isLoading initialState" .
  from handleSubmit_run [OF this h]
  show "result (initialState\<lparr>result := Some \<lparr>bigO = ''O(n)'', p_confidence = 80, p_rmse = 0\<rparr>,
                        isBigOVisible := True\<rparr>) = Some \<lparr>bigO = ''O(n)'', p_confidence = 80, p_rmse = 0\<rparr>"
    by simp
qed

text \<open>
  C40. Every plan the page sends is strictly increasing and positive, as the
  engine's API asks, provided a doubling plan starts above 0 and a linear plan
  starts above 0; the code checks neither, so \<open>doublingStart = 0\<close> sends
  sizes 0, which make the logarithmic fit \<open>NaN\<close> (C10).
\<close>

theorem input_sizes_valid:
  assumes "input_sizes fuel s = Some xs"
    and "growthStrategy s = ''doubling'' \<longrightarrow> 0 < doublingStart s"
    and "growthStrategy s = ''linear'' \<longrightarrow> 0 < linearStart s"
  shows "sorted_wrt (<) xs \<and> (\<forall>x \<in> set xs. 0 < x)"
proof (cases "useSuperRange s")
  case True
  with assms(1) have xs: "xs = js_array_from 100 (\<lambda>i. (int i + 1) * 10)"
    by (simp add: input_sizes_def)
  show ?thesis unfolding xs by (rule js_array_from_valid) (auto intro: strict_monoI)
next
  case nsr: False
  consider "growthStrategy s = ''powersOf10''" | "growthStrategy s = ''doubling''"
    | "growthStrategy s = ''linear''"
    | "growthStrategy s \<noteq> ''powersOf10''" "growthStrategy s \<noteq> ''doubling''" "growthStrategy s \<noteq> ''linear''"
    by blast
  then show ?thesis
  proof cases
    case 1
    with nsr assms(1) have xs: "xs = js_array_from (powersOf10Count s) (\<lambda>i. 10 ^ (i + 1))"
      by (simp add: input_sizes_def)
    show ?thesis unfolding xs
      by (rule js_array_from_valid) (auto intro: strict_monoI simp: power_strict_increasing)
  next
    case 2
    with assms(2) have d: "0 < doublingStart s" by simp
    from 2 nsr assms(1) have xs: "xs = js_array_from (doublingCount s) (\<lambda>i. doublingStart s * 2 ^ i)"
      by (simp add: input_sizes_def)
    show ?thesis unfolding xs
      by (rule js_array_from_valid) (auto intro: strict_monoI simp: d power_strict_increasing)
  next
    case 3
    with nsr assms(1) have "linear_sizes fuel (linearStart s) (linearEnd s) (linearStep s) = Some xs"
      by (simp add: input_sizes_def)
    from linear_sizes_Some [OF this] 3 assms(3) show ?thesis by fastforce
  next
    case 4
    with nsr assms(1) show ?thesis by (auto simp: input_sizes_def)
  qed
qed

lemma input_sizes_valid_witness:
  "input_sizes 0 initialState = Some [10, 100, 1000, 10000] \<and> sorted_wrt (<) [10, 100, 1000, 10000 :: int] \<and>
   list_all (\<lambda>x. 0 < x) [10, 100, 1000, 10000 :: int]"
proof -
  have h: "input_sizes 0 initialState = Some [10, 100, 1000, 10000]"
    by (simp add: input_sizes_def initialState_def js_array_from_def upt_rec numeral_eq_Suc)
  from input_sizes_valid [OF h] have "sorted_wrt (<) [10, 100, 1000, 10000 :: int] \<and>
      (\<forall>x \<in> set [10, 100, 1000, 10000 :: int]. 0 < x)"
    by (simp add: initialState_def)
  with h show ?thesis by simp
qed

end
