(* ===== verification/Page.thy ===== *)
theory Page
  imports Frontend
begin

text \<open>
  The rendered page of \<open>src/web-frontend/src/App.js\<close>: the JSX of \<open>App\<close>
  (lines 125--290) as the elements on display (\<open>view\<close>), the events those
  elements offer (\<open>enabled\<close>) with the action each dispatches
  (\<open>event_action\<close>), and the runs of the page in the browser (\<open>ui_step\<close>):
  the form's state together with the requests \<open>handleSubmit\<close> has sent and
  that are not yet answered.  A submit dispatches \<open>START_ANALYSIS\<close> and, when
  its size plan ends, sends the form's request; a reply answers the oldest
  pending request and dispatches its action, whatever the page shows.  A
  plan whose loop does not end freezes the page (\<open>Frontend\<close>, C37): that
  submit has no step.  \<open>page_run\<close> runs the page on a list of inputs.
\<close>

section \<open>The rendered page\<close>

text \<open>
  The JSX of \<open>App\<close> (lines 125--290) as the list of the elements on
  display, in document order, each with the state it shows.  The number
  inputs are tagged with the field they show and write.
\<close>

datatype num_field = PowersOf10Count | DoublingStart | DoublingCount | LinearStart | LinearEnd | LinearStep

primrec num_value :: "num_field \<Rightarrow> app_state \<Rightarrow> int" where
  "num_value PowersOf10Count s = powersOf10Count s"
| "num_value DoublingStart s = doublingStart s"
| "num_value DoublingCount s = doublingCount s"
| "num_value LinearStart s = linearStart s"
| "num_value LinearEnd s = linearEnd s"
| "num_value LinearStep s = linearStep s"

primrec num_update :: "num_field \<Rightarrow> int \<Rightarrow> field_update" where
  "num_update PowersOf10Count v = SetPowersOf10Count v"
| "num_update DoublingStart v = SetDoublingStart v"
| "num_update DoublingCount v = SetDoublingCount v"
| "num_update LinearStart v = SetLinearStart v"
| "num_update LinearEnd v = SetLinearEnd v"
| "num_update LinearStep v = SetLinearStep v"

datatype element =
    AlgoNameInput string
  | CodeInput string
  | ModeRadio string bool
  | StrategySelect string bool
  | NumberInput num_field int
  | SuperRangeBox bool
  | SubmitButton bool string
  | ErrorBox string
  | BigOLine string
  | LowConfidenceLine
  | ConfidenceLine real
  | RmseLine real
  | GraphImage

text \<open>The values of the radio buttons (lines 159, 168) and of the options (184--186).\<close>

definition modeOptions :: "string list" where
  "modeOptions = [''array'', ''number'']"

definition strategyOptions :: "string list" where
  "strategyOptions = [''powersOf10'', ''doubling'', ''linear'']"

text \<open>Lines 190--257: the inputs of the selected strategy, none under the super range.\<close>

definition strategy_inputs :: "app_state \<Rightarrow> element list" where
  "strategy_inputs s =
     (if useSuperRange s then []
      else (if growthStrategy s = ''powersOf10''
            then [NumberInput PowersOf10Count (powersOf10Count s)] else []) @
           (if growthStrategy s = ''doubling''
            then [NumberInput DoublingStart (doublingStart s), NumberInput DoublingCount (doublingCount s)]
            else []) @
           (if growthStrategy s = ''linear''
            then [NumberInput LinearStart (linearStart s), NumberInput LinearEnd (linearEnd s),
                  NumberInput LinearStep (linearStep s)]
            else []))"

text \<open>Lines 131--272: the form.\<close>

definition view_form :: "app_state \<Rightarrow> element list" where
  "view_form s =
     [AlgoNameInput (algoName s), CodeInput (code s),
      ModeRadio ''array'' (inputMode s = ''array''), ModeRadio ''number'' (inputMode s = ''number''),
      StrategySelect (growthStrategy s) (useSuperRange s)] @
     strategy_inputs s @
     [SuperRangeBox (useSuperRange s),
      SubmitButton (isLoading s) (if isLoading s then ''Analyzing...'' else ''Analyze'')]"

text \<open>Line 274: \<open>{error && ...}\<close>; the empty string is falsy.\<close>

definition error_view :: "app_state \<Rightarrow> element list" where
  "error_view s = (case error s of Some e \<Rightarrow> if e = [] then [] else [ErrorBox e] | None \<Rightarrow> [])"

text \<open>Lines 276--290: the results, the label hidden behind the notice until revealed.\<close>

definition result_view :: "app_state \<Rightarrow> element list" where
  "result_view s =
     (case result s of
        None \<Rightarrow> []
      | Some p \<Rightarrow>
          (if isBigOVisible s then [BigOLine (bigO p)] else [LowConfidenceLine]) @
          [ConfidenceLine (p_confidence p), RmseLine (p_rmse p), GraphImage])"

definition view :: "app_state \<Rightarrow> element list" where
  "view s = view_form s @ error_view s @ result_view s"

text \<open>
  What the user can do on the rendered page, each the \<open>onChange\<close>,
  \<open>onClick\<close> or \<open>onSubmit\<close> of an element; \<open>NumberChange\<close> carries the
  \<open>parseInt\<close> of the typed value.
\<close>

datatype ui_event =
    AlgoNameChange string
  | CodeChange string
  | ModeChange string
  | StrategyChange string
  | NumberChange num_field int
  | SuperRangeChange bool
  | RevealClick
  | SubmitClick

text \<open>Lines 131, 138, 149, 161, 170, 181, 199--251, 264 and 282: the action each event dispatches first.\<close>

primrec event_action :: "ui_event \<Rightarrow> action" where
  "event_action (AlgoNameChange v) = SET_FIELD (SetAlgoName v)"
| "event_action (CodeChange v) = SET_FIELD (SetCode v)"
| "event_action (ModeChange v) = SET_FIELD (SetInputMode v)"
| "event_action (StrategyChange v) = SET_FIELD (SetGrowthStrategy v)"
| "event_action (NumberChange f v) = SET_FIELD (num_update f v)"
| "event_action (SuperRangeChange b) = SET_FIELD (SetUseSuperRange b)"
| "event_action RevealClick = SET_FIELD (SetIsBigOVisible True)"
| "event_action SubmitClick = START_ANALYSIS"

text \<open>
  The events the view offers: a radio's \<open>onChange\<close> fires when it is
  checked, the select only while enabled and with one of its options, a
  number input only while shown, the checkbox toggles, the notice is
  clicked only while shown.  A submit needs the enabled button (line 269:
  implicit submission is blocked with it) and a non-empty algorithm name
  (\<open>required\<close>, line 139).
\<close>

primrec enabled :: "app_state \<Rightarrow> ui_event \<Rightarrow> bool" where
  "enabled s (AlgoNameChange v) = True"
| "enabled s (CodeChange v) = True"
| "enabled s (ModeChange v) = (v \<in> set modeOptions \<and> ModeRadio v False \<in> set (view s))"
| "enabled s (StrategyChange v) = (v \<in> set strategyOptions \<and> StrategySelect (growthStrategy s) False \<in> set (view s))"
| "enabled s (NumberChange f v) = (NumberInput f (num_value f s) \<in> set (view s))"
| "enabled s (SuperRangeChange b) = (SuperRangeBox (\<not> b) \<in> set (view s))"
| "enabled s RevealClick = (LowConfidenceLine \<in> set (view s))"
| "enabled s SubmitClick = (SubmitButton False ''Analyze'' \<in> set (view s) \<and> algoName s \<noteq> [])"

text \<open>
  The page in the browser: the form's state and the requests sent and not
  yet answered, oldest first (\<open>fetch\<close> is asynchronous, line 107).
\<close>

type_synonym page = "app_state \<times> request list"

text \<open>
  The runs of the rendered page: an event the view offers other than the
  submit dispatches its action (lines 131--282); a submit offered by the
  view runs \<open>handleSubmit\<close> (lines 78--104): \<open>START_ANALYSIS\<close>, then the
  request of the form's plan is sent; the reply to the oldest pending
  request dispatches the action of its outcome (lines 113--121).
\<close>

inductive ui_step :: "page \<Rightarrow> page \<Rightarrow> bool" where
  event: "\<lbrakk>enabled s ev; ev \<noteq> SubmitClick\<rbrakk> \<Longrightarrow>
    ui_step (s, pending) (reducer s (event_action ev), pending)"
| submit: "\<lbrakk>enabled s SubmitClick; handleSubmit fuel outcome s = Some (req, s')\<rbrakk> \<Longrightarrow>
    ui_step (s, pending) (reducer s (event_action SubmitClick), pending @ [req])"
| reply: "ui_step (s, req # pending) (reducer s (response_action outcome), pending)"

inductive ui_reachable :: "page \<Rightarrow> bool" where
  init: "ui_reachable (initialState, [])"
| step: "ui_reachable p \<Longrightarrow> ui_step p q \<Longrightarrow> ui_reachable q"

datatype page_input = User ui_event | Reply fetch_outcome

text \<open>
  A run of the page on a list of inputs, each plan computed with the given
  fuel; \<open>None\<close> when an input is not offered, no request is pending for a
  reply, or a plan does not end within the fuel.
\<close>

fun page_run :: "nat \<Rightarrow> page \<Rightarrow> page_input list \<Rightarrow> page option" where
  "page_run fuel p [] = Some p"
| "page_run fuel (s, pending) (User ev # inputs) =
     (if \<not> enabled s ev then None
      else if ev = SubmitClick then
        (case handleSubmit fuel ConnectFailed s of
           None \<Rightarrow> None
         | Some (req, _) \<Rightarrow> page_run fuel (reducer s (event_action ev), pending @ [req]) inputs)
      else page_run fuel (reducer s (event_action ev), pending) inputs)"
| "page_run fuel (s, pending) (Reply outcome # inputs) =
     (case pending of
        [] \<Rightarrow> None
      | req # rest \<Rightarrow> page_run fuel (reducer s (response_action outcome), rest) inputs)"

section \<open>Lemmas\<close>

lemmas view_defs = view_def view_form_def strategy_inputs_def error_view_def result_view_def

lemma num_update_form [simp]:
  "growthStrategy (set_field s (num_update f v)) = growthStrategy s"
  "inputMode (set_field s (num_update f v)) = inputMode s"
  "useSuperRange (set_field s (num_update f v)) = useSuperRange s"
  "isLoading (set_field s (num_update f v)) = isLoading s"
  by (cases f; simp)+

lemma set_field_isLoading [simp]: "isLoading (set_field s f) = isLoading s"
  by (cases f) simp_all

lemma submit_enabled_idle: "enabled s SubmitClick \<Longrightarrow> \<not> isLoading s"
  by (auto simp: view_defs split: option.splits if_splits)

lemma event_action_field: "ev \<noteq> SubmitClick \<Longrightarrow> \<exists>f. event_action ev = SET_FIELD f"
  by (cases ev) auto

lemma page_run_reachable:
  "ui_reachable p \<Longrightarrow> page_run fuel p inputs = Some q \<Longrightarrow> ui_reachable q"
proof (induction fuel p inputs rule: page_run.induct)
  case (2 fuel s pending ev inputs)
  show ?case
  proof (cases "ev = SubmitClick")
    case True
    with "2.prems" obtain req s' where h: "handleSubmit fuel ConnectFailed s = Some (req, s')"
      and e: "enabled s ev"
      and r: "page_run fuel (reducer s (event_action ev), pending @ [req]) inputs = Some q"
      by (auto split: if_splits option.splits)
    have "ui_reachable (reducer s (event_action ev), pending @ [req])"
      using "2.prems"(1) ui_step.submit [OF e [unfolded True] h] True by (blast intro: ui_reachable.step)
    with "2.IH"(1) [OF e [THEN not_not [THEN iffD2]] True] h r show ?thesis
      by (auto split: if_splits option.splits)
  next
    case False
    with "2.prems" have e: "enabled s ev"
      and r: "page_run fuel (reducer s (event_action ev), pending) inputs = Some q"
      by (auto split: if_splits)
    have "ui_reachable (reducer s (event_action ev), pending)"
      using "2.prems"(1) ui_step.event [OF e False] by (blast intro: ui_reachable.step)
    with "2.IH"(2) e False r show ?thesis by simp
  qed
next
  case (3 fuel s pending outcome inputs)
  then obtain req rest where p: "pending = req # rest"
    and r: "page_run fuel (reducer s (response_action outcome), rest) inputs = Some q"
    by (auto split: list.splits)
  have "ui_reachable (reducer s (response_action outcome), rest)"
    using "3.prems"(1) ui_step.reply [of s req rest outcome] p by (blast intro: ui_reachable.step)
  with "3.IH" p r show ?case by simp
qed simp

lemma handleSubmit_request:
  "map_option fst (handleSubmit fuel outcome s) =
   map_option (\<lambda>xs. \<lparr>req_code = code s, req_algoName = algoName s, req_inputMode = inputMode s,
                      req_inputSizes = xs\<rparr>) (input_sizes fuel s)"
  by (simp add: handleSubmit_def input_sizes_start Let_def split: option.split)

lemma input_sizes_view:
  "\<lbrakk>useSuperRange s = useSuperRange t; growthStrategy s = growthStrategy t;
    strategy_inputs s = strategy_inputs t\<rbrakk> \<Longrightarrow> input_sizes fuel s = input_sizes fuel t"
  by (auto simp: input_sizes_def strategy_inputs_def split: if_splits)

section \<open>Properties of the rendered page\<close>



text \<open>
  C19. The view only writes the values its controls carry: in every state
  the page can reach, the growth strategy is one of the three options of
  the select and the input mode one of the two radio values, so the
  \<open>default\<close> branch of \<open>handleSubmit\<close>'s switch (lines 99--100) is dead code.
\<close>

theorem ui_reachable_form:
  "ui_reachable p \<Longrightarrow>
   growthStrategy (fst p) \<in> {''powersOf10'', ''doubling'', ''linear''} \<and> inputMode (fst p) \<in> {''array'', ''number''}"
proof (induction rule: ui_reachable.induct)
  case init
  show ?case by (simp add: initialState_def)
next
  case (step p q)
  obtain s0 pending0 where p: "p = (s0, pending0)" by (cases p)
  obtain s pending where q: "q = (s, pending)" by (cases q)
  from step.IH p have IH: "growthStrategy s0 \<in> {''powersOf10'', ''doubling'', ''linear''}"
      "inputMode s0 \<in> {''array'', ''number''}" by auto
  from step.hyps(2) [unfolded p q]
  have "growthStrategy s \<in> {''powersOf10'', ''doubling'', ''linear''} \<and> inputMode s \<in> {''array'', ''number''}"
  proof cases
    case (event ev)
    with IH show ?thesis by (cases ev) (simp_all add: modeOptions_def strategyOptions_def)
  next
    case (submit fuel outcome req s')
    with IH show ?thesis by simp
  next
    case (reply req outcome)
    with IH show ?thesis by (cases outcome) (simp_all add: response_action_def)
  qed
  with q show ?case by simp
qed

lemma ui_reachable_form_witness:
  "page_run 0 (initialState, []) [User (StrategyChange ''linear''), User (ModeChange ''number'')] =
     Some (initialState\<lparr>growthStrategy := ''linear'', inputMode := ''number''\<rparr>, []) \<and>
   ''linear'' \<in> {''powersOf10'', ''doubling'', ''linear''} \<and> ''number'' \<in> {''array'', ''number''}"
proof -
  have r: "page_run 0 (initialState, []) [User (StrategyChange ''linear''), User (ModeChange ''number'')] =
     Some (initialState\<lparr>growthStrategy := ''linear'', inputMode := ''number''\<rparr>, [])"
    by (simp add: view_defs initialState_def modeOptions_def strategyOptions_def)
  have "ui_reachable (initialState\<lparr>growthStrategy := ''linear'', inputMode := ''number''\<rparr>, [])"
    by (rule page_run_reachable [OF ui_reachable.init r])
  from r ui_reachable_form [OF this] show ?thesis by simp
qed

text \<open>
  C29. What the user sees is what is submitted: two states whose forms
  render the same (input mode one of the radio values) send the same
  request, or both hang; the plan reads only the fields the form shows.
\<close>

theorem view_submit:
  assumes "inputMode s \<in> set modeOptions" "inputMode t \<in> set modeOptions"
    and "view_form s = view_form t"
  shows "map_option fst (handleSubmit fuel outcome s) = map_option fst (handleSubmit fuel outcome t)"
proof -
  from assms(3) have eqs: "algoName s = algoName t" "code s = code t" "growthStrategy s = growthStrategy t"
      "useSuperRange s = useSuperRange t"
      "(inputMode s = ''array'') = (inputMode t = ''array'')"
      "(inputMode s = ''number'') = (inputMode t = ''number'')"
      "strategy_inputs s = strategy_inputs t"
    by (simp_all add: view_form_def)
  with assms(1,2) have "inputMode s = inputMode t" by (auto simp: modeOptions_def)
  with eqs input_sizes_view [OF eqs(4,3,7)] show ?thesis by (simp add: handleSubmit_request)
qed

lemma view_submit_witness:
  "''array'' \<in> set modeOptions \<and>
   view_form initialState = view_form (initialState\<lparr>linearStep := 0\<rparr>) \<and>
   map_option fst (handleSubmit 0 ConnectFailed initialState) =
   map_option fst (handleSubmit 0 ConnectFailed (initialState\<lparr>linearStep := 0\<rparr>))"
proof -
  have m: "inputMode initialState \<in> set modeOptions" "inputMode (initialState\<lparr>linearStep := 0\<rparr>) \<in> set modeOptions"
    by (simp_all add: initialState_def modeOptions_def)
  have v: "view_form initialState = view_form (initialState\<lparr>linearStep := 0\<rparr>)"
    by (simp add: view_form_def strategy_inputs_def initialState_def)
  from view_submit [OF m v] v show ?thesis by (simp add: modeOptions_def)
qed

text \<open>
  C35. A result's label is on display exactly when \<open>isBigOVisible\<close> holds;
  otherwise the low-confidence notice is, it is the only way to reveal the
  label, and clicking it puts the label on display.
\<close>

theorem reveal_click:
  assumes "result s = Some p"
  shows "(BigOLine (bigO p) \<in> set (view s) \<longleftrightarrow> isBigOVisible s) \<and>
    (enabled s RevealClick \<longleftrightarrow> \<not> isBigOVisible s) \<and>
    BigOLine (bigO p) \<in> set (view (reducer s (event_action RevealClick)))"
  using assms by (auto simp: view_defs split: option.splits)

lemma reveal_click_witness:
  "enabled (initialState\<lparr>result := Some \<lparr>bigO = ''O(n)'', p_confidence = 50, p_rmse = 1\<rparr>\<rparr>) RevealClick \<and>
   BigOLine ''O(n)'' \<notin> set (view (initialState\<lparr>result := Some \<lparr>bigO = ''O(n)'', p_confidence = 50, p_rmse = 1\<rparr>\<rparr>)) \<and>
   BigOLine ''O(n)'' \<in> set (view (reducer (initialState\<lparr>result := Some \<lparr>bigO = ''O(n)'', p_confidence = 50, p_rmse = 1\<rparr>\<rparr>)
      (event_action RevealClick)))"
proof -
  have r: "result (initialState\<lparr>result := Some \<lparr>bigO = ''O(n)'', p_confidence = 50, p_rmse = 1\<rparr>\<rparr>) =
      Some \<lparr>bigO = ''O(n)'', p_confidence = 50, p_rmse = 1\<rparr>" by simp
  from reveal_click [OF r] show ?thesis by (simp add: initialState_def)
qed

end
