(* ===== verification/Spec2Isabelle.thy ===== *)
theory Spec2Isabelle
  imports Facade TestAlgorithms Scripts Page
begin

text \<open>
  \<^bold>\<open>A verification development for the big-O calculator.\<close>

  \<^bold>\<open>The program.\<close>  The repository estimates the time complexity of a
  JavaScript function empirically.  Its engine is \<open>src/calculator.js\<close>
  (staged as \<open>src/unnamed/part_000\<close>, lines 78--291; an older revision is
  \<open>src/unnamed/part_001\<close>, lines 1--141).  Its parts, leaf first:
  \<^item> \<open>generateInputArray\<close> builds the argument \<open>[0, ..., n-1]\<close> (or passes
    \<open>n\<close> itself in \<open>'number'\<close> mode);
  \<^item> \<open>runAnalysis\<close> (the benchmarker) warms the candidate up, calibrates a
    batch size per input size against \<open>performance.now()\<close>, times
    \<open>iterations\<close> batches and emits one \<open>{n, time}\<close> sample per size;
  \<^item> \<open>determineComplexity\<close> (the classifier) fits five models by least squares
    (\<open>simple-statistics\<close>' \<open>linearRegression\<close> and \<open>mean\<close>), ranks them by
    RMSE, applies the ultra-fast rule or the 15\<percent> Occam tie-break, and scores a
    confidence;
  \<^item> \<open>runSingleAnalysis\<close> (\<open>src/utils/analysisRunner.js\<close>) composes the two,
    short-circuiting fewer than two sizes;
  \<^item> around them: console input helpers, two interactive CLIs and two
    verification scripts, the benchmark algorithms of
    \<open>src/test_algorithms.js\<close>, and a React front end
    (\<open>src/web-frontend/src/App.js\<close>) whose reducer drives the form and gates
    the label on the confidence.
  Data flows one way: sizes, samples, classification.

  \<^bold>\<open>What is modelled, and where.\<close>
  \<^item> \<open>Prelude\<close>: the \<open>{n, time}\<close> sample record (\<open>data_point\<close>), the
    JavaScript built-ins the engine relies on (\<open>x || d\<close> as \<open>js_or\<close>,
    \<open>Math.round\<close> as \<open>js_round\<close>, \<open>String.prototype.includes\<close> as
    \<open>str_includes\<close>, \<open>ss.mean\<close> as \<open>ss_mean\<close>), and shared lemmas on sums
    of squares, stable sorting and \<open>find\<close>.
  \<^item> \<open>Regression\<close>: \<open>linearRegression\<close>, \<open>linearRegressionLine\<close> (from the
    package's closed form), \<open>calculateRMSE\<close>, the four covariate transforms
    and \<open>getRegressionRMSE\<close>.  The lemmas: the RMSE is non-negative and 0
    exactly on a perfect fit; the least-squares denominator is
    \<open>n * \<Sum> (x - mean)^2\<close>, positive exactly when two covariates differ; the
    regression recovers an exact line; every transform is injective on
    positive sizes.
  \<^item> \<open>Classifier\<close>: the \<open>models\<close> records (\<open>cmodel\<close>), the result record,
    \<open>mk_models\<close> (the array literal), \<open>occam_scan\<close> (the tolerance loop),
    \<open>ultra_fast_best\<close>, \<open>second_best\<close>, \<open>standard_confidence\<close>,
    \<open>classify_models\<close> and \<open>determineComplexity\<close>, each the code's function
    or block with its guards.  The lemmas: the result's structure, the
    invariant of the Occam scan (each promotion costs at most 15\<percent> of RMSE and
    moves down a rank), the confidence bounds, definedness on well-formed data.
  \<^item> \<open>Inputs\<close>: \<open>generateInputArray\<close> and the mode test
    \<open>inputMode === 'number' ? n : generateInputArray(n)\<close> (\<open>materialize\<close>).
  \<^item> \<open>Benchmarker\<close>: \<open>runAnalysis\<close> (\<open>part_000\<close> lines 98--163) as explicit
    state passing over a record \<open>env\<close>: the readings of \<open>performance.now()\<close>
    (a mocked clock, consumed one per call of \<open>now\<close>), and the log of the
    arguments the candidate received.  The candidate returns its exception, if
    any, and the argument as it leaves it, so an in-place algorithm is
    modelled.  One definition per loop: \<open>run_calls\<close> (warmup and batch),
    \<open>calibrate\<close> (the calibration \<open>while\<close>), \<open>batch_size\<close>,
    \<open>measure_once\<close>/\<open>measure_loop\<close> (the measurement \<open>for\<close>),
    \<open>measure_size\<close>/\<open>measure_sizes\<close> (the loop over sizes).  The lemmas: a
    frame lemma per operation (what it reads, what it logs), totality for a
    candidate that never throws, error propagation, and the calibration
    invariant by computation induction.
  \<^item> \<open>Facade\<close>: \<open>runSingleAnalysis\<close> (\<open>src/utils/analysisRunner.js\<close>) with
    its short-circuit, composing the two stages; an error is tagged with the
    stage that raised it.
  \<^item> \<open>TestAlgorithms\<close>: the benchmark functions of \<open>src/src/test_algorithms.js\<close>,
    each loop a \<open>function\<close> with its measure: the sum loop against
    \<open>sum_list\<close>, the nested counter, and the binary search (\<open>arr[i]\<close> out of range
    is \<open>undefined\<close>) with its correctness on sorted arrays and its
    \<open>log2 n + 1\<close> iteration bound.
  \<^item> \<open>Legacy\<close>: the older \<open>calculator.js\<close> of \<open>part_001\<close> (lines 21--135):
    \<open>runAnalysis_legacy\<close> on the benchmarker's state, and the \<open>R^2\<close> classifier
    \<open>determineComplexity_legacy\<close> with \<open>rSquared\<close> (from the package), the
    descending sort and the two chained Occam checks \<open>occam_legacy\<close>.
  \<^item> \<open>ConsoleInput\<close>: the helpers of \<open>src/utils/input.js\<close> (\<open>part_000\<close>
    lines 1--51) with the two built-ins they rest on written out after
    ECMAScript: \<open>Number(string)\<close> (\<open>js_number\<close>: trimming, the decimal literal
    with sign, fraction and exponent, \<open>Infinity\<close>, \<open>0x\<close>/\<open>0o\<close>/\<open>0b\<close>, overflow
    to infinity and underflow to 0) and \<open>parseInt\<close> of a number
    (\<open>js_parseInt_num\<close>, which reads the printed number, in exponent
    notation outside \<open>[1e-6, 1e21)\<close>); a double is \<open>jsnum\<close> (finite, the two
    infinities, \<open>NaN\<close>) with IEEE \<open>+\<close>, \<open>*\<close> and comparisons; integers print
    by \<open>string_of_int\<close>.  The lemmas: the print/parse round trip up to
    \<open>2^53\<close>, every
    answer an integer or \<open>NaN\<close>, the exponent cases.
  \<^item> \<open>Cli\<close>: the two interactive mains of \<open>part_001\<close> (the older, lines
    142--219, on \<open>Legacy\<close>; the current, lines 220--386, on \<open>Benchmarker\<close>
    and \<open>Classifier\<close>) over a \<open>console\<close> record of pending answers, one
    stream per kind of prompt: the algorithm and source menus, loading a
    module (what \<open>require\<close> yields is a parameter), the three growth-strategy
    loops as \<open>partial_function (option)\<close> (\<open>powers_loop\<close>,
    \<open>doubling_loop\<close>, \<open>linear_loop\<close>) on \<open>jsnum\<close>, the analysis, the
    rerun prompt and the "Super Range" rerun, and what \<open>displayAnalysis\<close>
    prints (\<open>report_line\<close>s: label, coloured confidence, warning, the fits,
    the graph or its caught failure), after which the rerun is offered only
    if the warning was printed.  A main returns the analyses it
    ran; \<open>None\<close> is waiting for an answer that never comes or a loop that
    never ends.  The built-ins of \<open>src/src/test_algorithms.js\<close> are, to the
    benchmarker, candidates that never throw and never write their argument.
  \<^item> \<open>Scripts\<close>: \<open>src/verifyAlg.js\<close> (the standard and high-precision plans,
    the quadratic filter, \<open>formatResult\<close>, the results table through
    \<open>runSingleAnalysis\<close>) and \<open>src/src/verify_all_algos.js\<close> (the four tests,
    the pass count and the exit code), the latter over either calculator
    since the \<open>./calculator\<close> it loads is not in the repository.
  \<^item> \<open>Frontend\<close>: \<open>src/web-frontend/src/App.js\<close>: the form state as a
    record, the actions as a datatype, \<open>reducer\<close>, the size plans and
    \<open>handleSubmit\<close>, and \<open>app_step\<close>, an abstract model of the page's runs
    (any field edit at any time, a submit only when idle, a reply only while
    loading) with its reachable states \<open>app_reachable\<close>.  \<open>app_step\<close> is a
    specification, not a translation: the rendered page is shown to refine it.
  \<^item> \<open>Page\<close>: the rendered page (the JSX, lines 125--290) as the list of
    elements \<open>view\<close> shows, the events those elements offer (\<open>enabled\<close>: a
    radio when unchecked, the select when not disabled and with its options,
    the number inputs of the shown strategy, the notice when shown, a submit
    when the button is enabled and the \<open>required\<close> name is filled) with the
    action each dispatches (\<open>event_action\<close>), and the runs of the page in the
    browser (\<open>ui_step\<close>) over the form's state and the requests sent and not
    yet answered: a submit runs \<open>handleSubmit\<close> and sends its request when
    the plan ends, a reply answers the oldest pending request.
    \<open>page_run\<close> runs the page on a list of inputs.

  \<^bold>\<open>How the model reads the code.\<close>  JavaScript numbers are IEEE doubles;
  the model computes with exact reals (\<open>real\<close>) and sizes as \<open>nat\<close>, so
  rounding of the regression sums is not modelled.  A computation that is
  \<open>NaN\<close> or infinite in JavaScript (\<open>0/0\<close> slope when all covariates agree,
  \<open>Math.log(0)\<close>) is \<open>None\<close> in the regression and the error value
  \<open>NonFiniteFit\<close> of the classifier: the code does not throw there but
  returns a result built from \<open>NaN\<close>s, which the model does not follow.
  \<open>ss.mean\<close> of an empty array throws: \<open>MeanOfEmpty\<close>.
  \<open>Array.prototype.sort\<close> with the comparator \<open>a.rmse - b.rmse\<close> is
  stable (ES2019), hence the library's \<open>sort_key\<close>.  Object identity
  (\<open>===\<close>) between models is record equality: the five models have distinct
  labels.  No claim rests on a tie or an exact value that rounding would
  break: the knife edges that remain are named with their claims (a
  covariate denominator that rounds to 0 for sizes such as
  \<open>[10^7, 10^7 + 1]\<close> against C9 and C24, an RMSE of exactly 0 that is
  about \<open>10^-16\<close> in doubles in C12, powers of ten from \<open>10^309\<close> on that the
  page sends as \<open>null\<close> against C40, a linear plan from \<open>2^53\<close> on that stalls
  against C36), and the round trip C18 stops at \<open>2^53\<close>.

  \<^bold>\<open>Bounds, termination and fuel.\<close>  The calibration loop stops at \<open>10^6\<close>
  calls whatever the clock does, so \<open>calibrate\<close> is a \<open>function\<close> whose
  termination measure is \<open>10^6 - calCount\<close>; the other benchmarker loops count
  down a natural number.  The loops of the benchmark algorithms terminate by
  the measures \<open>length - i\<close> and \<open>high - low + 1\<close>; the digit loops of
  \<open>parseInt\<close> by the integer part and the ceiling of the reciprocal.  The
  loops that need not end run on fuel or as partial functions: the linear
  size plan of the front end on fuel, with a positive step \<open>linear_count + 1\<close>
  units are enough and give the plan (C36), with a step that is not positive
  no amount is (C37); the three CLI loops as \<open>partial_function (option)\<close>,
  which end on every bound but \<open>+Infinity\<close> (closed forms
  \<open>powers_loop_fin\<close>, \<open>doubling_loop_fin\<close>, \<open>linear_loop_fin\<close>), a bound
  the console never produces (C17, from C22).  Properties about a monotone
  clock (\<open>mono (clock s)\<close>) are the ones \<open>performance.now()\<close> guarantees.

  \<^bold>\<open>The properties\<close>, claims C1--C40.  In \<open>Classifier\<close> and
  \<open>Regression\<close>: results sorted by RMSE, each label with its own fit (C1),
  confidence in \<open>[-22, 100]\<close> (C3), the ultra-fast rule (C5), the bounded
  cost of the Occam tie-break (C6), one sample classified \<open>O(1)\<close> (C8), no
  \<open>NaN\<close> on well-formed data (C9), size 0 gives a \<open>NaN\<close> fit (C10),
  noiseless linear data fitted exactly (C12).  In \<open>Benchmarker\<close>: totality
  for a candidate that never throws (C2), the clock reads per size (C7), one
  sample per size in order (C13), every failure is the candidate's throw
  (C16), a fresh input per batch (C20), a frozen clock gives batches of
  \<open>1.5 * 10^10\<close> calls (C21).  In \<open>Facade\<close>: end-to-end totality (C24).  In
  \<open>TestAlgorithms\<close>: binary search's \<open>log2 n + 1\<close> iteration bound (C23), the
  sum (C26), binary search correctness (C28), the \<open>n^2\<close> count (C33).  In
  \<open>Legacy\<close>: the results sorted by \<open>R^2\<close>, each label with its own fit (C30),
  the chained Occam checks drift less than 0.02, not 0.01 (C32), the older
  benchmarker's samples, clock reads and call log (C34).  In
  \<open>ConsoleInput\<close>: the print/parse round trip of integers up to \<open>2^53\<close>
  (C18), every answer an integer or \<open>NaN\<close>, \<open>NaN\<close> exactly from an infinite
  \<open>Number\<close> (C22), \<open>1e21\<close> to \<open>1e308\<close> read as 1 and \<open>1e309\<close> on as \<open>NaN\<close>
  (C25).  In \<open>Cli\<close>: at most two analyses, the second exactly after a low
  confidence with a prompt and a yes, on the same function over the Super
  Range (C4), an empty plan crashes the current main in \<open>ss.mean\<close> (C11),
  the size-plan step always ends (C17), every classified label gets a rerun
  prompt (C27), the older main reports \<open>O(log n)\<close> from no sample (C31).  In
  \<open>Frontend\<close>: the linear plan's closed form (C36), the hang on a
  non-positive step (C37), the page invariant (C38), a submit as a run of the
  page (C39), the plans are increasing and positive when their start is
  (C40).  In \<open>Page\<close>: the rendered page refines \<open>app_step\<close> with at most one
  request in flight, loading exactly while one is pending (C15), its
  controls keep the strategy and mode among their options (C19), the form
  as shown determines the request (C29), the label is revealed exactly by
  the notice's click (C35).  Across components (this theory): the CLI's
  warning and the page's hidden label disagree exactly at a confidence of 75
  (C14).  Lemmas that back findings without being claims: a negative
  confidence in an explicit case (\<open>confidence_can_be_negative\<close>), the
  truncated tokens of \<open>formatResult\<close> (\<open>formatResult_token\<close>), no \<open>O(1)\<close>
  from the older classifier (\<open>determineComplexity_legacy_labels\<close>), a blank
  line read as 0 (\<open>getNumberFromConsole_blank\<close>), the warmup on the first
  size, zero iterations throw, \<open>R^2 = 1\<close> on linear data.

  \<^bold>\<open>Not modelled.\<close>  What the programs print beyond \<open>displayAnalysis\<close>'s
  lines (console tables, the other colours, \<open>toFixed\<close>), chart rendering (\<open>createGraph\<close>), path resolution and module
  loading (a parameter of the current CLI), the key decoding of
  \<open>readline-sync\<close> (the model takes its answers), the page's styling,
  the editing inside CodeMirror (its \<open>onChange\<close> value is the event's
  argument), the graph image and the HTTP transport (a reply is an outcome
  the model is given; a submit whose plan hangs has no step), the server and sandbox (not in \<open>src/\<close>), \<open>NaN\<close> from
  \<open>parseInt\<close> of an emptied form field, plans of negative, fractional or
  non-finite sizes in the benchmarker (reported as \<open>Unsupported\<close>), loop
  counters beyond \<open>2^53\<close>, white space outside Latin-1, and floating-point
  rounding between the overflow and underflow thresholds.  The second copy of
  \<open>getNumberFromConsole\<close> and \<open>getOptionFromConsole\<close> bundled in
  \<open>src/verifyAlg.js\<close> (lines 66--101) is the same code as \<open>part_000\<close>'s
  lines 1--31 and is modelled once, by \<open>ConsoleInput\<close>; the \<open>require\<close>s and
  \<open>module.exports\<close> are not code the model needs.
\<close>

section \<open>Across the front ends\<close>

text \<open>
  C14. The command-line main and the web page judge the same confidence
  differently: the CLI prints its low-confidence warning at 75 or below
  (\<open>displayAnalysis\<close>), the page hides the label behind its notice only below
  75 (\<open>reducer\<close>, \<open>isBigOVisible\<close>).  For the same confidence the two agree
  exactly when it is not 75.
\<close>

theorem confidence_75_divergence:
  assumes "real_of_int (confidence r) = p_confidence p"
  shows "(ReportLowConfidence \<in> set (displayAnalysis r graph) \<longleftrightarrow>
          LowConfidenceLine \<in> set (view (reducer s (ANALYSIS_SUCCESS p)))) \<longleftrightarrow> confidence r \<noteq> 75"
proof -
  have "LowConfidenceLine \<in> set (view (reducer s (ANALYSIS_SUCCESS p))) \<longleftrightarrow> p_confidence p < 75"
    by (auto simp: view_defs split: option.splits)
  with assms show ?thesis by (simp add: displayAnalysis_warning) linarith
qed

lemma confidence_75_divergence_witness:
  "ReportLowConfidence \<in> set (displayAnalysis \<lparr>bestFit = ''O(n) - Linear'', confidence = 75, results = []\<rparr>
      (GraphFailed ''no canvas'')) \<and>
   LowConfidenceLine \<notin> set (view (reducer initialState
      (ANALYSIS_SUCCESS \<lparr>bigO = ''O(n) - Linear'', p_confidence = 75, p_rmse = 0\<rparr>)))"
proof -
  have h: "real_of_int (confidence \<lparr>bestFit = ''O(n) - Linear'', confidence = 75, results = []\<rparr>) =
      p_confidence \<lparr>bigO = ''O(n) - Linear'', p_confidence = 75, p_rmse = 0\<rparr>" by simp
  have w: "ReportLowConfidence \<in> set (displayAnalysis \<lparr>bestFit = ''O(n) - Linear'', confidence = 75, results = []\<rparr>
      (GraphFailed ''no canvas''))" by (simp add: displayAnalysis_def)
  from confidence_75_divergence [OF h, of "GraphFailed ''no canvas''" initialState] w show ?thesis by simp
qed

end
